theory Spec2Isabelle
  imports Complex_Main "HOL-Library.Multiset"
begin

section \<open>GLib string helpers\<close>

text \<open>
  Strings are C strings: a \<^typ>\<open>string\<close> stands for the bytes before the terminating
  NUL, so it holds no NUL itself (\<open>c_string\<close>). A pointer that may be \<open>NULL\<close> is an
  \<^typ>\<open>'a option\<close>.
\<close>

definition c_string :: "string \<Rightarrow> bool" where
  "c_string s = (CHR 0x00 \<notin> set s)"

text \<open>\<open>TOLOWER\<close> of gstrfuncs.c: \<open>ISUPPER (c) ? (c) - 'A' + 'a' : (c)\<close>.\<close>

definition g_ascii_tolower :: "char \<Rightarrow> char" where
  "g_ascii_tolower c =
     (let n = (of_char c :: nat)
      in if 65 \<le> n \<and> n \<le> 90 then char_of (n - 65 + 97) else c)"

text \<open>
  \<open>g_ascii_strcasecmp\<close>: walks both strings while neither has ended, returns the
  difference of the first pair of lowered bytes that differ, and at the end of either
  string the difference of the two current bytes (the terminator counts as 0).
\<close>

fun g_ascii_strcasecmp :: "string \<Rightarrow> string \<Rightarrow> int" where
  "g_ascii_strcasecmp (x # s1) (y # s2) =
     (let c1 = (of_char (g_ascii_tolower x) :: int);
          c2 = (of_char (g_ascii_tolower y) :: int)
      in if c1 \<noteq> c2 then c1 - c2 else g_ascii_strcasecmp s1 s2)"
| "g_ascii_strcasecmp [] [] = 0"
| "g_ascii_strcasecmp [] (y # s2) = 0 - of_char y"
| "g_ascii_strcasecmp (x # s1) [] = of_char x - 0"

text \<open>\<open>g_strcmp0\<close> compared with 0: \<open>NULL\<close> equals only \<open>NULL\<close>.\<close>

definition g_strcmp0_eq :: "string option \<Rightarrow> string option \<Rightarrow> bool" where
  "g_strcmp0_eq a b = (a = b)"

section \<open>JSON values and the json-glib accessors the parser uses\<close>

text \<open>
  A \<open>JsonNode\<close> is a \<^typ>\<open>'a option\<close> of the value below (\<open>None\<close> is the \<open>NULL\<close>
  node). An object keeps its members in insertion order; a parsed object has no two
  members of one name. Lengths and indices are \<open>guint\<close>, modelled by \<^typ>\<open>nat\<close>.
\<close>

datatype json =
    JNull
  | JBool bool
  | JInt int
  | JDouble real
  | JString string
  | JArray "json list"
  | JObject "(string \<times> json) list"

type_synonym json_object = "(string \<times> json) list"

definition JSON_NODE_HOLDS_ARRAY :: "json option \<Rightarrow> bool" where
  "JSON_NODE_HOLDS_ARRAY node = (case node of Some (JArray _) \<Rightarrow> True | _ \<Rightarrow> False)"

definition json_node_get_array :: "json option \<Rightarrow> json list option" where
  "json_node_get_array node = (case node of Some (JArray xs) \<Rightarrow> Some xs | _ \<Rightarrow> None)"

definition json_array_get_length :: "json list \<Rightarrow> nat" where
  "json_array_get_length array = length array"

text \<open>\<open>json_node_get_object\<close> gives \<open>NULL\<close> for a node that is no object.\<close>

definition json_node_get_object :: "json option \<Rightarrow> json_object option" where
  "json_node_get_object node = (case node of Some (JObject kvs) \<Rightarrow> Some kvs | _ \<Rightarrow> None)"

text \<open>
  \<open>json_array_get_object_element\<close> gives \<open>NULL\<close> out of range and for an element
  that is no object.
\<close>

definition json_array_get_object_element :: "json list \<Rightarrow> nat \<Rightarrow> json_object option" where
  "json_array_get_object_element array i =
     (if i < length array then json_node_get_object (Some (array ! i)) else None)"

text \<open>\<open>json_object_get_member\<close>: \<open>NULL\<close> for a \<open>NULL\<close> object and for a missing member.\<close>

definition json_object_get_member :: "json_object option \<Rightarrow> string \<Rightarrow> json option" where
  "json_object_get_member object member_name =
     (case object of None \<Rightarrow> None | Some kvs \<Rightarrow> map_of kvs member_name)"

text \<open>\<open>json_node_get_string\<close>: the string of a string node, \<open>NULL\<close> for every other node.\<close>

definition json_node_get_string :: "json option \<Rightarrow> string option" where
  "json_node_get_string node = (case node of Some (JString s) \<Rightarrow> Some s | _ \<Rightarrow> None)"

definition json_object_get_string_member :: "json_object option \<Rightarrow> string \<Rightarrow> string option" where
  "json_object_get_string_member object member_name =
     json_node_get_string (json_object_get_member object member_name)"

definition json_array_get_string_element :: "json list \<Rightarrow> nat \<Rightarrow> string option" where
  "json_array_get_string_element array i =
     (if i < length array then json_node_get_string (Some (array ! i)) else None)"

text \<open>\<open>json_object_get_members\<close>: the member names in order, the empty list for \<open>NULL\<close>.\<close>

definition json_object_get_members :: "json_object option \<Rightarrow> string list" where
  "json_object_get_members object = (case object of None \<Rightarrow> [] | Some kvs \<Rightarrow> map fst kvs)"

section \<open>Effects: log lines, agent calls, package-manager calls\<close>

datatype prio = DLOG_INFO | DLOG_ERROR

datatype log_arg = LStr string | LNull | LNum nat

definition lstr :: "string option \<Rightarrow> log_arg" where
  "lstr s = (case s of None \<Rightarrow> LNull | Some x \<Rightarrow> LStr x)"

text \<open>
  The calls into the agent: \<open>ml_agent_model_register\<close> (name, path, active, description,
  app_info), \<open>ml_agent_pipeline_set_description\<close> (name, pipeline) and
  \<open>ml_agent_resource_add\<close> (name, path, description, app_info).
\<close>

datatype call =
    Register string string bool string string
  | SetPipelineDescription string string
  | AddResource string string string string

datatype pkgmgr_call =
    Get_pkginfo string
  | Get_type nat
  | Get_root_path nat
  | Get_res_type nat
  | Get_res_version nat
  | Destroy_pkginfo nat

datatype event =
    Log prio string "log_arg list"
  | Agent call
  | Pkgmgr pkgmgr_call

type_synonym trace = "event list"

fun agent_calls :: "trace \<Rightarrow> call list" where
  "agent_calls [] = []"
| "agent_calls (Agent c # tr) = c # agent_calls tr"
| "agent_calls (_ # tr) = agent_calls tr"

text \<open>
  The agent is outside the repository: it answers a call, after the calls made so far,
  with a status and (for a registration) the version it assigned.
\<close>

type_synonym agent = "call list \<Rightarrow> call \<Rightarrow> int \<times> nat"

definition invoke :: "agent \<Rightarrow> call \<Rightarrow> trace \<Rightarrow> (int \<times> nat) \<times> trace" where
  "invoke ag c tr = (ag (agent_calls tr) c, tr @ [Agent c])"

definition or_empty :: "string option \<Rightarrow> string" where
  "or_empty s = (case s of None \<Rightarrow> [] | Some x \<Rightarrow> x)"

section \<open>The manifest parser (mlops-plugin-parser.cc)\<close>

datatype mlsvc_json_type_e =
  MLSVC_JSON_MODEL | MLSVC_JSON_PIPELINE | MLSVC_JSON_RESOURCE | MLSVC_JSON_MAX

subsection \<open>\<open>_parse_json\<close>: one entry of each category\<close>

definition parse_model :: "agent \<Rightarrow> string option \<Rightarrow> json_object option \<Rightarrow> trace \<Rightarrow> trace" where
  "parse_model ag app_info object tr =
     (let name = json_object_get_string_member object ''name'';
          model = json_object_get_string_member object ''model'';
          desc = json_object_get_string_member object ''description'';
          activate = json_object_get_string_member object ''activate''
      in case (name, model) of
           (Some n, Some m) \<Rightarrow>
             (let active = (case activate of None \<Rightarrow> False
                            | Some a \<Rightarrow> g_ascii_strcasecmp a ''true'' = 0);
                  ((ret, version), tr1) =
                     invoke ag (Register n m active (or_empty desc) (or_empty app_info)) tr
              in if ret = 0
                 then tr1 @ [Log DLOG_INFO
                        ''The model with name '%s' is registered as version '%u'.''
                        [LStr n, LNum version]]
                 else tr1 @ [Log DLOG_ERROR
                        ''Failed to register the model with name '%s'.'' [LStr n]])
         | _ \<Rightarrow> tr @ [Log DLOG_ERROR
                        ''Failed to get name or model from MLSVC_JSON_MODEL.'' []])"

definition parse_pipeline :: "agent \<Rightarrow> json_object option \<Rightarrow> trace \<Rightarrow> trace" where
  "parse_pipeline ag object tr =
     (let name = json_object_get_string_member object ''name'';
          pipe = json_object_get_string_member object ''pipeline''
      in case (name, pipe) of
           (Some n, Some p) \<Rightarrow>
             (let ((ret, version), tr1) = invoke ag (SetPipelineDescription n p) tr
              in if ret = 0
                 then tr1 @ [Log DLOG_INFO
                        ''The pipeline description with name '%s' is registered.'' [LStr n]]
                 else tr1 @ [Log DLOG_ERROR
                        ''Failed to register pipeline with name '%s'.'' [LStr n]])
         | _ \<Rightarrow> tr @ [Log DLOG_ERROR
                        ''Failed to get name or pipeline from MLSVC_JSON_PIPELINE.'' []])"

text \<open>The loop over the paths of one resource entry, from index \<open>pidx\<close>.\<close>

function resource_paths ::
  "agent \<Rightarrow> string \<Rightarrow> string option \<Rightarrow> string option \<Rightarrow> json option \<Rightarrow> json list option
     \<Rightarrow> nat \<Rightarrow> nat \<Rightarrow> trace \<Rightarrow> trace" where
  "resource_paths ag name desc app_info path_node path_array path_len pidx tr =
     (if pidx < path_len then
        (let path = (case path_array of
                       Some a \<Rightarrow> json_array_get_string_element a pidx
                     | None \<Rightarrow> json_node_get_string path_node);
             tr' = (case path of
                      None \<Rightarrow> tr @ [Log DLOG_ERROR
                        ''Failed to get path at '%d'th of '%s' from MLSVC_JSON_RESOURCE.''
                        [LNum pidx, LStr name]]
                    | Some p \<Rightarrow>
                        (let ((ret, version), tr1) =
                               invoke ag (AddResource name p (or_empty desc) (or_empty app_info)) tr
                         in if ret = 0
                            then tr1 @ [Log DLOG_INFO
                              ''The resource at '%d'th of name '%s' is registered.''
                              [LNum pidx, LStr name]]
                            else tr1 @ [Log DLOG_ERROR
                              ''Failed to register the resource with name '%s'.'' [LStr name]]))
         in resource_paths ag name desc app_info path_node path_array path_len (Suc pidx) tr')
      else tr)"
  by pat_completeness auto
termination
  by (relation "measure (\<lambda>(ag, name, desc, app_info, path_node, path_array, path_len, pidx, tr).
        path_len - pidx)") auto

definition parse_resource :: "agent \<Rightarrow> string option \<Rightarrow> json_object option \<Rightarrow> trace \<Rightarrow> trace" where
  "parse_resource ag app_info object tr =
     (let name = json_object_get_string_member object ''name'';
          desc = json_object_get_string_member object ''description'';
          path_node = json_object_get_member object ''path''
      in case name of
           None \<Rightarrow> tr @ [Log DLOG_ERROR ''Failed to get name from MLSVC_JSON_RESOURCE.'' []]
         | Some n \<Rightarrow>
             (let path_array = (if JSON_NODE_HOLDS_ARRAY path_node
                                then json_node_get_array path_node else None);
                  path_len = (if JSON_NODE_HOLDS_ARRAY path_node
                              then (case path_array of
                                      Some a \<Rightarrow> json_array_get_length a | None \<Rightarrow> 0)
                              else 1)
              in if path_len = 0
                 then tr @ [Log DLOG_ERROR ''Failed to get path from MLSVC_JSON_RESOURCE.'' []]
                 else resource_paths ag n desc app_info path_node path_array path_len 0 tr))"

text \<open>The body of the \<open>switch\<close> on the category.\<close>

definition parse_entry ::
  "agent \<Rightarrow> mlsvc_json_type_e \<Rightarrow> string option \<Rightarrow> json_object option \<Rightarrow> trace \<Rightarrow> trace" where
  "parse_entry ag json_type app_info object tr =
     (case json_type of
        MLSVC_JSON_MODEL \<Rightarrow> parse_model ag app_info object tr
      | MLSVC_JSON_PIPELINE \<Rightarrow> parse_pipeline ag object tr
      | MLSVC_JSON_RESOURCE \<Rightarrow> parse_resource ag app_info object tr
      | MLSVC_JSON_MAX \<Rightarrow>
          tr @ [Log DLOG_ERROR ''Unknown data type '%d', internal error?'' [LNum 3]])"

subsection \<open>\<open>_parse_json\<close>: the loop over the entries of a category\<close>

function parse_json_loop ::
  "agent \<Rightarrow> json option \<Rightarrow> json list option \<Rightarrow> nat \<Rightarrow> mlsvc_json_type_e \<Rightarrow> string option
     \<Rightarrow> nat \<Rightarrow> trace \<Rightarrow> trace" where
  "parse_json_loop ag node array json_len json_type app_info i tr =
     (if i < json_len then
        (let object = (case array of
                         Some a \<Rightarrow> json_array_get_object_element a i
                       | None \<Rightarrow> json_node_get_object node)
         in parse_json_loop ag node array json_len json_type app_info (Suc i)
              (parse_entry ag json_type app_info object tr))
      else tr)"
  by pat_completeness auto
termination
  by (relation "measure (\<lambda>(ag, node, array, json_len, json_type, app_info, i, tr).
        json_len - i)") auto

definition parse_json ::
  "agent \<Rightarrow> json option \<Rightarrow> mlsvc_json_type_e \<Rightarrow> string option \<Rightarrow> trace \<Rightarrow> trace" where
  "parse_json ag node json_type app_info tr =
     (if JSON_NODE_HOLDS_ARRAY node then
        (case json_node_get_array node of
           None \<Rightarrow> tr @ [Log DLOG_ERROR ''Failed to get array from json'' []]
         | Some a \<Rightarrow>
             parse_json_loop ag node (Some a) (json_array_get_length a) json_type app_info 0 tr)
      else parse_json_loop ag node None 1 json_type app_info 0 tr)"

subsection \<open>\<open>_get_json_config\<close>\<close>

text \<open>
  What the parser needs from outside the repository: the file system
  (\<open>g_file_test\<close> with \<open>G_FILE_TEST_EXISTS | G_FILE_TEST_IS_REGULAR\<close>,
  \<open>g_file_get_contents\<close>), json-glib's text parser (\<open>json_parser_new\<close>: whether a parser
  was allocated; \<open>json_parser_load_from_data\<close>: \<open>Inl\<close> the error's message, or \<open>Inr\<close> the
  root node, which may be \<open>NULL\<close>) and generator, \<open>g_build_filename\<close>, the package
  manager's database and the agent. \<open>PMINFO_R_OK\<close> comes from pkgmgr-info.h.
\<close>

record env =
  g_file_test :: "string \<Rightarrow> bool"
  g_file_get_contents :: "string \<Rightarrow> string option"
  json_parser_new :: bool
  json_parser_load_from_data :: "string \<Rightarrow> string option + json option"
  json_generator_to_data :: "json \<Rightarrow> string"
  g_build_filename :: "string list \<Rightarrow> string"
  PMINFO_R_OK :: int
  pkgmgrinfo_pkginfo_get_pkginfo :: "string \<Rightarrow> int \<times> nat"
  pkgmgrinfo_pkginfo_get_type :: "nat \<Rightarrow> int \<times> string option"
  pkgmgrinfo_pkginfo_get_root_path :: "nat \<Rightarrow> int \<times> string"
  pkgmgrinfo_pkginfo_get_res_type :: "nat \<Rightarrow> int \<times> string"
  pkgmgrinfo_pkginfo_get_res_version :: "nat \<Rightarrow> int \<times> string"
  ml_agent :: agent

text \<open>
  The category that the chain of comparisons in \<open>_get_json_config\<close> selects for a
  member name, \<open>None\<close> when it reaches the final \<open>else\<close>.
\<close>

definition key_type :: "string \<Rightarrow> mlsvc_json_type_e option" where
  "key_type name =
     (if g_ascii_strcasecmp name ''model'' = 0 \<or> g_ascii_strcasecmp name ''models'' = 0
      then Some MLSVC_JSON_MODEL
      else if g_ascii_strcasecmp name ''pipeline'' = 0
              \<or> g_ascii_strcasecmp name ''pipelines'' = 0
      then Some MLSVC_JSON_PIPELINE
      else if g_ascii_strcasecmp name ''resource'' = 0
              \<or> g_ascii_strcasecmp name ''resources'' = 0
      then Some MLSVC_JSON_RESOURCE
      else None)"

text \<open>The loop over the member names of the top-level object.\<close>

fun config_members ::
  "agent \<Rightarrow> json_object option \<Rightarrow> string option \<Rightarrow> string list \<Rightarrow> trace \<Rightarrow> bool \<times> trace" where
  "config_members ag object app_info [] tr = (True, tr)"
| "config_members ag object app_info (name # iter) tr =
     (if g_ascii_strcasecmp name ''model'' = 0 \<or> g_ascii_strcasecmp name ''models'' = 0 then
        config_members ag object app_info iter
          (parse_json ag (json_object_get_member object name) MLSVC_JSON_MODEL app_info tr)
      else if g_ascii_strcasecmp name ''pipeline'' = 0
              \<or> g_ascii_strcasecmp name ''pipelines'' = 0 then
        config_members ag object app_info iter
          (parse_json ag (json_object_get_member object name) MLSVC_JSON_PIPELINE app_info tr)
      else if g_ascii_strcasecmp name ''resource'' = 0
              \<or> g_ascii_strcasecmp name ''resources'' = 0 then
        config_members ag object app_info iter
          (parse_json ag (json_object_get_member object name) MLSVC_JSON_RESOURCE app_info tr)
      else (False, tr @ [Log DLOG_ERROR
        ''Failed to parse configuration file, %s cannot get the valid type from configuration.''
        [LStr name]]))"

definition get_json_config :: "env \<Rightarrow> string \<Rightarrow> string option \<Rightarrow> trace \<Rightarrow> bool \<times> trace" where
  "get_json_config e json_path app_info tr =
     (if \<not> g_file_test e json_path then
        (False, tr @ [Log DLOG_ERROR
          ''The parameter, json_path, is invalid. It should be a valid string.'' []])
      else
        (case g_file_get_contents e json_path of
           None \<Rightarrow> (False, tr @ [Log DLOG_ERROR
             ''Failed to read configuration file '%s'.'' [LStr json_path]])
         | Some json_string \<Rightarrow>
             (if \<not> json_parser_new e then
                (False, tr @ [Log DLOG_ERROR
                  ''Failed to parse configuration file, cannot allocate memory for JsonParser. Out of memory?''
                  []])
              else
                (case json_parser_load_from_data e json_string of
                   Inl err \<Rightarrow> (False, tr @ [Log DLOG_ERROR
                     ''Failed to parse configuration file, cannot load json string (%s).''
                     [LStr (case err of None \<Rightarrow> ''Unknown error'' | Some m \<Rightarrow> m)]])
                 | Inr root_node \<Rightarrow>
                     (case root_node of
                        None \<Rightarrow> (False, tr @ [Log DLOG_ERROR
                          ''Failed to parse configuration file, cannot get the top node from json string.''
                          []])
                      | Some r \<Rightarrow>
                          (let object = json_node_get_object root_node;
                               members = json_object_get_members object
                           in config_members (ml_agent e) object app_info members tr))))))"

subsection \<open>The package-manager entry points\<close>

definition make_pkg_info :: "env \<Rightarrow> string \<Rightarrow> string option \<Rightarrow> string \<Rightarrow> string \<Rightarrow> string" where
  "make_pkg_info e pkgid appid res_type res_version =
     json_generator_to_data e
       (JObject [(''is_rpk'', JString ''T''),
                 (''pkg_id'', JString pkgid),
                 (''app_id'', JString (or_empty appid)),
                 (''res_type'', JString res_type),
                 (''res_version'', JString res_version)])"

text \<open>
  The metadata list holds \<open>_metadata_s\<close> structs, pairs of a key and a value. The result
  is the returned \<open>int\<close> and the trace.
\<close>

definition PKGMGR_MDPARSER_PLUGIN_INSTALL ::
  "env \<Rightarrow> string \<Rightarrow> string option \<Rightarrow> (string \<times> string) list \<Rightarrow> trace \<Rightarrow> int \<times> trace" where
  "PKGMGR_MDPARSER_PLUGIN_INSTALL e pkgid appid metadata tr0 =
     (let tr1 = tr0
            @ [Log DLOG_INFO ''PKGMGR_MDPARSER_PLUGIN_INSTALL called'' [],
               Log DLOG_INFO ''pkgid = %s, appid = %s\<newline>'' [LStr pkgid, lstr appid]]
            @ map (\<lambda>detail. Log DLOG_INFO ''key = %s, value = %s\<newline>''
                     [LStr (fst detail), LStr (snd detail)]) metadata
            @ [Pkgmgr (Get_pkginfo pkgid)];
          (ret1, handle) = pkgmgrinfo_pkginfo_get_pkginfo e pkgid
      in if ret1 \<noteq> PMINFO_R_OK e then
           (- 1, tr1 @ [Log DLOG_ERROR ''Failed to get handle.'' []])
         else
      let tr2 = tr1 @ [Pkgmgr (Get_type handle)];
          (ret2, pkg_type) = pkgmgrinfo_pkginfo_get_type e handle
      in if ret2 \<noteq> PMINFO_R_OK e then
           (- 1, tr2 @ [Log DLOG_ERROR ''Failed to get package type.'' [],
                        Pkgmgr (Destroy_pkginfo handle)])
         else
      let tr3 = tr2 @ [Log DLOG_INFO ''pkg_type : %s'' [lstr pkg_type]]
      in if \<not> g_strcmp0_eq pkg_type (Some ''rpk'') then
           (0, tr3 @ [Log DLOG_INFO ''pkg_type is not rpk. Skip parsing.'' [],
                      Pkgmgr (Destroy_pkginfo handle)])
         else
      let tr4 = tr3 @ [Pkgmgr (Get_root_path handle)];
          (ret3, root_path) = pkgmgrinfo_pkginfo_get_root_path e handle
      in if ret3 \<noteq> PMINFO_R_OK e then
           (- 1, tr4 @ [Log DLOG_ERROR ''Failed to get root path.'' [],
                        Pkgmgr (Destroy_pkginfo handle)])
         else
      let tr5 = tr4 @ [Log DLOG_INFO ''root path: %s'' [LStr root_path],
                       Pkgmgr (Get_res_type handle)];
          (ret4, res_type) = pkgmgrinfo_pkginfo_get_res_type e handle
      in if ret4 \<noteq> PMINFO_R_OK e then
           (- 1, tr5 @ [Log DLOG_ERROR ''Failed to get res type.'' [],
                        Pkgmgr (Destroy_pkginfo handle)])
         else
      let tr6 = tr5 @ [Log DLOG_INFO ''res_type = %s\<newline>'' [LStr res_type],
                       Pkgmgr (Get_res_version handle)];
          (ret5, res_version) = pkgmgrinfo_pkginfo_get_res_version e handle
      in if ret5 \<noteq> PMINFO_R_OK e then
           (- 1, tr6 @ [Log DLOG_ERROR ''Failed to get res version.'' [],
                        Pkgmgr (Destroy_pkginfo handle)])
         else
      let app_info = make_pkg_info e pkgid appid res_type res_version;
          tr7 = tr6 @ [Log DLOG_INFO ''res_version = %s\<newline>'' [LStr res_version],
                       Log DLOG_INFO ''app_info = %s\<newline>'' [LStr app_info]];
          json_file = g_build_filename e
                        [root_path, ''res'', ''global'', res_type, ''rpk_config.json''];
          (ok, tr8) = get_json_config e json_file (Some app_info) tr7
      in if \<not> ok then
           (- 1, tr8 @ [Log DLOG_ERROR ''Failed to parse the config file %s'' [LStr json_file],
                        Pkgmgr (Destroy_pkginfo handle)])
         else
           (0, tr8 @ [Log DLOG_INFO ''PKGMGR_MDPARSER_PLUGIN_INSTALL finished'' [],
                      Pkgmgr (Destroy_pkginfo handle)]))"

definition PKGMGR_MDPARSER_PLUGIN_UNINSTALL ::
  "env \<Rightarrow> string \<Rightarrow> string option \<Rightarrow> (string \<times> string) list \<Rightarrow> trace \<Rightarrow> int \<times> trace" where
  "PKGMGR_MDPARSER_PLUGIN_UNINSTALL e pkgid appid metadata tr =
     (0, tr @ [Log DLOG_INFO ''PKGMGR_MDPARSER_PLUGIN_UNINSTALL called'' []])"

definition PKGMGR_MDPARSER_PLUGIN_UPGRADE ::
  "env \<Rightarrow> string \<Rightarrow> string option \<Rightarrow> (string \<times> string) list \<Rightarrow> trace \<Rightarrow> int \<times> trace" where
  "PKGMGR_MDPARSER_PLUGIN_UPGRADE e pkgid appid metadata tr =
     (let tr1 = tr @ [Log DLOG_INFO ''PKGMGR_MDPARSER_PLUGIN_UPGRADE called'' []];
          (r1, tr2) = PKGMGR_MDPARSER_PLUGIN_UNINSTALL e pkgid appid metadata tr1;
          (r2, tr3) = PKGMGR_MDPARSER_PLUGIN_INSTALL e pkgid appid metadata tr2
      in (0, tr3))"

definition PKGMGR_MDPARSER_PLUGIN_RECOVERINSTALL ::
  "env \<Rightarrow> string \<Rightarrow> string option \<Rightarrow> (string \<times> string) list \<Rightarrow> trace \<Rightarrow> int \<times> trace" where
  "PKGMGR_MDPARSER_PLUGIN_RECOVERINSTALL e pkgid appid metadata tr =
     PKGMGR_MDPARSER_PLUGIN_UNINSTALL e pkgid appid metadata
       (tr @ [Log DLOG_INFO ''PKGMGR_MDPARSER_PLUGIN_RECOVERINSTALL called'' []])"

definition PKGMGR_MDPARSER_PLUGIN_RECOVERUPGRADE ::
  "env \<Rightarrow> string \<Rightarrow> string option \<Rightarrow> (string \<times> string) list \<Rightarrow> trace \<Rightarrow> int \<times> trace" where
  "PKGMGR_MDPARSER_PLUGIN_RECOVERUPGRADE e pkgid appid metadata tr =
     PKGMGR_MDPARSER_PLUGIN_UPGRADE e pkgid appid metadata
       (tr @ [Log DLOG_INFO ''PKGMGR_MDPARSER_PLUGIN_RECOVERUPGRADE called'' []])"

definition PKGMGR_MDPARSER_PLUGIN_RECOVERUNINSTALL ::
  "env \<Rightarrow> string \<Rightarrow> string option \<Rightarrow> (string \<times> string) list \<Rightarrow> trace \<Rightarrow> int \<times> trace" where
  "PKGMGR_MDPARSER_PLUGIN_RECOVERUNINSTALL e pkgid appid metadata tr =
     PKGMGR_MDPARSER_PLUGIN_INSTALL e pkgid appid metadata
       (tr @ [Log DLOG_INFO ''PKGMGR_MDPARSER_PLUGIN_RECOVERUNINSTALL called'' []])"

definition PKGMGR_MDPARSER_PLUGIN_CLEAN ::
  "env \<Rightarrow> string \<Rightarrow> string option \<Rightarrow> (string \<times> string) list \<Rightarrow> trace \<Rightarrow> int \<times> trace" where
  "PKGMGR_MDPARSER_PLUGIN_CLEAN e pkgid appid metadata tr =
     (0, tr @ [Log DLOG_INFO ''PKGMGR_MDPARSER_PLUGIN_CLEAN called'' []])"

definition PKGMGR_MDPARSER_PLUGIN_UNDO ::
  "env \<Rightarrow> string \<Rightarrow> string option \<Rightarrow> (string \<times> string) list \<Rightarrow> trace \<Rightarrow> int \<times> trace" where
  "PKGMGR_MDPARSER_PLUGIN_UNDO e pkgid appid metadata tr =
     (0, tr @ [Log DLOG_INFO ''PKGMGR_MDPARSER_PLUGIN_UNDO called'' []])"

section \<open>The model D-Bus interface (model-dbus-impl.cc)\<close>

subsection \<open>The request handlers\<close>

text \<open>
  The service database (\<open>svcdb_*\<close>, service-db-util.h) is outside these files: it answers
  a call, after the calls made so far, with a status and what it wrote through the
  call's out-pointer, if anything.
\<close>

datatype svcdb_call =
    Svcdb_model_add string string bool string string
  | Svcdb_model_update_description string nat string
  | Svcdb_model_activate string nat
  | Svcdb_model_get string nat
  | Svcdb_model_get_activated string
  | Svcdb_model_get_all string
  | Svcdb_model_delete string nat bool

datatype svcdb_out = No_out | Out_version nat | Out_info "string option"

type_synonym svcdb = "svcdb_call list \<Rightarrow> svcdb_call \<Rightarrow> int \<times> svcdb_out"

text \<open>
  \<open>machinelearning_service_model_complete_*\<close> answers the invocation: the payload, if the
  method has one, and the status.
\<close>

datatype completion =
    Complete_register nat int
  | Complete_update_description int
  | Complete_activate int
  | Complete_get "string option" int
  | Complete_get_activated "string option" int
  | Complete_get_all "string option" int
  | Complete_delete int

datatype dbus_event = Svcdb svcdb_call | Complete nat completion

fun svcdb_calls :: "dbus_event list \<Rightarrow> svcdb_call list" where
  "svcdb_calls [] = []"
| "svcdb_calls (Svcdb c # tr) = c # svcdb_calls tr"
| "svcdb_calls (_ # tr) = svcdb_calls tr"

text \<open>The local \<open>guint version = 0U\<close> and \<open>gchar *model_info = NULL\<close> after the call.\<close>

definition version_after :: "svcdb_out \<Rightarrow> nat" where
  "version_after out = (case out of Out_version v \<Rightarrow> v | _ \<Rightarrow> 0)"

definition model_info_after :: "svcdb_out \<Rightarrow> string option" where
  "model_info_after out = (case out of Out_info s \<Rightarrow> s | _ \<Rightarrow> None)"

text \<open>
  Each handler takes the invocation handle \<open>invoc\<close> and the decoded arguments, and
  returns its \<open>gboolean\<close> with the trace.
\<close>

definition gdbus_cb_model_register ::
  "svcdb \<Rightarrow> nat \<Rightarrow> string \<Rightarrow> string \<Rightarrow> bool \<Rightarrow> string \<Rightarrow> string \<Rightarrow> dbus_event list
     \<Rightarrow> bool \<times> dbus_event list" where
  "gdbus_cb_model_register db invoc name path is_active description app_info tr =
     (let c = Svcdb_model_add name path is_active description app_info;
          (ret, out) = db (svcdb_calls tr) c
      in (True, tr @ [Svcdb c, Complete invoc (Complete_register (version_after out) ret)]))"

definition gdbus_cb_model_update_description ::
  "svcdb \<Rightarrow> nat \<Rightarrow> string \<Rightarrow> nat \<Rightarrow> string \<Rightarrow> dbus_event list \<Rightarrow> bool \<times> dbus_event list" where
  "gdbus_cb_model_update_description db invoc name version description tr =
     (let c = Svcdb_model_update_description name version description;
          (ret, out) = db (svcdb_calls tr) c
      in (True, tr @ [Svcdb c, Complete invoc (Complete_update_description ret)]))"

definition gdbus_cb_model_activate ::
  "svcdb \<Rightarrow> nat \<Rightarrow> string \<Rightarrow> nat \<Rightarrow> dbus_event list \<Rightarrow> bool \<times> dbus_event list" where
  "gdbus_cb_model_activate db invoc name version tr =
     (let c = Svcdb_model_activate name version;
          (ret, out) = db (svcdb_calls tr) c
      in (True, tr @ [Svcdb c, Complete invoc (Complete_activate ret)]))"

definition gdbus_cb_model_get ::
  "svcdb \<Rightarrow> nat \<Rightarrow> string \<Rightarrow> nat \<Rightarrow> dbus_event list \<Rightarrow> bool \<times> dbus_event list" where
  "gdbus_cb_model_get db invoc name version tr =
     (let c = Svcdb_model_get name version;
          (ret, out) = db (svcdb_calls tr) c
      in (True, tr @ [Svcdb c, Complete invoc (Complete_get (model_info_after out) ret)]))"

definition gdbus_cb_model_get_activated ::
  "svcdb \<Rightarrow> nat \<Rightarrow> string \<Rightarrow> dbus_event list \<Rightarrow> bool \<times> dbus_event list" where
  "gdbus_cb_model_get_activated db invoc name tr =
     (let c = Svcdb_model_get_activated name;
          (ret, out) = db (svcdb_calls tr) c
      in (True, tr @ [Svcdb c,
            Complete invoc (Complete_get_activated (model_info_after out) ret)]))"

definition gdbus_cb_model_get_all ::
  "svcdb \<Rightarrow> nat \<Rightarrow> string \<Rightarrow> dbus_event list \<Rightarrow> bool \<times> dbus_event list" where
  "gdbus_cb_model_get_all db invoc name tr =
     (let c = Svcdb_model_get_all name;
          (ret, out) = db (svcdb_calls tr) c
      in (True, tr @ [Svcdb c, Complete invoc (Complete_get_all (model_info_after out) ret)]))"

definition gdbus_cb_model_delete ::
  "svcdb \<Rightarrow> nat \<Rightarrow> string \<Rightarrow> nat \<Rightarrow> bool \<Rightarrow> dbus_event list \<Rightarrow> bool \<times> dbus_event list" where
  "gdbus_cb_model_delete db invoc name version force tr =
     (let c = Svcdb_model_delete name version force;
          (ret, out) = db (svcdb_calls tr) c
      in (True, tr @ [Svcdb c, Complete invoc (Complete_delete ret)]))"

subsection \<open>The handler table\<close>

text \<open>
  The signal names are macros of dbus-interface.h, kept by name. A callback pointer is
  the name of the function it points to.
\<close>

datatype signal =
    DBUS_MODEL_I_HANDLER_REGISTER
  | DBUS_MODEL_I_HANDLER_UPDATE_DESCRIPTION
  | DBUS_MODEL_I_HANDLER_ACTIVATE
  | DBUS_MODEL_I_HANDLER_GET
  | DBUS_MODEL_I_HANDLER_GET_ACTIVATED
  | DBUS_MODEL_I_HANDLER_GET_ALL
  | DBUS_MODEL_I_HANDLER_DELETE

datatype gcallback =
    Cb_model_register
  | Cb_model_update_description
  | Cb_model_activate
  | Cb_model_get
  | Cb_model_get_activated
  | Cb_model_get_all
  | Cb_model_delete

record gdbus_signal_info =
  signal_name :: signal
  cb :: gcallback
  cb_data :: "nat option"
  handler_id :: nat

definition handler_infos :: "gdbus_signal_info list" where
  "handler_infos =
     [\<lparr>signal_name = DBUS_MODEL_I_HANDLER_REGISTER, cb = Cb_model_register,
        cb_data = None, handler_id = 0\<rparr>,
      \<lparr>signal_name = DBUS_MODEL_I_HANDLER_UPDATE_DESCRIPTION, cb = Cb_model_update_description,
        cb_data = None, handler_id = 0\<rparr>,
      \<lparr>signal_name = DBUS_MODEL_I_HANDLER_ACTIVATE, cb = Cb_model_activate,
        cb_data = None, handler_id = 0\<rparr>,
      \<lparr>signal_name = DBUS_MODEL_I_HANDLER_GET, cb = Cb_model_get,
        cb_data = None, handler_id = 0\<rparr>,
      \<lparr>signal_name = DBUS_MODEL_I_HANDLER_GET_ACTIVATED, cb = Cb_model_get_activated,
        cb_data = None, handler_id = 0\<rparr>,
      \<lparr>signal_name = DBUS_MODEL_I_HANDLER_GET_ALL, cb = Cb_model_get_all,
        cb_data = None, handler_id = 0\<rparr>,
      \<lparr>signal_name = DBUS_MODEL_I_HANDLER_DELETE, cb = Cb_model_delete,
        cb_data = None, handler_id = 0\<rparr>]"

text \<open>
  The arguments a method invocation arrives with, and the call of a callback on them:
  \<open>None\<close> when the arguments are not of the callback's signature.
\<close>

datatype request =
    Req_register string string bool string string
  | Req_update_description string nat string
  | Req_activate string nat
  | Req_get string nat
  | Req_get_activated string
  | Req_get_all string
  | Req_delete string nat bool

definition invoke_cb ::
  "svcdb \<Rightarrow> gcallback \<Rightarrow> nat \<Rightarrow> request \<Rightarrow> dbus_event list \<Rightarrow> (bool \<times> dbus_event list) option"
  where
  "invoke_cb db c invoc r tr =
     (case c of
        Cb_model_register \<Rightarrow>
          (case r of Req_register n p a d ai \<Rightarrow>
                       Some (gdbus_cb_model_register db invoc n p a d ai tr)
           | _ \<Rightarrow> None)
      | Cb_model_update_description \<Rightarrow>
          (case r of Req_update_description n v d \<Rightarrow>
                       Some (gdbus_cb_model_update_description db invoc n v d tr)
           | _ \<Rightarrow> None)
      | Cb_model_activate \<Rightarrow>
          (case r of Req_activate n v \<Rightarrow> Some (gdbus_cb_model_activate db invoc n v tr)
           | _ \<Rightarrow> None)
      | Cb_model_get \<Rightarrow>
          (case r of Req_get n v \<Rightarrow> Some (gdbus_cb_model_get db invoc n v tr)
           | _ \<Rightarrow> None)
      | Cb_model_get_activated \<Rightarrow>
          (case r of Req_get_activated n \<Rightarrow> Some (gdbus_cb_model_get_activated db invoc n tr)
           | _ \<Rightarrow> None)
      | Cb_model_get_all \<Rightarrow>
          (case r of Req_get_all n \<Rightarrow> Some (gdbus_cb_model_get_all db invoc n tr)
           | _ \<Rightarrow> None)
      | Cb_model_delete \<Rightarrow>
          (case r of Req_delete n v f \<Rightarrow> Some (gdbus_cb_model_delete db invoc n v f tr)
           | _ \<Rightarrow> None))"

definition completion_status :: "completion \<Rightarrow> int" where
  "completion_status c =
     (case c of
        Complete_register v r \<Rightarrow> r
      | Complete_update_description r \<Rightarrow> r
      | Complete_activate r \<Rightarrow> r
      | Complete_get i r \<Rightarrow> r
      | Complete_get_activated i r \<Rightarrow> r
      | Complete_get_all i r \<Rightarrow> r
      | Complete_delete r \<Rightarrow> r)"

subsection \<open>The module's \<open>probe\<close> and \<open>exit\<close>\<close>

text \<open>
  The service object holds the handlers connected to it and the path it is exported
  at. The skeleton constructor and the helpers of gdbus-util.h are outside these
  files and are taken as they come: each may change the object and the table's
  \<open>handler_id\<close>s as it likes. \<open>ENOSYS\<close> is errno.h's.
\<close>

record skeleton =
  connected :: "(signal \<times> gcallback) list"
  exported :: "string option"

record gdbus =
  machinelearning_service_model_skeleton_new :: "skeleton option"
  gdbus_connect_signal ::
    "skeleton \<Rightarrow> nat \<Rightarrow> gdbus_signal_info list \<Rightarrow> int \<times> skeleton \<times> gdbus_signal_info list"
  gdbus_export_interface :: "skeleton \<Rightarrow> string \<Rightarrow> int \<times> skeleton"
  gdbus_disconnect_signal ::
    "skeleton option \<Rightarrow> nat \<Rightarrow> gdbus_signal_info list
       \<Rightarrow> skeleton option \<times> gdbus_signal_info list"
  DBUS_MODEL_PATH :: string


datatype gdbus_call =
    Call_skeleton_new
  | Call_connect_signal nat
  | Call_export_interface string
  | Call_disconnect_signal nat
  | Call_clear_object "skeleton option"

record module_state =
  g_gdbus_instance :: "skeleton option"
  infos :: "gdbus_signal_info list"
  gdbus_calls :: "gdbus_call list"


text \<open>
  \<open>gdbus_put_model_instance (&g_gdbus_instance)\<close>: \<open>g_clear_object\<close> drops the reference
  and stores \<open>NULL\<close>. The call is recorded with the object as it is when released.
\<close>

definition gdbus_put_model_instance :: "module_state \<Rightarrow> module_state" where
  "gdbus_put_model_instance st =
     st\<lparr>g_gdbus_instance := None,
        gdbus_calls := gdbus_calls st @ [Call_clear_object (g_gdbus_instance st)]\<rparr>"

text \<open>
  \<open>gdbus_disconnect_signal (g_gdbus_instance, ARRAY_SIZE (handler_infos), handler_infos)\<close>;
  \<open>ARRAY_SIZE (handler_infos)\<close> is the length of the table as declared.
\<close>

definition disconnect_handlers :: "gdbus \<Rightarrow> module_state \<Rightarrow> module_state" where
  "disconnect_handlers g st =
     (let n = length handler_infos;
          (inst, tbl) = gdbus_disconnect_signal g (g_gdbus_instance st) n (infos st)
      in st\<lparr>g_gdbus_instance := inst, infos := tbl,
             gdbus_calls := gdbus_calls st @ [Call_disconnect_signal n]\<rparr>)"


definition exit_model_module :: "gdbus \<Rightarrow> module_state \<Rightarrow> module_state" where
  "exit_model_module g st = gdbus_put_model_instance (disconnect_handlers g st)"



text \<open>
  An example database: a registration succeeds and numbers the version, a \<open>get\<close> succeeds
  and writes the model's description, every other call fails with \<open>-5\<close> and writes
  nothing.
\<close>

definition example_svcdb :: svcdb where
  "example_svcdb history c =
     (case c of
        Svcdb_model_add n p a d ai \<Rightarrow> (0, Out_version (Suc (length history)))
      | Svcdb_model_get n v \<Rightarrow> (0, Out_info (Some (''info of '' @ n)))
      | _ \<Rightarrow> (- 5, No_out))"

section \<open>Notions of the specification\<close>

subsection \<open>Keys and manifests\<close>

definition ascii_lower :: "string \<Rightarrow> string" where
  "ascii_lower s = map g_ascii_tolower s"

text \<open>The six recognised spellings of the three categories, compared in lower case.\<close>

definition category_of :: "string \<Rightarrow> mlsvc_json_type_e option" where
  "category_of k =
     (let l = ascii_lower k
      in if l = ''model'' \<or> l = ''models'' then Some MLSVC_JSON_MODEL
         else if l = ''pipeline'' \<or> l = ''pipelines'' then Some MLSVC_JSON_PIPELINE
         else if l = ''resource'' \<or> l = ''resources'' then Some MLSVC_JSON_RESOURCE
         else None)"

text \<open>
  The file at \<open>json_path\<close> exists, can be read and holds valid JSON whose top-level
  value is \<open>r\<close>.
\<close>

definition manifest_at :: "env \<Rightarrow> string \<Rightarrow> json \<Rightarrow> bool" where
  "manifest_at e json_path r =
     (g_file_test e json_path \<and> json_parser_new e \<and>
      (case g_file_get_contents e json_path of
         None \<Rightarrow> False
       | Some json_string \<Rightarrow> json_parser_load_from_data e json_string = Inr (Some r)))"

text \<open>A structurally valid manifest: every top-level key resolves to a category.\<close>

definition valid_manifest :: "json_object \<Rightarrow> bool" where
  "valid_manifest kvs = list_all (\<lambda>k. key_type k \<noteq> None) (map fst kvs)"

definition is_object :: "json \<Rightarrow> bool" where
  "is_object v = (case v of JObject _ \<Rightarrow> True | _ \<Rightarrow> False)"

subsection \<open>Entries\<close>

text \<open>An entry that lacks a field its category requires.\<close>

definition missing_required :: "mlsvc_json_type_e \<Rightarrow> json_object \<Rightarrow> bool" where
  "missing_required json_type obj =
     (case json_type of
        MLSVC_JSON_MODEL \<Rightarrow> map_of obj ''name'' = None \<or> map_of obj ''model'' = None
      | MLSVC_JSON_PIPELINE \<Rightarrow> map_of obj ''name'' = None \<or> map_of obj ''pipeline'' = None
      | MLSVC_JSON_RESOURCE \<Rightarrow> map_of obj ''name'' = None \<or> map_of obj ''path'' = None
      | MLSVC_JSON_MAX \<Rightarrow> False)"

text \<open>The string a field holds, empty when the field is absent or no string.\<close>

definition field_string :: "json_object \<Rightarrow> string \<Rightarrow> string" where
  "field_string obj k = (case map_of obj k of Some (JString s) \<Rightarrow> s | _ \<Rightarrow> [])"

text \<open>A well-formed model entry has a \<open>name\<close> and a \<open>model\<close>, both strings.\<close>

definition well_formed_model :: "json_object \<Rightarrow> bool" where
  "well_formed_model obj =
     (case (map_of obj ''name'', map_of obj ''model'') of
        (Some (JString n), Some (JString m)) \<Rightarrow> True
      | _ \<Rightarrow> False)"

text \<open>
  The active flag of an entry: whether \<open>activate\<close> is a string that
  \<open>g_ascii_strcasecmp\<close> finds equal to \<open>true\<close>.
\<close>

definition entry_active :: "json_object \<Rightarrow> bool" where
  "entry_active obj =
     (case map_of obj ''activate'' of
        Some (JString a) \<Rightarrow> g_ascii_strcasecmp a ''true'' = 0
      | _ \<Rightarrow> False)"

text \<open>The Register call of a model entry: its name, model path, active flag and description.\<close>

definition register_of :: "string option \<Rightarrow> json_object \<Rightarrow> call" where
  "register_of app_info obj =
     Register (field_string obj ''name'') (field_string obj ''model'') (entry_active obj)
       (field_string obj ''description'') (or_empty app_info)"

text \<open>
  A category value holds the entries \<open>objs\<close>: as an array of these objects or, when
  there is one, as the bare object.
\<close>

definition holds_entries :: "json \<Rightarrow> json_object list \<Rightarrow> bool" where
  "holds_entries v objs =
     (v = JArray (map JObject objs) \<or> (case objs of [obj] \<Rightarrow> v = JObject obj | _ \<Rightarrow> False))"

definition is_register :: "call \<Rightarrow> bool" where
  "is_register c = (case c of Register n m a d ai \<Rightarrow> True | _ \<Rightarrow> False)"

fun string_elements :: "json list \<Rightarrow> string list" where
  "string_elements [] = []"
| "string_elements (JString s # xs) = s # string_elements xs"
| "string_elements (_ # xs) = string_elements xs"

subsection \<open>The calls of an entry, of a category value and of a manifest\<close>

definition active_flag :: "string option \<Rightarrow> bool" where
  "active_flag activate =
     (case activate of None \<Rightarrow> False | Some a \<Rightarrow> g_ascii_strcasecmp a ''true'' = 0)"

definition model_calls :: "string option \<Rightarrow> json_object option \<Rightarrow> call list" where
  "model_calls app_info object =
     (case (json_object_get_string_member object ''name'',
            json_object_get_string_member object ''model'') of
        (Some n, Some m) \<Rightarrow>
          [Register n m (active_flag (json_object_get_string_member object ''activate''))
             (or_empty (json_object_get_string_member object ''description''))
             (or_empty app_info)]
      | _ \<Rightarrow> [])"

definition pipeline_calls :: "json_object option \<Rightarrow> call list" where
  "pipeline_calls object =
     (case (json_object_get_string_member object ''name'',
            json_object_get_string_member object ''pipeline'') of
        (Some n, Some p) \<Rightarrow> [SetPipelineDescription n p]
      | _ \<Rightarrow> [])"

definition resource_calls :: "string option \<Rightarrow> json_object option \<Rightarrow> call list" where
  "resource_calls app_info object =
     (case json_object_get_string_member object ''name'' of
        None \<Rightarrow> []
      | Some n \<Rightarrow>
          map (\<lambda>p. AddResource n p
                 (or_empty (json_object_get_string_member object ''description''))
                 (or_empty app_info))
            (case json_object_get_member object ''path'' of
               Some (JArray ps) \<Rightarrow> string_elements ps
             | Some (JString p) \<Rightarrow> [p]
             | _ \<Rightarrow> []))"

definition entry_calls ::
  "mlsvc_json_type_e \<Rightarrow> string option \<Rightarrow> json_object option \<Rightarrow> call list" where
  "entry_calls json_type app_info object =
     (case json_type of
        MLSVC_JSON_MODEL \<Rightarrow> model_calls app_info object
      | MLSVC_JSON_PIPELINE \<Rightarrow> pipeline_calls object
      | MLSVC_JSON_RESOURCE \<Rightarrow> resource_calls app_info object
      | MLSVC_JSON_MAX \<Rightarrow> [])"

definition node_objects :: "json option \<Rightarrow> json_object option list" where
  "node_objects node =
     (case node of
        Some (JArray xs) \<Rightarrow> map (\<lambda>x. json_node_get_object (Some x)) xs
      | _ \<Rightarrow> [json_node_get_object node])"

definition node_calls :: "mlsvc_json_type_e \<Rightarrow> string option \<Rightarrow> json option \<Rightarrow> call list" where
  "node_calls json_type app_info node =
     concat (map (entry_calls json_type app_info) (node_objects node))"

definition key_calls :: "string option \<Rightarrow> json_object option \<Rightarrow> string \<Rightarrow> call list" where
  "key_calls app_info object k =
     (case key_type k of
        None \<Rightarrow> []
      | Some ty \<Rightarrow> node_calls ty app_info (json_object_get_member object k))"

definition config_calls :: "string option \<Rightarrow> json_object option \<Rightarrow> string list \<Rightarrow> call list" where
  "config_calls app_info object names =
     concat (map (key_calls app_info object) (takeWhile (\<lambda>k. key_type k \<noteq> None) names))"

subsection \<open>The install steps\<close>

fun pkgmgr_calls :: "trace \<Rightarrow> pkgmgr_call list" where
  "pkgmgr_calls [] = []"
| "pkgmgr_calls (Pkgmgr c # tr) = c # pkgmgr_calls tr"
| "pkgmgr_calls (_ # tr) = pkgmgr_calls tr"

text \<open>
  The manifest path of a package whose metadata resolves and whose type is \<open>rpk\<close>:
  root path, \<open>res\<close>, \<open>global\<close>, resource type, \<open>rpk_config.json\<close>.
\<close>

definition rpk_manifest_path :: "env \<Rightarrow> string \<Rightarrow> string option" where
  "rpk_manifest_path e pkgid =
     (let (r1, h) = pkgmgrinfo_pkginfo_get_pkginfo e pkgid;
          (r2, ty) = pkgmgrinfo_pkginfo_get_type e h;
          (r3, root_path) = pkgmgrinfo_pkginfo_get_root_path e h;
          (r4, res_type) = pkgmgrinfo_pkginfo_get_res_type e h;
          (r5, res_version) = pkgmgrinfo_pkginfo_get_res_version e h
      in if r1 = PMINFO_R_OK e \<and> r2 = PMINFO_R_OK e \<and> ty = Some ''rpk''
            \<and> r3 = PMINFO_R_OK e \<and> r4 = PMINFO_R_OK e \<and> r5 = PMINFO_R_OK e
         then Some (g_build_filename e
                      [root_path, ''res'', ''global'', res_type, ''rpk_config.json''])
         else None)"

text \<open>
  Whether the manifest at a path parses, and the agent calls its parse makes: the
  result of \<open>_get_json_config\<close> started on the empty trace.
\<close>

definition manifest_ok :: "env \<Rightarrow> string \<Rightarrow> bool" where
  "manifest_ok e json_path = fst (get_json_config e json_path None [])"

definition manifest_calls :: "env \<Rightarrow> string \<Rightarrow> string option \<Rightarrow> call list" where
  "manifest_calls e json_path app_info =
     agent_calls (snd (get_json_config e json_path app_info []))"

section \<open>An example installation\<close>

text \<open>
  A package \<open>org.example.models\<close> of type \<open>rpk\<close>, rooted at \<open>/opt/pkg\<close>, with resource
  type \<open>ai\<close>; its manifest parses to \<open>r\<close>; the agent accepts every call and numbers the
  versions.
\<close>

fun join_path :: "string list \<Rightarrow> string" where
  "join_path [] = []"
| "join_path [x] = x"
| "join_path (x # xs) = x @ ''/'' @ join_path xs"

definition example_env :: "json option \<Rightarrow> env" where
  "example_env r =
     \<lparr>g_file_test = (\<lambda>p. p = ''/opt/pkg/res/global/ai/rpk_config.json''),
      g_file_get_contents =
        (\<lambda>p. if p = ''/opt/pkg/res/global/ai/rpk_config.json'' then Some ''manifest'' else None),
      json_parser_new = True,
      json_parser_load_from_data = (\<lambda>s. Inr r),
      json_generator_to_data = (\<lambda>j. ''app-info''),
      g_build_filename = join_path,
      PMINFO_R_OK = 0,
      pkgmgrinfo_pkginfo_get_pkginfo = (\<lambda>p. (0, 1)),
      pkgmgrinfo_pkginfo_get_type = (\<lambda>h. (0, Some ''rpk'')),
      pkgmgrinfo_pkginfo_get_root_path = (\<lambda>h. (0, ''/opt/pkg'')),
      pkgmgrinfo_pkginfo_get_res_type = (\<lambda>h. (0, ''ai'')),
      pkgmgrinfo_pkginfo_get_res_version = (\<lambda>h. (0, ''1.0'')),
      ml_agent = (\<lambda>h c. (0, Suc (length h)))\<rparr>"

definition example_path :: string where
  "example_path = ''/opt/pkg/res/global/ai/rpk_config.json''"

text \<open>
  The example installation with a package manager whose \<open>n\<close>-th query fails (package
  handle, type, root path, resource type, resource version, for \<open>n\<close> from 1 to 5; none
  for another \<open>n\<close>), and with one that reports the package type \<open>tpk\<close>.
\<close>

definition example_env_step :: "nat \<Rightarrow> json option \<Rightarrow> env" where
  "example_env_step n r =
     (example_env r)
       \<lparr>pkgmgrinfo_pkginfo_get_pkginfo := (\<lambda>p. (if n = 1 then - 1 else 0, 1)),
        pkgmgrinfo_pkginfo_get_type := (\<lambda>h. (if n = 2 then - 1 else 0, Some ''rpk'')),
        pkgmgrinfo_pkginfo_get_root_path := (\<lambda>h. (if n = 3 then - 1 else 0, ''/opt/pkg'')),
        pkgmgrinfo_pkginfo_get_res_type := (\<lambda>h. (if n = 4 then - 1 else 0, ''ai'')),
        pkgmgrinfo_pkginfo_get_res_version := (\<lambda>h. (if n = 5 then - 1 else 0, ''1.0''))\<rparr>"

definition example_env_tpk :: "json option \<Rightarrow> env" where
  "example_env_tpk r =
     (example_env r)\<lparr>pkgmgrinfo_pkginfo_get_type := (\<lambda>h. (0, Some ''tpk''))\<rparr>"

text \<open>Two model entries, a pipeline entry and a resource entry of the example manifest.\<close>

definition example_model_a :: json_object where
  "example_model_a =
     [(''name'', JString ''a''), (''model'', JString ''/a''), (''activate'', JString ''True'')]"

definition example_model_b :: json_object where
  "example_model_b =
     [(''name'', JString ''b''), (''model'', JString ''/b''),
      (''description'', JString ''second'')]"

definition example_pipeline :: json_object where
  "example_pipeline =
     [(''name'', JString ''p''), (''pipeline'', JString ''videotestsrc ! fakesink'')]"

definition example_resource :: json_object where
  "example_resource =
     [(''name'', JString ''r''), (''description'', JString ''images''),
      (''path'', JArray [JString ''/r/1.png'', JInt 2, JString ''/r/3.png''])]"

section \<open>Properties of the parser\<close>

subsection \<open>Auxiliary facts\<close>

declare resource_paths.simps [simp del] parse_json_loop.simps [simp del]

lemma agent_calls_append [simp]: "agent_calls (a @ b) = agent_calls a @ agent_calls b"
  by (induction a rule: agent_calls.induct) simp_all

lemma of_char_int_zero: "((of_char a :: int) = 0) = (a = CHR 0x00)"
  using of_char_eq_iff [of a "CHR 0x00", where ?'a = int] by simp

lemma strcasecmp_zero_iff:
  "c_string a \<Longrightarrow> c_string b \<Longrightarrow> (g_ascii_strcasecmp a b = 0) = (ascii_lower a = ascii_lower b)"
proof (induction a b rule: g_ascii_strcasecmp.induct)
  case (1 x s1 y s2)
  then show ?case by (auto simp: c_string_def ascii_lower_def Let_def)
next
  case 2
  then show ?case by (simp add: ascii_lower_def)
next
  case (3 y s2)
  then show ?case by (auto simp: c_string_def ascii_lower_def of_char_int_zero)
next
  case (4 x s1)
  then show ?case by (auto simp: c_string_def ascii_lower_def of_char_int_zero)
qed


lemma invoke_calls [simp]: "agent_calls (snd (invoke ag c tr)) = agent_calls tr @ [c]"
  by (simp add: invoke_def)

lemma parse_model_calls:
  "agent_calls (parse_model ag app_info object tr) = agent_calls tr @ model_calls app_info object"
  by (simp add: parse_model_def model_calls_def invoke_def active_flag_def Let_def
      split: option.splits prod.splits)

lemma parse_pipeline_calls:
  "agent_calls (parse_pipeline ag object tr) = agent_calls tr @ pipeline_calls object"
  by (simp add: parse_pipeline_def pipeline_calls_def invoke_def Let_def
      split: option.splits prod.splits)

lemma string_elements_drop:
  "i < length a \<Longrightarrow>
   string_elements (drop i a) =
     (case json_node_get_string (Some (a ! i)) of None \<Rightarrow> [] | Some p \<Rightarrow> [p])
       @ string_elements (drop (Suc i) a)"
  by (cases "a ! i") (simp_all add: Cons_nth_drop_Suc [symmetric] json_node_get_string_def)

lemma resource_paths_array_calls:
  "agent_calls (resource_paths ag n desc app_info path_node (Some a) (length a) i tr) =
     agent_calls tr @ map (\<lambda>p. AddResource n p (or_empty desc) (or_empty app_info))
                        (string_elements (drop i a))"
proof (induction "length a - i" arbitrary: i tr)
  case 0
  then show ?case by (subst resource_paths.simps) simp
next
  case (Suc k)
  then have lt: "i < length a" and k: "k = length a - Suc i" by simp_all
  note IH = Suc.hyps(1) [OF k]
  show ?case
  proof (cases "json_node_get_string (Some (a ! i))")
    case None
    with lt show ?thesis
      by (subst resource_paths.simps)
         (simp add: IH string_elements_drop json_array_get_string_element_def)
  next
    case (Some p)
    with lt show ?thesis
      by (subst resource_paths.simps)
         (simp add: IH string_elements_drop json_array_get_string_element_def invoke_def
            split: prod.splits)
  qed
qed


lemma resource_paths_done:
  "\<not> pidx < path_len \<Longrightarrow>
   resource_paths ag n desc app_info path_node path_array path_len pidx tr = tr"
  by (subst resource_paths.simps) simp

lemma parse_json_loop_done:
  "\<not> i < json_len \<Longrightarrow> parse_json_loop ag node array json_len json_type app_info i tr = tr"
  by (subst parse_json_loop.simps) simp

lemma resource_paths_single_calls:
  "agent_calls (resource_paths ag n desc app_info path_node None (Suc 0) 0 tr) =
     agent_calls tr @ map (\<lambda>p. AddResource n p (or_empty desc) (or_empty app_info))
                        (case json_node_get_string path_node of None \<Rightarrow> [] | Some p \<Rightarrow> [p])"
  by (subst resource_paths.simps)
     (simp add: resource_paths_done invoke_def split: option.splits prod.splits)

lemma parse_resource_calls:
  "agent_calls (parse_resource ag app_info object tr) =
     agent_calls tr @ resource_calls app_info object"
proof (cases "json_object_get_string_member object ''name''")
  case None
  then show ?thesis by (simp add: parse_resource_def resource_calls_def)
next
  case (Some n)
  show ?thesis
  proof (cases "json_object_get_member object ''path''")
    case None
    with Some show ?thesis
      by (simp add: parse_resource_def resource_calls_def JSON_NODE_HOLDS_ARRAY_def
          resource_paths_single_calls json_node_get_string_def)
  next
    case (Some v)
    with \<open>json_object_get_string_member object ''name'' = Some n\<close> show ?thesis
      by (cases v)
         (simp_all add: parse_resource_def resource_calls_def JSON_NODE_HOLDS_ARRAY_def
            json_node_get_array_def json_array_get_length_def
            resource_paths_single_calls resource_paths_array_calls json_node_get_string_def)
  qed
qed

lemma parse_entry_calls:
  "agent_calls (parse_entry ag json_type app_info object tr) =
     agent_calls tr @ entry_calls json_type app_info object"
  by (cases json_type)
     (simp_all add: parse_entry_def entry_calls_def parse_model_calls parse_pipeline_calls
        parse_resource_calls)

lemma parse_json_loop_array_calls:
  "agent_calls (parse_json_loop ag node (Some a) (length a) json_type app_info i tr) =
     agent_calls tr @
     concat (map (\<lambda>x. entry_calls json_type app_info (json_node_get_object (Some x)))
               (drop i a))"
proof (induction "length a - i" arbitrary: i tr)
  case 0
  then show ?case by (subst parse_json_loop.simps) simp
next
  case (Suc k)
  then have lt: "i < length a" and k: "k = length a - Suc i" by simp_all
  note IH = Suc.hyps(1) [OF k]
  from lt show ?case
    by (subst parse_json_loop.simps)
       (simp add: IH parse_entry_calls json_array_get_object_element_def
          Cons_nth_drop_Suc [symmetric])
qed

lemma parse_json_loop_single_calls:
  "agent_calls (parse_json_loop ag node None (Suc 0) json_type app_info 0 tr) =
     agent_calls tr @ entry_calls json_type app_info (json_node_get_object node)"
  by (subst parse_json_loop.simps) (simp add: parse_json_loop_done parse_entry_calls)

lemma parse_json_calls:
  "agent_calls (parse_json ag node json_type app_info tr) =
     agent_calls tr @ node_calls json_type app_info node"
proof (cases node)
  case None
  then show ?thesis
    by (simp add: parse_json_def node_calls_def node_objects_def JSON_NODE_HOLDS_ARRAY_def
        parse_json_loop_single_calls)
next
  case (Some v)
  then show ?thesis
    by (cases v)
       (simp_all add: parse_json_def node_calls_def node_objects_def JSON_NODE_HOLDS_ARRAY_def
          json_node_get_array_def json_array_get_length_def
          parse_json_loop_single_calls parse_json_loop_array_calls comp_def)
qed

lemma config_members_step:
  "config_members ag object app_info (name # iter) tr =
     (case key_type name of
        Some ty \<Rightarrow> config_members ag object app_info iter
                     (parse_json ag (json_object_get_member object name) ty app_info tr)
      | None \<Rightarrow> (False, tr @ [Log DLOG_ERROR
          ''Failed to parse configuration file, %s cannot get the valid type from configuration.''
          [LStr name]]))"
  by (simp add: key_type_def)

lemma config_members_fst:
  "fst (config_members ag object app_info names tr) = list_all (\<lambda>k. key_type k \<noteq> None) names"
proof (induction names arbitrary: tr)
  case Nil
  show ?case by simp
next
  case (Cons name iter)
  show ?case
    by (cases "key_type name") (simp_all only: config_members_step Cons.IH option.case, simp_all)
qed

lemma config_members_calls:
  "agent_calls (snd (config_members ag object app_info names tr)) =
     agent_calls tr @ config_calls app_info object names"
proof (induction names arbitrary: tr)
  case Nil
  show ?case by (simp add: config_calls_def)
next
  case (Cons name iter)
  show ?case
  proof (cases "key_type name")
    case None
    then show ?thesis
      by (simp only: config_members_step) (simp add: config_calls_def key_calls_def)
  next
    case (Some ty)
    then show ?thesis
      by (simp only: config_members_step option.case Cons.IH parse_json_calls)
         (simp add: config_calls_def key_calls_def)
  qed
qed


lemma c_string_lits [simp]:
  "c_string ''model''" "c_string ''models''" "c_string ''pipeline''" "c_string ''pipelines''"
  "c_string ''resource''" "c_string ''resources''" "c_string ''true''"
  by (simp_all add: c_string_def)

lemma ascii_lower_lits [simp]:
  "ascii_lower ''model'' = ''model''" "ascii_lower ''models'' = ''models''"
  "ascii_lower ''pipeline'' = ''pipeline''" "ascii_lower ''pipelines'' = ''pipelines''"
  "ascii_lower ''resource'' = ''resource''" "ascii_lower ''resources'' = ''resources''"
  "ascii_lower ''true'' = ''true''"
  by (simp_all add: ascii_lower_def g_ascii_tolower_def)

lemma key_type_category: "c_string k \<Longrightarrow> key_type k = category_of k"
  by (simp only: key_type_def category_of_def strcasecmp_zero_iff c_string_lits
      ascii_lower_lits Let_def)

lemma get_json_config_manifest:
  "manifest_at e json_path r \<Longrightarrow>
   get_json_config e json_path app_info tr =
     config_members (ml_agent e) (json_node_get_object (Some r)) app_info
       (json_object_get_members (json_node_get_object (Some r))) tr"
  by (auto simp: manifest_at_def get_json_config_def Let_def split: option.splits)

lemma get_json_config_object:
  "manifest_at e json_path (JObject kvs) \<Longrightarrow>
   get_json_config e json_path app_info tr =
     config_members (ml_agent e) (Some kvs) app_info (map fst kvs) tr"
  by (simp add: get_json_config_manifest json_node_get_object_def json_object_get_members_def)

lemma valid_manifest_parse_ok:
  "manifest_at e json_path (JObject kvs) \<Longrightarrow> valid_manifest kvs \<Longrightarrow>
   fst (get_json_config e json_path app_info tr)"
  by (simp add: get_json_config_object config_members_fst valid_manifest_def)

lemma valid_manifest_calls:
  "manifest_at e json_path (JObject kvs) \<Longrightarrow>
   agent_calls (snd (get_json_config e json_path app_info tr)) =
     agent_calls tr @ config_calls app_info (Some kvs) (map fst kvs)"
  by (simp add: get_json_config_object config_members_calls)

subsection \<open>Claims on the package-manager entry points\<close>

text \<open>
  Claim C10. For every package id, application id and metadata list, UPGRADE returns 0;
  its trace is that of UNINSTALL followed by INSTALL, run after its own log line, so the
  result of the inner INSTALL is dropped; RECOVERUPGRADE is UPGRADE run after one more
  log line and returns what UPGRADE returns. In the example installation with a package
  manager that knows no such package, the inner INSTALL returns \<open>-1\<close> and UPGRADE still
  returns 0.
\<close>

theorem C10_upgrade_reports_success:
  "fst (PKGMGR_MDPARSER_PLUGIN_UPGRADE e pkgid appid metadata tr) = 0
   \<and> snd (PKGMGR_MDPARSER_PLUGIN_UPGRADE e pkgid appid metadata tr) =
       snd (PKGMGR_MDPARSER_PLUGIN_INSTALL e pkgid appid metadata
         (snd (PKGMGR_MDPARSER_PLUGIN_UNINSTALL e pkgid appid metadata
           (tr @ [Log DLOG_INFO ''PKGMGR_MDPARSER_PLUGIN_UPGRADE called'' []]))))
   \<and> PKGMGR_MDPARSER_PLUGIN_RECOVERUPGRADE e pkgid appid metadata tr =
       PKGMGR_MDPARSER_PLUGIN_UPGRADE e pkgid appid metadata
         (tr @ [Log DLOG_INFO ''PKGMGR_MDPARSER_PLUGIN_RECOVERUPGRADE called'' []])
   \<and> fst (PKGMGR_MDPARSER_PLUGIN_RECOVERUPGRADE e pkgid appid metadata tr) =
       fst (PKGMGR_MDPARSER_PLUGIN_UPGRADE e pkgid appid metadata tr)
   \<and> fst (PKGMGR_MDPARSER_PLUGIN_INSTALL
            ((example_env None)\<lparr>pkgmgrinfo_pkginfo_get_pkginfo := (\<lambda>p. (- 1, 0))\<rparr>)
            ''org.example.models'' None []
            [Log DLOG_INFO ''PKGMGR_MDPARSER_PLUGIN_UPGRADE called'' [],
             Log DLOG_INFO ''PKGMGR_MDPARSER_PLUGIN_UNINSTALL called'' []]) = - 1
   \<and> PKGMGR_MDPARSER_PLUGIN_UPGRADE
        ((example_env None)\<lparr>pkgmgrinfo_pkginfo_get_pkginfo := (\<lambda>p. (- 1, 0))\<rparr>)
        ''org.example.models'' None [] [] =
       (0, [Log DLOG_INFO ''PKGMGR_MDPARSER_PLUGIN_UPGRADE called'' [],
            Log DLOG_INFO ''PKGMGR_MDPARSER_PLUGIN_UNINSTALL called'' [],
            Log DLOG_INFO ''PKGMGR_MDPARSER_PLUGIN_INSTALL called'' [],
            Log DLOG_INFO ''pkgid = %s, appid = %s\<newline>'' [LStr ''org.example.models'', LNull],
            Pkgmgr (Get_pkginfo ''org.example.models''),
            Log DLOG_ERROR ''Failed to get handle.'' []])"
proof -
  have gen: "\<And>t. fst (PKGMGR_MDPARSER_PLUGIN_UPGRADE e pkgid appid metadata t) = 0"
    by (simp add: PKGMGR_MDPARSER_PLUGIN_UPGRADE_def Let_def split: prod.splits)
  have tr: "snd (PKGMGR_MDPARSER_PLUGIN_UPGRADE e pkgid appid metadata tr) =
       snd (PKGMGR_MDPARSER_PLUGIN_INSTALL e pkgid appid metadata
         (snd (PKGMGR_MDPARSER_PLUGIN_UNINSTALL e pkgid appid metadata
           (tr @ [Log DLOG_INFO ''PKGMGR_MDPARSER_PLUGIN_UPGRADE called'' []]))))"
    by (simp add: PKGMGR_MDPARSER_PLUGIN_UPGRADE_def Let_def split: prod.splits)
  have rec: "PKGMGR_MDPARSER_PLUGIN_RECOVERUPGRADE e pkgid appid metadata tr =
       PKGMGR_MDPARSER_PLUGIN_UPGRADE e pkgid appid metadata
         (tr @ [Log DLOG_INFO ''PKGMGR_MDPARSER_PLUGIN_RECOVERUPGRADE called'' []])"
    by (simp add: PKGMGR_MDPARSER_PLUGIN_RECOVERUPGRADE_def)
  have inst: "fst (PKGMGR_MDPARSER_PLUGIN_INSTALL
            ((example_env None)\<lparr>pkgmgrinfo_pkginfo_get_pkginfo := (\<lambda>p. (- 1, 0))\<rparr>)
            ''org.example.models'' None []
            [Log DLOG_INFO ''PKGMGR_MDPARSER_PLUGIN_UPGRADE called'' [],
             Log DLOG_INFO ''PKGMGR_MDPARSER_PLUGIN_UNINSTALL called'' []]) = - 1"
    by (simp add: PKGMGR_MDPARSER_PLUGIN_INSTALL_def example_env_def Let_def)
  have upg: "PKGMGR_MDPARSER_PLUGIN_UPGRADE
        ((example_env None)\<lparr>pkgmgrinfo_pkginfo_get_pkginfo := (\<lambda>p. (- 1, 0))\<rparr>)
        ''org.example.models'' None [] [] =
       (0, [Log DLOG_INFO ''PKGMGR_MDPARSER_PLUGIN_UPGRADE called'' [],
            Log DLOG_INFO ''PKGMGR_MDPARSER_PLUGIN_UNINSTALL called'' [],
            Log DLOG_INFO ''PKGMGR_MDPARSER_PLUGIN_INSTALL called'' [],
            Log DLOG_INFO ''pkgid = %s, appid = %s\<newline>'' [LStr ''org.example.models'', LNull],
            Pkgmgr (Get_pkginfo ''org.example.models''),
            Log DLOG_ERROR ''Failed to get handle.'' []])"
    by (simp add: PKGMGR_MDPARSER_PLUGIN_UPGRADE_def PKGMGR_MDPARSER_PLUGIN_UNINSTALL_def
        PKGMGR_MDPARSER_PLUGIN_INSTALL_def example_env_def Let_def lstr_def)
  show ?thesis
    using gen [of tr] tr rec inst upg by (simp only: rec gen)
qed

subsection \<open>Claims on the manifest as a whole\<close>

text \<open>
  Claim C7, as the code behaves. When the manifest file exists, can be read and holds
  valid JSON whose top-level value is not an object, \<open>_get_json_config\<close> returns
  \<open>TRUE\<close> (not \<open>FALSE\<close>, as the claim has it) and leaves the trace as it was:
  \<open>json_node_get_object\<close> gives \<open>NULL\<close>, which is not checked, and the member list of
  \<open>NULL\<close> is empty.
\<close>

theorem C7_non_object_root_accepted:
  "manifest_at e json_path r \<Longrightarrow> \<not> is_object r \<Longrightarrow>
   get_json_config e json_path app_info tr = (True, tr)"
  by (cases r)
     (simp_all add: get_json_config_manifest is_object_def json_node_get_object_def
        json_object_get_members_def)

theorem C7_non_object_root_accepted_witness:
  "manifest_at (example_env (Some (JArray []))) example_path (JArray [])
   \<and> \<not> is_object (JArray [])
   \<and> get_json_config (example_env (Some (JArray []))) example_path (Some ''app-info'') [] = (True, [])"
proof -
  have m: "manifest_at (example_env (Some (JArray []))) example_path (JArray [])"
    by (simp add: manifest_at_def example_env_def example_path_def)
  have o: "\<not> is_object (JArray [])" by (simp add: is_object_def)
  from C7_non_object_root_accepted [OF m o] m o show ?thesis by simp
qed

subsection \<open>Claims on the entries of a category\<close>

lemma missing_required_no_calls:
  "missing_required ty bad \<Longrightarrow> entry_calls ty app_info (Some bad) = []"
  by (cases ty)
     (auto simp: missing_required_def entry_calls_def model_calls_def pipeline_calls_def
        resource_calls_def json_object_get_string_member_def json_object_get_member_def
        json_node_get_string_def split: option.splits)

lemma node_calls_array:
  "node_calls ty app_info (Some (JArray xs)) =
     concat (map (\<lambda>x. entry_calls ty app_info (json_node_get_object (Some x))) xs)"
  by (simp add: node_calls_def node_objects_def comp_def)

lemma node_calls_object:
  "node_calls ty app_info (Some (JObject obj)) = entry_calls ty app_info (Some obj)"
  by (simp add: node_calls_def node_objects_def json_node_get_object_def)

lemma config_calls_cong:
  "(\<And>k. k \<in> set names \<Longrightarrow> key_calls app_info object k = key_calls app_info object' k) \<Longrightarrow>
   config_calls app_info object names = config_calls app_info object' names"
  unfolding config_calls_def
  by (rule arg_cong [where f = concat], rule map_cong) (auto dest: set_takeWhileD)

lemma key_calls_replace:
  assumes "key_type k = Some ty"
    and "node_calls ty app_info (Some v) = node_calls ty app_info (Some v')"
  shows "key_calls app_info (Some (pre @ (k, v) # post)) k' =
         key_calls app_info (Some (pre @ (k, v') # post)) k'"
  using assms
  by (auto simp: key_calls_def json_object_get_member_def map_add_def
      split: option.splits)

text \<open>
  Claim C1. Take a structurally valid manifest in which the array of some category key
  holds an entry that lacks a field its category requires. The parse returns true; the
  entry, in an array or as the bare value of the key, adds no call to the agent; and the
  calls made are those of the manifest without that entry, so its siblings are processed
  as if it were absent. In particular, the manifest
  \<open>{"models": [{"name":"a","model":"/a"},{"name":"b"}]}\<close> parses with success and adds
  exactly one call, the Register of \<open>a\<close>.
\<close>

theorem C1_missing_field_entry_skipped:
  assumes "manifest_at e path (JObject (pre @ (k, JArray (xs @ JObject bad # ys)) # post))"
    and "manifest_at e' path' (JObject (pre @ (k, JArray (xs @ ys)) # post))"
    and "valid_manifest (pre @ (k, JArray (xs @ JObject bad # ys)) # post)"
    and "key_type k = Some ty"
    and "missing_required ty bad"
  shows "fst (get_json_config e path app_info tr)
     \<and> agent_calls (parse_entry ag ty app_info (Some bad) tr') = agent_calls tr'
     \<and> agent_calls (parse_json ag (Some (JObject bad)) ty app_info tr') = agent_calls tr'
     \<and> agent_calls (snd (get_json_config e path app_info tr)) =
         agent_calls (snd (get_json_config e' path' app_info tr))
     \<and> (manifest_at e2 p2
           (JObject [(''models'',
              JArray [JObject [(''name'', JString ''a''), (''model'', JString ''/a'')],
                      JObject [(''name'', JString ''b'')]])]) \<longrightarrow>
         fst (get_json_config e2 p2 app_info tr)
         \<and> agent_calls (snd (get_json_config e2 p2 app_info tr)) =
             agent_calls tr @ [Register ''a'' ''/a'' False [] (or_empty app_info)])"
proof -
  have ok: "fst (get_json_config e path app_info tr)"
    using assms(1,3) by (rule valid_manifest_parse_ok)
  have none: "entry_calls ty app_info (Some bad) = []"
    using assms(5) by (rule missing_required_no_calls)
  have entry: "agent_calls (parse_entry ag ty app_info (Some bad) tr') = agent_calls tr'"
    by (simp add: parse_entry_calls none)
  have bare: "agent_calls (parse_json ag (Some (JObject bad)) ty app_info tr') = agent_calls tr'"
    by (simp add: parse_json_calls node_calls_object none)
  have node: "node_calls ty app_info (Some (JArray (xs @ JObject bad # ys))) =
              node_calls ty app_info (Some (JArray (xs @ ys)))"
    by (simp add: node_calls_array json_node_get_object_def none)
  have same: "agent_calls (snd (get_json_config e path app_info tr)) =
         agent_calls (snd (get_json_config e' path' app_info tr))"
    by (simp add: valid_manifest_calls [OF assms(1)] valid_manifest_calls [OF assms(2)]
        config_calls_cong [OF key_calls_replace [OF assms(4) node]])
  have ex: "fst (get_json_config e2 p2 app_info tr)
         \<and> agent_calls (snd (get_json_config e2 p2 app_info tr)) =
             agent_calls tr @ [Register ''a'' ''/a'' False [] (or_empty app_info)]"
    if m: "manifest_at e2 p2
           (JObject [(''models'',
              JArray [JObject [(''name'', JString ''a''), (''model'', JString ''/a'')],
                      JObject [(''name'', JString ''b'')]])])"
  proof -
    have kt: "key_type ''models'' = Some MLSVC_JSON_MODEL"
      by (simp add: key_type_def g_ascii_tolower_def)
    show ?thesis
      by (simp add: valid_manifest_parse_ok [OF m] valid_manifest_calls [OF m]
          valid_manifest_def kt config_calls_def key_calls_def node_calls_array
          json_object_get_member_def json_node_get_object_def entry_calls_def model_calls_def
          json_object_get_string_member_def json_node_get_string_def active_flag_def
          or_empty_def)
  qed
  from ok entry bare same ex show ?thesis by blast
qed


text \<open>
  The manifest of claim C1 in the example installation.
\<close>

theorem C1_missing_field_entry_skipped_witness:
  "manifest_at
     (example_env (Some (JObject ([] @ (''models'',
        JArray ([JObject [(''name'', JString ''a''), (''model'', JString ''/a'')]]
                @ JObject [(''name'', JString ''b'')] # [])) # []))))
     example_path
     (JObject ([] @ (''models'',
        JArray ([JObject [(''name'', JString ''a''), (''model'', JString ''/a'')]]
                @ JObject [(''name'', JString ''b'')] # [])) # []))
   \<and> manifest_at
     (example_env (Some (JObject ([] @ (''models'',
        JArray ([JObject [(''name'', JString ''a''), (''model'', JString ''/a'')]] @ [])) # []))))
     example_path
     (JObject ([] @ (''models'',
        JArray ([JObject [(''name'', JString ''a''), (''model'', JString ''/a'')]] @ [])) # []))
   \<and> valid_manifest ([] @ (''models'',
        JArray ([JObject [(''name'', JString ''a''), (''model'', JString ''/a'')]]
                @ JObject [(''name'', JString ''b'')] # [])) # [])
   \<and> key_type ''models'' = Some MLSVC_JSON_MODEL
   \<and> missing_required MLSVC_JSON_MODEL [(''name'', JString ''b'')]
   \<and> fst (get_json_config
        (example_env (Some (JObject [(''models'',
           JArray [JObject [(''name'', JString ''a''), (''model'', JString ''/a'')],
                   JObject [(''name'', JString ''b'')]])])))
        example_path (Some ''app-info'') [])
   \<and> agent_calls (snd (get_json_config
        (example_env (Some (JObject [(''models'',
           JArray [JObject [(''name'', JString ''a''), (''model'', JString ''/a'')],
                   JObject [(''name'', JString ''b'')]])])))
        example_path (Some ''app-info'') [])) =
       agent_calls (snd (get_json_config
        (example_env (Some (JObject [(''models'',
           JArray [JObject [(''name'', JString ''a''), (''model'', JString ''/a'')]])])))
        example_path (Some ''app-info'') []))
   \<and> agent_calls (snd (get_json_config
        (example_env (Some (JObject [(''models'',
           JArray [JObject [(''name'', JString ''a''), (''model'', JString ''/a'')],
                   JObject [(''name'', JString ''b'')]])])))
        example_path (Some ''app-info'') [])) =
       [Register ''a'' ''/a'' False [] ''app-info'']"
proof -
  let ?a = "[(''name'', JString ''a''), (''model'', JString ''/a'')]"
  let ?b = "[(''name'', JString ''b'')]"
  have m1: "manifest_at
     (example_env (Some (JObject ([] @ (''models'', JArray ([JObject ?a] @ JObject ?b # [])) # []))))
     example_path (JObject ([] @ (''models'', JArray ([JObject ?a] @ JObject ?b # [])) # []))"
    by (simp add: manifest_at_def example_env_def example_path_def)
  have m2: "manifest_at
     (example_env (Some (JObject ([] @ (''models'', JArray ([JObject ?a] @ [])) # []))))
     example_path (JObject ([] @ (''models'', JArray ([JObject ?a] @ [])) # []))"
    by (simp add: manifest_at_def example_env_def example_path_def)
  have kt: "key_type ''models'' = Some MLSVC_JSON_MODEL"
    by (simp add: key_type_def g_ascii_tolower_def)
  have v: "valid_manifest ([] @ (''models'', JArray ([JObject ?a] @ JObject ?b # [])) # [])"
    by (simp add: valid_manifest_def kt)
  have mr: "missing_required MLSVC_JSON_MODEL ?b"
    by (simp add: missing_required_def)
  note C1_missing_field_entry_skipped [OF m1 m2 v kt mr,
      where app_info = "Some ''app-info''" and tr = "[]" and tr' = "[]"
        and ag = "ml_agent (example_env None)"
        and ?e2.0 = "example_env (Some (JObject ([] @ (''models'', JArray ([JObject ?a] @ JObject ?b # [])) # [])))"
        and ?p2.0 = example_path]
  with m1 m2 v kt mr show ?thesis by (auto simp: or_empty_def)
qed


lemma config_calls_valid:
  "list_all (\<lambda>k. key_type k \<noteq> None) names \<Longrightarrow>
   config_calls app_info object names = concat (map (key_calls app_info object) names)"
  by (simp add: config_calls_def takeWhile_eq_all_conv [THEN iffD2] list_all_iff)

lemma is_register_model_calls:
  "filter is_register (model_calls app_info object) = model_calls app_info object"
  by (simp add: model_calls_def is_register_def split: option.splits)

lemma is_register_pipeline_calls: "filter is_register (pipeline_calls object) = []"
  by (simp add: pipeline_calls_def is_register_def split: option.splits)

lemma is_register_resource_calls: "filter is_register (resource_calls app_info object) = []"
  by (simp add: resource_calls_def is_register_def filter_map comp_def split: option.splits)

lemma is_register_node_calls:
  "filter is_register (node_calls ty app_info node) =
     (if ty = MLSVC_JSON_MODEL then node_calls ty app_info node else [])"
proof -
  have "filter is_register (entry_calls ty app_info object) =
          (if ty = MLSVC_JSON_MODEL then entry_calls ty app_info object else [])" for object
    by (cases ty)
       (simp_all add: entry_calls_def is_register_model_calls is_register_pipeline_calls
          is_register_resource_calls)
  then show ?thesis
    by (simp add: node_calls_def filter_concat comp_def)
qed

lemma is_register_key_calls:
  "filter is_register (key_calls app_info object k) =
     (if key_type k = Some MLSVC_JSON_MODEL then key_calls app_info object k else [])"
  by (auto simp: key_calls_def is_register_node_calls split: option.splits)

lemma string_member_field:
  "or_empty (json_object_get_string_member (Some obj) k) = field_string obj k"
  by (simp add: or_empty_def field_string_def json_object_get_string_member_def
      json_object_get_member_def json_node_get_string_def split: option.splits json.splits)

lemma string_member_active:
  "active_flag (json_object_get_string_member (Some obj) ''activate'') = entry_active obj"
  by (simp add: active_flag_def entry_active_def json_object_get_string_member_def
      json_object_get_member_def json_node_get_string_def split: option.splits json.splits)

lemma string_member_Some:
  "map_of obj k = Some (JString x) \<Longrightarrow> json_object_get_string_member (Some obj) k = Some x"
  by (simp add: json_object_get_string_member_def json_object_get_member_def
      json_node_get_string_def)

lemma well_formed_model_calls:
  assumes "well_formed_model obj"
  shows "model_calls app_info (Some obj) = [register_of app_info obj]"
proof -
  from assms obtain n m where n: "map_of obj ''name'' = Some (JString n)"
    and m: "map_of obj ''model'' = Some (JString m)"
    by (auto simp: well_formed_model_def split: option.splits json.splits)
  have "field_string obj ''name'' = n" "field_string obj ''model'' = m"
    using n m by (simp_all add: field_string_def)
  then show ?thesis
    by (simp add: model_calls_def register_of_def string_member_Some [OF n]
        string_member_Some [OF m] string_member_field string_member_active)
qed

lemma model_entries_calls:
  "list_all well_formed_model objs \<Longrightarrow>
   concat (map (\<lambda>obj. entry_calls MLSVC_JSON_MODEL app_info
                          (json_node_get_object (Some (JObject obj)))) objs) =
     map (register_of app_info) objs"
  by (induction objs)
     (simp_all add: entry_calls_def json_node_get_object_def well_formed_model_calls)

lemma holds_entries_calls:
  assumes "holds_entries v objs" and "list_all well_formed_model objs"
  shows "node_calls MLSVC_JSON_MODEL app_info (Some v) = map (register_of app_info) objs"
proof (cases "v = JArray (map JObject objs)")
  case True
  with assms(2) show ?thesis by (simp add: node_calls_array comp_def model_entries_calls)
next
  case False
  with assms(1) obtain obj where "objs = [obj]" and "v = JObject obj"
    by (auto simp: holds_entries_def split: list.splits)
  with assms(2) show ?thesis
    by (simp add: node_calls_object entry_calls_def well_formed_model_calls)
qed

lemma manifest_registers:
  assumes k: "key_type k = Some MLSVC_JSON_MODEL"
    and others: "list_all (\<lambda>k'. key_type k' = Some MLSVC_JSON_PIPELINE
                      \<or> key_type k' = Some MLSVC_JSON_RESOURCE) (map fst (pre @ post))"
    and v: "holds_entries v objs" and wf: "list_all well_formed_model objs"
  shows "valid_manifest (pre @ (k, v) # post)"
    and "filter is_register
           (config_calls app_info (Some (pre @ (k, v) # post)) (map fst (pre @ (k, v) # post))) =
         map (register_of app_info) objs"
proof -
  let ?kvs = "pre @ (k, v) # post"
  let ?F = "\<lambda>k'. filter is_register (key_calls app_info (Some ?kvs) k')"
  have all: "key_type (fst x) = Some MLSVC_JSON_PIPELINE
               \<or> key_type (fst x) = Some MLSVC_JSON_RESOURCE"
    if "x \<in> set (pre @ post)" for x
    using others that unfolding list_all_iff by force
  have np: "key_type (fst x) \<noteq> Some MLSVC_JSON_MODEL" "key_type (fst x) \<noteq> None"
    if "x \<in> set pre \<or> x \<in> set post" for x
    using all [of x] that by auto
  have "key_type k' \<noteq> None" if "k' \<in> set (map fst ?kvs)" for k'
  proof -
    from that consider "k' = k" | x where "x \<in> set pre \<or> x \<in> set post" "k' = fst x"
      by auto
    then show ?thesis
    proof cases
      case 1
      with k show ?thesis by simp
    next
      case 2
      with np(2) [of x] show ?thesis by simp
    qed
  qed
  then show valid: "valid_manifest ?kvs"
    unfolding valid_manifest_def list_all_iff by blast
  have "k \<notin> fst ` set pre"
  proof
    assume "k \<in> fst ` set pre"
    then obtain x where "x \<in> set pre" "k = fst x" by auto
    with np(1) [of x] k show False by simp
  qed
  then have notin: "map_of pre k = None"
    by (simp add: map_of_eq_None_iff)
  have look: "json_object_get_member (Some ?kvs) k = Some v"
    by (simp add: json_object_get_member_def map_add_def notin)
  have z: "?F (fst x) = []" if "x \<in> set pre \<or> x \<in> set post" for x
    using np(1) [OF that] by (simp add: is_register_key_calls)
  have z1: "concat (map (\<lambda>x. ?F (fst x)) pre) = []"
    using z by simp
  have z2: "concat (map (\<lambda>x. ?F (fst x)) post) = []"
    using z by simp
  have kc: "key_calls app_info (Some ?kvs) k = map (register_of app_info) objs"
    by (simp add: k key_calls_def look holds_entries_calls [OF v wf])
  have fr: "filter is_register (map (register_of app_info) objs) =
            map (register_of app_info) objs"
    by (induction objs) (simp_all add: is_register_def register_of_def)
  have mid: "?F k = map (register_of app_info) objs"
    by (simp only: kc fr)
  have "config_calls app_info (Some ?kvs) (map fst ?kvs) =
        concat (map (key_calls app_info (Some ?kvs)) (map fst ?kvs))"
    using valid by (simp only: config_calls_valid valid_manifest_def)
  then have "filter is_register (config_calls app_info (Some ?kvs) (map fst ?kvs)) =
        concat (map (\<lambda>x. ?F (fst x)) pre) @ ?F k @ concat (map (\<lambda>x. ?F (fst x)) post)"
    by (simp add: filter_concat comp_def)
  then show "filter is_register (config_calls app_info (Some ?kvs) (map fst ?kvs)) =
         map (register_of app_info) objs"
    by (simp only: z1 z2 mid append_Nil append_Nil2)
qed


lemma permuted_manifest:
  assumes "mset kvs' = mset (pre @ (k, v) # post)"
  shows "\<exists>pre' post'. kvs' = pre' @ (k, v) # post' \<and> set (pre' @ post') = set (pre @ post)"
proof -
  have "(k, v) \<in> set kvs'"
    using assms by (metis in_set_conv_decomp mset_eq_setD)
  then obtain pre' post' where dec: "kvs' = pre' @ (k, v) # post'"
    by (auto dest: split_list)
  with assms have "mset (pre' @ post') = mset (pre @ post)" by simp
  then have "set (pre' @ post') = set (pre @ post)" by (rule mset_eq_setD)
  with dec show ?thesis by blast
qed

text \<open>
  Claim C2. Take a valid manifest with one model key, whose value holds \<open>N\<close> well-formed
  model entries, as an array or, when \<open>N = 1\<close>, as the bare object; its other keys are
  pipeline and resource keys. The parse returns true and adds exactly \<open>N\<close> Register
  calls, one per entry and in the entries' order, each with the entry's name, model
  path, active flag and description (empty when absent) and the application context.
  A manifest with the same members in any other order gives the same Register calls.
\<close>

theorem C2_model_entries_registered:
  assumes "manifest_at e path (JObject (pre @ (k, v) # post))"
    and "manifest_at e' path' (JObject kvs')"
    and "mset kvs' = mset (pre @ (k, v) # post)"
    and "key_type k = Some MLSVC_JSON_MODEL"
    and "list_all (\<lambda>k'. key_type k' = Some MLSVC_JSON_PIPELINE
                      \<or> key_type k' = Some MLSVC_JSON_RESOURCE) (map fst (pre @ post))"
    and "holds_entries v objs"
    and "list_all well_formed_model objs"
  shows "fst (get_json_config e path app_info tr)
     \<and> filter is_register (agent_calls (snd (get_json_config e path app_info tr))) =
         filter is_register (agent_calls tr) @ map (register_of app_info) objs
     \<and> length (filter is_register (agent_calls (snd (get_json_config e path app_info tr)))) =
         length (filter is_register (agent_calls tr)) + length objs
     \<and> fst (get_json_config e' path' app_info tr)
     \<and> filter is_register (agent_calls (snd (get_json_config e' path' app_info tr))) =
         filter is_register (agent_calls (snd (get_json_config e path app_info tr)))"
proof -
  note R = manifest_registers [OF assms(4,5,6,7)]
  have ok: "fst (get_json_config e path app_info tr)"
    using assms(1) R(1) by (rule valid_manifest_parse_ok)
  have regs: "filter is_register (agent_calls (snd (get_json_config e path app_info tr))) =
         filter is_register (agent_calls tr) @ map (register_of app_info) objs"
    by (simp only: valid_manifest_calls [OF assms(1)] filter_append R(2))
  obtain pre' post' where dec: "kvs' = pre' @ (k, v) # post'"
    and same: "set (pre' @ post') = set (pre @ post)"
    using permuted_manifest [OF assms(3)] by blast
  have others': "list_all (\<lambda>k'. key_type k' = Some MLSVC_JSON_PIPELINE
                      \<or> key_type k' = Some MLSVC_JSON_RESOURCE) (map fst (pre' @ post'))"
    using assms(5) same unfolding list_all_iff set_map by simp
  note R' = manifest_registers [OF assms(4) others' assms(6,7)]
  have m': "manifest_at e' path' (JObject (pre' @ (k, v) # post'))"
    using assms(2) dec by simp
  have ok': "fst (get_json_config e' path' app_info tr)"
    using m' R'(1) by (rule valid_manifest_parse_ok)
  have regs': "filter is_register (agent_calls (snd (get_json_config e' path' app_info tr))) =
         filter is_register (agent_calls tr) @ map (register_of app_info) objs"
    by (simp only: valid_manifest_calls [OF m'] filter_append R'(2))
  from ok regs ok' regs' show ?thesis by simp
qed


text \<open>
  Claim C2 in the example installation: a pipeline key before or after a model key with
  two entries.
\<close>

theorem C2_model_entries_registered_witness:
  "manifest_at
     (example_env (Some (JObject ([(''pipeline'', JObject example_pipeline)]
        @ (''models'', JArray (map JObject [example_model_a, example_model_b])) # []))))
     example_path
     (JObject ([(''pipeline'', JObject example_pipeline)]
        @ (''models'', JArray (map JObject [example_model_a, example_model_b])) # []))
   \<and> manifest_at
     (example_env (Some (JObject
        [(''models'', JArray (map JObject [example_model_a, example_model_b])),
         (''pipeline'', JObject example_pipeline)])))
     example_path
     (JObject [(''models'', JArray (map JObject [example_model_a, example_model_b])),
               (''pipeline'', JObject example_pipeline)])
   \<and> mset [(''models'', JArray (map JObject [example_model_a, example_model_b])),
            (''pipeline'', JObject example_pipeline)] =
       mset ([(''pipeline'', JObject example_pipeline)]
        @ (''models'', JArray (map JObject [example_model_a, example_model_b])) # [])
   \<and> key_type ''models'' = Some MLSVC_JSON_MODEL
   \<and> list_all (\<lambda>k'. key_type k' = Some MLSVC_JSON_PIPELINE \<or> key_type k' = Some MLSVC_JSON_RESOURCE)
         (map fst ([(''pipeline'', JObject example_pipeline)] @ []))
   \<and> holds_entries (JArray (map JObject [example_model_a, example_model_b]))
         [example_model_a, example_model_b]
   \<and> list_all well_formed_model [example_model_a, example_model_b]
   \<and> fst (get_json_config
        (example_env (Some (JObject ([(''pipeline'', JObject example_pipeline)]
           @ (''models'', JArray (map JObject [example_model_a, example_model_b])) # []))))
        example_path (Some ''app-info'') [])
   \<and> filter is_register (agent_calls (snd (get_json_config
        (example_env (Some (JObject ([(''pipeline'', JObject example_pipeline)]
           @ (''models'', JArray (map JObject [example_model_a, example_model_b])) # []))))
        example_path (Some ''app-info'') []))) =
       [Register ''a'' ''/a'' True [] ''app-info'', Register ''b'' ''/b'' False ''second'' ''app-info'']
   \<and> filter is_register (agent_calls (snd (get_json_config
        (example_env (Some (JObject
           [(''models'', JArray (map JObject [example_model_a, example_model_b])),
            (''pipeline'', JObject example_pipeline)])))
        example_path (Some ''app-info'') []))) =
       [Register ''a'' ''/a'' True [] ''app-info'', Register ''b'' ''/b'' False ''second'' ''app-info'']"
proof -
  let ?v = "JArray (map JObject [example_model_a, example_model_b])"
  let ?p = "(''pipeline'', JObject example_pipeline)"
  have m1: "manifest_at (example_env (Some (JObject ([?p] @ (''models'', ?v) # []))))
              example_path (JObject ([?p] @ (''models'', ?v) # []))"
    by (simp add: manifest_at_def example_env_def example_path_def)
  have m2: "manifest_at (example_env (Some (JObject [(''models'', ?v), ?p])))
              example_path (JObject [(''models'', ?v), ?p])"
    by (simp add: manifest_at_def example_env_def example_path_def)
  have ms: "mset [(''models'', ?v), ?p] = mset ([?p] @ (''models'', ?v) # [])"
    by simp
  have kt: "key_type ''models'' = Some MLSVC_JSON_MODEL"
    by (simp add: key_type_def g_ascii_tolower_def)
  have kp: "key_type ''pipeline'' = Some MLSVC_JSON_PIPELINE"
    by (simp add: key_type_def g_ascii_tolower_def)
  have others: "list_all (\<lambda>k'. key_type k' = Some MLSVC_JSON_PIPELINE
                   \<or> key_type k' = Some MLSVC_JSON_RESOURCE) (map fst ([?p] @ []))"
    by (simp add: kp)
  have he: "holds_entries ?v [example_model_a, example_model_b]"
    by (simp add: holds_entries_def)
  have wf: "list_all well_formed_model [example_model_a, example_model_b]"
    by (simp add: well_formed_model_def example_model_a_def example_model_b_def)
  have ra: "register_of (Some ''app-info'') example_model_a =
              Register ''a'' ''/a'' True [] ''app-info''"
    by code_simp
  have rb: "register_of (Some ''app-info'') example_model_b =
              Register ''b'' ''/b'' False ''second'' ''app-info''"
    by (simp add: register_of_def field_string_def entry_active_def example_model_b_def
        or_empty_def)
  note C2_model_entries_registered [OF m1 m2 ms kt others he wf,
      where app_info = "Some ''app-info''" and tr = "[]"]
  with m1 m2 ms kt others he wf ra rb show ?thesis
    by (simp only: list.map agent_calls.simps filter.simps append_Nil)
qed

subsection \<open>Auxiliary facts on the install entry point and on unrecognised keys\<close>

lemma pkgmgr_calls_append [simp]: "pkgmgr_calls (a @ b) = pkgmgr_calls a @ pkgmgr_calls b"
  by (induction a rule: pkgmgr_calls.induct) simp_all

lemma metadata_log_calls [simp]:
  "agent_calls (map (\<lambda>detail. Log p f (args detail)) metadata) = []"
  "pkgmgr_calls (map (\<lambda>detail. Log p f (args detail)) metadata) = []"
  by (induction metadata) simp_all

lemma invoke_pkgmgr [simp]: "pkgmgr_calls (snd (invoke ag c tr)) = pkgmgr_calls tr"
  by (simp add: invoke_def)

lemma parse_model_pkgmgr:
  "pkgmgr_calls (parse_model ag app_info object tr) = pkgmgr_calls tr"
  by (simp add: parse_model_def invoke_def Let_def split: option.splits prod.splits)

lemma parse_pipeline_pkgmgr:
  "pkgmgr_calls (parse_pipeline ag object tr) = pkgmgr_calls tr"
  by (simp add: parse_pipeline_def invoke_def Let_def split: option.splits prod.splits)

lemma resource_paths_pkgmgr:
  "pkgmgr_calls (resource_paths ag n desc app_info path_node path_array path_len i tr) =
     pkgmgr_calls tr"
proof (induction "path_len - i" arbitrary: i tr)
  case 0
  then show ?case by (subst resource_paths.simps) simp
next
  case (Suc k)
  then have lt: "i < path_len" and k: "k = path_len - Suc i" by simp_all
  note IH = Suc.hyps(1) [OF k]
  from lt show ?case
    by (subst resource_paths.simps)
       (simp add: IH invoke_def Let_def split: option.splits prod.splits)
qed

lemma parse_resource_pkgmgr:
  "pkgmgr_calls (parse_resource ag app_info object tr) = pkgmgr_calls tr"
  by (simp add: parse_resource_def resource_paths_pkgmgr Let_def split: option.splits)

lemma parse_entry_pkgmgr:
  "pkgmgr_calls (parse_entry ag json_type app_info object tr) = pkgmgr_calls tr"
  by (cases json_type)
     (simp_all add: parse_entry_def parse_model_pkgmgr parse_pipeline_pkgmgr
        parse_resource_pkgmgr)

lemma parse_json_loop_pkgmgr:
  "pkgmgr_calls (parse_json_loop ag node array json_len json_type app_info i tr) =
     pkgmgr_calls tr"
proof (induction "json_len - i" arbitrary: i tr)
  case 0
  then show ?case by (subst parse_json_loop.simps) simp
next
  case (Suc k)
  then have lt: "i < json_len" and k: "k = json_len - Suc i" by simp_all
  note IH = Suc.hyps(1) [OF k]
  from lt show ?case
    by (subst parse_json_loop.simps) (simp add: IH parse_entry_pkgmgr Let_def)
qed

lemma parse_json_pkgmgr:
  "pkgmgr_calls (parse_json ag node json_type app_info tr) = pkgmgr_calls tr"
  by (simp add: parse_json_def parse_json_loop_pkgmgr split: option.splits)

lemma config_members_pkgmgr:
  "pkgmgr_calls (snd (config_members ag object app_info names tr)) = pkgmgr_calls tr"
proof (induction names arbitrary: tr)
  case Nil
  show ?case by simp
next
  case (Cons name iter)
  show ?case
    by (cases "key_type name")
       (simp_all only: config_members_step option.case Cons.IH parse_json_pkgmgr, simp_all)
qed

lemma get_json_config_pkgmgr:
  "pkgmgr_calls (snd (get_json_config e json_path app_info tr)) = pkgmgr_calls tr"
  by (simp add: get_json_config_def config_members_pkgmgr Let_def
      split: option.splits sum.splits)

lemma get_json_config_fst:
  "fst (get_json_config e json_path app_info tr) = manifest_ok e json_path"
  by (simp add: manifest_ok_def get_json_config_def config_members_fst Let_def
      split: option.splits sum.splits)

lemma get_json_config_calls:
  "agent_calls (snd (get_json_config e json_path app_info tr)) =
     agent_calls tr @ manifest_calls e json_path app_info"
  by (simp add: manifest_calls_def get_json_config_def config_members_calls Let_def
      split: option.splits sum.splits)

lemma install_unfold:
  assumes "pkgmgrinfo_pkginfo_get_pkginfo e pkgid = (r1, h)"
    and "pkgmgrinfo_pkginfo_get_type e h = (r2, ty)"
    and "pkgmgrinfo_pkginfo_get_root_path e h = (r3, root_path)"
    and "pkgmgrinfo_pkginfo_get_res_type e h = (r4, res_type)"
    and "pkgmgrinfo_pkginfo_get_res_version e h = (r5, res_version)"
  shows "fst (PKGMGR_MDPARSER_PLUGIN_INSTALL e pkgid appid metadata tr) =
     (if r1 \<noteq> PMINFO_R_OK e \<or> r2 \<noteq> PMINFO_R_OK e then - 1
      else if ty \<noteq> Some ''rpk'' then 0
      else if r3 \<noteq> PMINFO_R_OK e \<or> r4 \<noteq> PMINFO_R_OK e \<or> r5 \<noteq> PMINFO_R_OK e then - 1
      else if manifest_ok e
                (g_build_filename e [root_path, ''res'', ''global'', res_type, ''rpk_config.json''])
      then 0 else - 1)"
    and "agent_calls (snd (PKGMGR_MDPARSER_PLUGIN_INSTALL e pkgid appid metadata tr)) =
     agent_calls tr @
     (if r1 = PMINFO_R_OK e \<and> r2 = PMINFO_R_OK e \<and> ty = Some ''rpk'' \<and> r3 = PMINFO_R_OK e
         \<and> r4 = PMINFO_R_OK e \<and> r5 = PMINFO_R_OK e
      then manifest_calls e
             (g_build_filename e [root_path, ''res'', ''global'', res_type, ''rpk_config.json''])
             (Some (make_pkg_info e pkgid appid res_type res_version))
      else [])"
    and "pkgmgr_calls (snd (PKGMGR_MDPARSER_PLUGIN_INSTALL e pkgid appid metadata tr)) =
     pkgmgr_calls tr @
     (if r1 \<noteq> PMINFO_R_OK e then [Get_pkginfo pkgid]
      else if r2 \<noteq> PMINFO_R_OK e \<or> ty \<noteq> Some ''rpk''
      then [Get_pkginfo pkgid, Get_type h, Destroy_pkginfo h]
      else if r3 \<noteq> PMINFO_R_OK e
      then [Get_pkginfo pkgid, Get_type h, Get_root_path h, Destroy_pkginfo h]
      else if r4 \<noteq> PMINFO_R_OK e
      then [Get_pkginfo pkgid, Get_type h, Get_root_path h, Get_res_type h, Destroy_pkginfo h]
      else [Get_pkginfo pkgid, Get_type h, Get_root_path h, Get_res_type h,
            Get_res_version h, Destroy_pkginfo h])"
proof -
  let ?p = "g_build_filename e [root_path, ''res'', ''global'', res_type, ''rpk_config.json'']"
  let ?a = "Some (make_pkg_info e pkgid appid res_type res_version)"
  show "fst (PKGMGR_MDPARSER_PLUGIN_INSTALL e pkgid appid metadata tr) =
     (if r1 \<noteq> PMINFO_R_OK e \<or> r2 \<noteq> PMINFO_R_OK e then - 1
      else if ty \<noteq> Some ''rpk'' then 0
      else if r3 \<noteq> PMINFO_R_OK e \<or> r4 \<noteq> PMINFO_R_OK e \<or> r5 \<noteq> PMINFO_R_OK e then - 1
      else if manifest_ok e ?p then 0 else - 1)"
    by (simp add: PKGMGR_MDPARSER_PLUGIN_INSTALL_def assms Let_def g_strcmp0_eq_def
        case_prod_beta get_json_config_fst)
  show "agent_calls (snd (PKGMGR_MDPARSER_PLUGIN_INSTALL e pkgid appid metadata tr)) =
     agent_calls tr @
     (if r1 = PMINFO_R_OK e \<and> r2 = PMINFO_R_OK e \<and> ty = Some ''rpk'' \<and> r3 = PMINFO_R_OK e
         \<and> r4 = PMINFO_R_OK e \<and> r5 = PMINFO_R_OK e
      then manifest_calls e ?p ?a
      else [])"
    by (simp add: PKGMGR_MDPARSER_PLUGIN_INSTALL_def assms Let_def g_strcmp0_eq_def
        case_prod_beta get_json_config_calls)
  show "pkgmgr_calls (snd (PKGMGR_MDPARSER_PLUGIN_INSTALL e pkgid appid metadata tr)) =
     pkgmgr_calls tr @
     (if r1 \<noteq> PMINFO_R_OK e then [Get_pkginfo pkgid]
      else if r2 \<noteq> PMINFO_R_OK e \<or> ty \<noteq> Some ''rpk''
      then [Get_pkginfo pkgid, Get_type h, Destroy_pkginfo h]
      else if r3 \<noteq> PMINFO_R_OK e
      then [Get_pkginfo pkgid, Get_type h, Get_root_path h, Destroy_pkginfo h]
      else if r4 \<noteq> PMINFO_R_OK e
      then [Get_pkginfo pkgid, Get_type h, Get_root_path h, Get_res_type h, Destroy_pkginfo h]
      else [Get_pkginfo pkgid, Get_type h, Get_root_path h, Get_res_type h,
            Get_res_version h, Destroy_pkginfo h])"
    by (simp add: PKGMGR_MDPARSER_PLUGIN_INSTALL_def assms Let_def g_strcmp0_eq_def
        case_prod_beta get_json_config_pkgmgr)
qed


lemma key_type_unrecognized:
  "c_string k \<Longrightarrow>
   ascii_lower k \<notin> set [''model'', ''models'', ''pipeline'', ''pipelines'',
                         ''resource'', ''resources''] \<Longrightarrow>
   key_type k = None"
  by (simp add: key_type_category category_of_def Let_def)

lemma config_members_stop:
  "list_all (\<lambda>k. key_type k \<noteq> None) ks1 \<Longrightarrow> key_type k0 = None \<Longrightarrow>
   config_members ag object app_info (ks1 @ k0 # ks2) tr =
     (False, snd (config_members ag object app_info ks1 tr) @ [Log DLOG_ERROR
        ''Failed to parse configuration file, %s cannot get the valid type from configuration.''
        [LStr k0]])"
proof (induction ks1 arbitrary: tr)
  case Nil
  then show ?case by (simp only: append_Nil config_members_step option.case) simp
next
  case (Cons name iter)
  then obtain ty where ty: "key_type name = Some ty" by auto
  from Cons have rest: "list_all (\<lambda>k. key_type k \<noteq> None) iter" by simp
  show ?case
    by (simp only: append_Cons config_members_step ty option.case Cons.IH [OF rest Cons.prems(2)])
qed

lemma config_calls_stop:
  assumes "list_all (\<lambda>k. key_type k \<noteq> None) ks1" and "key_type k0 = None"
  shows "config_calls app_info object (ks1 @ k0 # ks2) =
           concat (map (key_calls app_info object) ks1)"
proof -
  have "takeWhile (\<lambda>k. key_type k \<noteq> None) (ks1 @ k0 # ks2) = ks1"
    using assms by (simp add: list_all_iff)
  then show ?thesis by (simp only: config_calls_def)
qed

lemma install_resolved:
  assumes "rpk_manifest_path e pkgid = Some json_file"
  shows "fst (PKGMGR_MDPARSER_PLUGIN_INSTALL e pkgid appid metadata tr) =
           (if manifest_ok e json_file then 0 else - 1)"
proof -
  obtain r1 h where a1: "pkgmgrinfo_pkginfo_get_pkginfo e pkgid = (r1, h)"
    by (cases "pkgmgrinfo_pkginfo_get_pkginfo e pkgid")
  obtain r2 ty where a2: "pkgmgrinfo_pkginfo_get_type e h = (r2, ty)"
    by (cases "pkgmgrinfo_pkginfo_get_type e h")
  obtain r3 root_path where a3: "pkgmgrinfo_pkginfo_get_root_path e h = (r3, root_path)"
    by (cases "pkgmgrinfo_pkginfo_get_root_path e h")
  obtain r4 res_type where a4: "pkgmgrinfo_pkginfo_get_res_type e h = (r4, res_type)"
    by (cases "pkgmgrinfo_pkginfo_get_res_type e h")
  obtain r5 res_version where a5: "pkgmgrinfo_pkginfo_get_res_version e h = (r5, res_version)"
    by (cases "pkgmgrinfo_pkginfo_get_res_version e h")
  from assms have ok: "r1 = PMINFO_R_OK e" "r2 = PMINFO_R_OK e" "ty = Some ''rpk''"
    "r3 = PMINFO_R_OK e" "r4 = PMINFO_R_OK e" "r5 = PMINFO_R_OK e"
    and p: "json_file =
      g_build_filename e [root_path, ''res'', ''global'', res_type, ''rpk_config.json'']"
    by (simp_all add: rpk_manifest_path_def a1 a2 a3 a4 a5 split: if_splits)
  show ?thesis
    by (simp add: install_unfold(1) [OF a1 a2 a3 a4 a5] ok p)
qed

subsection \<open>Claims on unrecognised keys and on the install entry point\<close>

text \<open>
  Claim C3. When a top-level key of the manifest object is none of \<open>model\<close>,
  \<open>models\<close>, \<open>pipeline\<close>, \<open>pipelines\<close>, \<open>resource\<close>, \<open>resources\<close> in lower case, the
  parse returns false. It stops at the first such key: the trace is that of the keys
  before it, followed by the error line, so the agent calls made for those keys stay
  made and none is added after them. The install entry point that reads this manifest
  returns \<open>-1\<close>.
\<close>

theorem C3_unrecognized_key_fails:
  assumes "manifest_at e path (JObject kvs)"
    and "k \<in> set (map fst kvs)"
    and "c_string k"
    and "ascii_lower k \<notin> set [''model'', ''models'', ''pipeline'', ''pipelines'',
                                ''resource'', ''resources'']"
  shows "\<not> fst (get_json_config e path app_info tr)
     \<and> (\<exists>ks1 k0 ks2.
           map fst kvs = ks1 @ k0 # ks2
           \<and> list_all (\<lambda>k'. key_type k' \<noteq> None) ks1 \<and> key_type k0 = None
           \<and> get_json_config e path app_info tr =
               (False, snd (config_members (ml_agent e) (Some kvs) app_info ks1 tr)
                  @ [Log DLOG_ERROR
                       ''Failed to parse configuration file, %s cannot get the valid type from configuration.''
                       [LStr k0]])
           \<and> agent_calls (snd (get_json_config e path app_info tr)) =
               agent_calls tr @ concat (map (key_calls app_info (Some kvs)) ks1))
     \<and> (rpk_manifest_path e pkgid = Some path \<longrightarrow>
           fst (PKGMGR_MDPARSER_PLUGIN_INSTALL e pkgid appid metadata tr0) = - 1)"
proof -
  have none: "key_type k = None"
    using assms(3,4) by (rule key_type_unrecognized)
  with assms(2) have "\<exists>x \<in> set (map fst kvs). key_type x = None" by blast
  then obtain ks1 k0 ks2 where dec: "map fst kvs = ks1 @ k0 # ks2"
    and k0: "key_type k0 = None" and before: "\<forall>y \<in> set ks1. key_type y \<noteq> None"
    by (auto dest!: split_list_first_prop)
  from before have ks1: "list_all (\<lambda>k'. key_type k' \<noteq> None) ks1"
    by (simp add: list_all_iff)
  have res: "get_json_config e path app_info tr =
               (False, snd (config_members (ml_agent e) (Some kvs) app_info ks1 tr)
                  @ [Log DLOG_ERROR
                       ''Failed to parse configuration file, %s cannot get the valid type from configuration.''
                       [LStr k0]])"
    by (simp only: get_json_config_object [OF assms(1)] dec config_members_stop [OF ks1 k0])
  have calls: "agent_calls (snd (get_json_config e path app_info tr)) =
               agent_calls tr @ concat (map (key_calls app_info (Some kvs)) ks1)"
    by (simp only: valid_manifest_calls [OF assms(1)] dec config_calls_stop [OF ks1 k0])
  have fails: "\<not> fst (get_json_config e path app_info tr)"
    by (simp add: res)
  then have "\<not> manifest_ok e path"
    by (simp add: get_json_config_fst)
  then have inst: "fst (PKGMGR_MDPARSER_PLUGIN_INSTALL e pkgid appid metadata tr0) = - 1"
    if "rpk_manifest_path e pkgid = Some path"
    using install_resolved [OF that] by simp
  from fails dec ks1 k0 res calls inst show ?thesis by blast
qed


text \<open>
  Claim C3 in the example installation: a model key, then the key \<open>unknown\<close>. The
  model is registered and the install fails.
\<close>

theorem C3_unrecognized_key_fails_witness:
  "manifest_at
     (example_env (Some (JObject [(''models'', JArray [JObject example_model_a]),
                                  (''unknown'', JArray [])])))
     example_path
     (JObject [(''models'', JArray [JObject example_model_a]), (''unknown'', JArray [])])
   \<and> ''unknown'' \<in> set (map fst [(''models'', JArray [JObject example_model_a]),
                                   (''unknown'', JArray [])])
   \<and> c_string ''unknown''
   \<and> ascii_lower ''unknown'' \<notin> set [''model'', ''models'', ''pipeline'', ''pipelines'',
                                       ''resource'', ''resources'']
   \<and> rpk_manifest_path
         (example_env (Some (JObject [(''models'', JArray [JObject example_model_a]),
                                      (''unknown'', JArray [])])))
         ''org.example.models'' = Some example_path
   \<and> \<not> fst (get_json_config
         (example_env (Some (JObject [(''models'', JArray [JObject example_model_a]),
                                      (''unknown'', JArray [])])))
         example_path (Some ''app-info'') [])
   \<and> fst (PKGMGR_MDPARSER_PLUGIN_INSTALL
         (example_env (Some (JObject [(''models'', JArray [JObject example_model_a]),
                                      (''unknown'', JArray [])])))
         ''org.example.models'' None [] []) = - 1
   \<and> agent_calls (snd (PKGMGR_MDPARSER_PLUGIN_INSTALL
         (example_env (Some (JObject [(''models'', JArray [JObject example_model_a]),
                                      (''unknown'', JArray [])])))
         ''org.example.models'' None [] [])) =
       [Register ''a'' ''/a'' True [] ''app-info'']"
proof -
  let ?kvs = "[(''models'', JArray [JObject example_model_a]), (''unknown'', JArray [])]"
  let ?e = "example_env (Some (JObject ?kvs))"
  have m: "manifest_at ?e example_path (JObject ?kvs)"
    by (simp add: manifest_at_def example_env_def example_path_def)
  have k: "''unknown'' \<in> set (map fst ?kvs)" by simp
  have c: "c_string ''unknown''" by (simp add: c_string_def)
  have l: "ascii_lower ''unknown'' \<notin> set [''model'', ''models'', ''pipeline'', ''pipelines'',
                                            ''resource'', ''resources'']"
    by (simp add: ascii_lower_def g_ascii_tolower_def)
  have r: "rpk_manifest_path ?e ''org.example.models'' = Some example_path"
    by (simp add: rpk_manifest_path_def example_env_def example_path_def)
  have calls: "agent_calls (snd (PKGMGR_MDPARSER_PLUGIN_INSTALL ?e
         ''org.example.models'' None [] [])) = [Register ''a'' ''/a'' True [] ''app-info'']"
    by code_simp
  note C3_unrecognized_key_fails [OF m k c l, where app_info = "Some ''app-info''" and tr = "[]"
      and pkgid = "''org.example.models''" and appid = None and metadata = "[]" and ?tr0.0 = "[]"]
  with m k c l r calls show ?thesis by blast
qed

text \<open>
  Claim C5. Name what the package manager returns for the package: the handle \<open>h\<close>
  with status \<open>r1\<close>, the type with \<open>r2\<close>, the root path with \<open>r3\<close>, the resource
  type with \<open>r4\<close> and the resource version with \<open>r5\<close>. If the handle and the type
  are read and the type is not \<open>rpk\<close>, INSTALL returns 0 and calls the agent not at
  all. If a query fails, INSTALL returns \<open>-1\<close>, calls the agent not at all and makes
  no later query: the package-manager calls are those up to the failing one, then the
  release of the handle. Otherwise the manifest is read at the path built from the root
  path, \<open>res\<close>, \<open>global\<close>, the resource type and \<open>rpk_config.json\<close>, INSTALL
  returns 0 if that parse succeeds and \<open>-1\<close> if not, and the agent calls are those of
  the parse.
\<close>

theorem C5_install_outcomes:
  assumes "pkgmgrinfo_pkginfo_get_pkginfo e pkgid = (r1, h)"
    and "pkgmgrinfo_pkginfo_get_type e h = (r2, ty)"
    and "pkgmgrinfo_pkginfo_get_root_path e h = (r3, root_path)"
    and "pkgmgrinfo_pkginfo_get_res_type e h = (r4, res_type)"
    and "pkgmgrinfo_pkginfo_get_res_version e h = (r5, res_version)"
  shows
   "(let R = PKGMGR_MDPARSER_PLUGIN_INSTALL e pkgid appid metadata tr;
         OK = PMINFO_R_OK e;
         json_file = g_build_filename e
                       [root_path, ''res'', ''global'', res_type, ''rpk_config.json''];
         app_info = make_pkg_info e pkgid appid res_type res_version
     in (r1 = OK \<and> r2 = OK \<and> ty \<noteq> Some ''rpk'' \<longrightarrow>
           fst R = 0 \<and> agent_calls (snd R) = agent_calls tr
           \<and> pkgmgr_calls (snd R) =
               pkgmgr_calls tr @ [Get_pkginfo pkgid, Get_type h, Destroy_pkginfo h])
      \<and> (r1 \<noteq> OK \<longrightarrow>
           fst R = - 1 \<and> agent_calls (snd R) = agent_calls tr
           \<and> pkgmgr_calls (snd R) = pkgmgr_calls tr @ [Get_pkginfo pkgid])
      \<and> (r1 = OK \<and> r2 \<noteq> OK \<longrightarrow>
           fst R = - 1 \<and> agent_calls (snd R) = agent_calls tr
           \<and> pkgmgr_calls (snd R) =
               pkgmgr_calls tr @ [Get_pkginfo pkgid, Get_type h, Destroy_pkginfo h])
      \<and> (r1 = OK \<and> r2 = OK \<and> ty = Some ''rpk'' \<and> r3 \<noteq> OK \<longrightarrow>
           fst R = - 1 \<and> agent_calls (snd R) = agent_calls tr
           \<and> pkgmgr_calls (snd R) =
               pkgmgr_calls tr @ [Get_pkginfo pkgid, Get_type h, Get_root_path h,
                                  Destroy_pkginfo h])
      \<and> (r1 = OK \<and> r2 = OK \<and> ty = Some ''rpk'' \<and> r3 = OK \<and> r4 \<noteq> OK \<longrightarrow>
           fst R = - 1 \<and> agent_calls (snd R) = agent_calls tr
           \<and> pkgmgr_calls (snd R) =
               pkgmgr_calls tr @ [Get_pkginfo pkgid, Get_type h, Get_root_path h,
                                  Get_res_type h, Destroy_pkginfo h])
      \<and> (r1 = OK \<and> r2 = OK \<and> ty = Some ''rpk'' \<and> r3 = OK \<and> r4 = OK \<and> r5 \<noteq> OK \<longrightarrow>
           fst R = - 1 \<and> agent_calls (snd R) = agent_calls tr
           \<and> pkgmgr_calls (snd R) =
               pkgmgr_calls tr @ [Get_pkginfo pkgid, Get_type h, Get_root_path h,
                                  Get_res_type h, Get_res_version h, Destroy_pkginfo h])
      \<and> (r1 = OK \<and> r2 = OK \<and> ty = Some ''rpk'' \<and> r3 = OK \<and> r4 = OK \<and> r5 = OK \<longrightarrow>
           rpk_manifest_path e pkgid = Some json_file
           \<and> fst R = (if fst (get_json_config e json_file (Some app_info) tr') then 0 else - 1)
           \<and> agent_calls (snd R) =
               agent_calls tr @ agent_calls (snd (get_json_config e json_file (Some app_info) []))
           \<and> pkgmgr_calls (snd R) =
               pkgmgr_calls tr @ [Get_pkginfo pkgid, Get_type h, Get_root_path h,
                                  Get_res_type h, Get_res_version h, Destroy_pkginfo h]))"
proof -
  note U = install_unfold [OF assms, of appid metadata tr]
  show ?thesis
    unfolding Let_def
    by (simp add: U get_json_config_fst manifest_calls_def rpk_manifest_path_def assms)
qed


text \<open>
  Claim C5 in the example installation: each of the five queries failing in turn, the
  package type \<open>tpk\<close>, a manifest that parses and one that does not.
\<close>

theorem C5_install_outcomes_witness:
  "fst (pkgmgrinfo_pkginfo_get_pkginfo (example_env_step 1 (Some (JObject [(''models'', JArray [JObject example_model_a])]))) ''org.example.models'') \<noteq> PMINFO_R_OK (example_env_step 1 (Some (JObject [(''models'', JArray [JObject example_model_a])])))
   \<and> fst (PKGMGR_MDPARSER_PLUGIN_INSTALL (example_env_step 1 (Some (JObject [(''models'', JArray [JObject example_model_a])]))) ''org.example.models'' None [] []) = - 1
   \<and> agent_calls (snd (PKGMGR_MDPARSER_PLUGIN_INSTALL (example_env_step 1 (Some (JObject [(''models'', JArray [JObject example_model_a])]))) ''org.example.models'' None [] [])) = []
   \<and> pkgmgr_calls (snd (PKGMGR_MDPARSER_PLUGIN_INSTALL (example_env_step 1 (Some (JObject [(''models'', JArray [JObject example_model_a])]))) ''org.example.models'' None [] [])) =
         [Get_pkginfo ''org.example.models'']
   \<and> fst (pkgmgrinfo_pkginfo_get_type (example_env_step 2 (Some (JObject [(''models'', JArray [JObject example_model_a])]))) 1) \<noteq> PMINFO_R_OK (example_env_step 2 (Some (JObject [(''models'', JArray [JObject example_model_a])])))
   \<and> fst (PKGMGR_MDPARSER_PLUGIN_INSTALL (example_env_step 2 (Some (JObject [(''models'', JArray [JObject example_model_a])]))) ''org.example.models'' None [] []) = - 1
   \<and> agent_calls (snd (PKGMGR_MDPARSER_PLUGIN_INSTALL (example_env_step 2 (Some (JObject [(''models'', JArray [JObject example_model_a])]))) ''org.example.models'' None [] [])) = []
   \<and> pkgmgr_calls (snd (PKGMGR_MDPARSER_PLUGIN_INSTALL (example_env_step 2 (Some (JObject [(''models'', JArray [JObject example_model_a])]))) ''org.example.models'' None [] [])) =
         [Get_pkginfo ''org.example.models'', Get_type 1, Destroy_pkginfo 1]
   \<and> fst (pkgmgrinfo_pkginfo_get_root_path (example_env_step 3 (Some (JObject [(''models'', JArray [JObject example_model_a])]))) 1) \<noteq> PMINFO_R_OK (example_env_step 3 (Some (JObject [(''models'', JArray [JObject example_model_a])])))
   \<and> fst (PKGMGR_MDPARSER_PLUGIN_INSTALL (example_env_step 3 (Some (JObject [(''models'', JArray [JObject example_model_a])]))) ''org.example.models'' None [] []) = - 1
   \<and> agent_calls (snd (PKGMGR_MDPARSER_PLUGIN_INSTALL (example_env_step 3 (Some (JObject [(''models'', JArray [JObject example_model_a])]))) ''org.example.models'' None [] [])) = []
   \<and> pkgmgr_calls (snd (PKGMGR_MDPARSER_PLUGIN_INSTALL (example_env_step 3 (Some (JObject [(''models'', JArray [JObject example_model_a])]))) ''org.example.models'' None [] [])) =
         [Get_pkginfo ''org.example.models'', Get_type 1, Get_root_path 1, Destroy_pkginfo 1]
   \<and> fst (pkgmgrinfo_pkginfo_get_res_type (example_env_step 4 (Some (JObject [(''models'', JArray [JObject example_model_a])]))) 1) \<noteq> PMINFO_R_OK (example_env_step 4 (Some (JObject [(''models'', JArray [JObject example_model_a])])))
   \<and> fst (PKGMGR_MDPARSER_PLUGIN_INSTALL (example_env_step 4 (Some (JObject [(''models'', JArray [JObject example_model_a])]))) ''org.example.models'' None [] []) = - 1
   \<and> agent_calls (snd (PKGMGR_MDPARSER_PLUGIN_INSTALL (example_env_step 4 (Some (JObject [(''models'', JArray [JObject example_model_a])]))) ''org.example.models'' None [] [])) = []
   \<and> pkgmgr_calls (snd (PKGMGR_MDPARSER_PLUGIN_INSTALL (example_env_step 4 (Some (JObject [(''models'', JArray [JObject example_model_a])]))) ''org.example.models'' None [] [])) =
         [Get_pkginfo ''org.example.models'', Get_type 1, Get_root_path 1, Get_res_type 1, Destroy_pkginfo 1]
   \<and> fst (pkgmgrinfo_pkginfo_get_res_version (example_env_step 5 (Some (JObject [(''models'', JArray [JObject example_model_a])]))) 1) \<noteq> PMINFO_R_OK (example_env_step 5 (Some (JObject [(''models'', JArray [JObject example_model_a])])))
   \<and> fst (PKGMGR_MDPARSER_PLUGIN_INSTALL (example_env_step 5 (Some (JObject [(''models'', JArray [JObject example_model_a])]))) ''org.example.models'' None [] []) = - 1
   \<and> agent_calls (snd (PKGMGR_MDPARSER_PLUGIN_INSTALL (example_env_step 5 (Some (JObject [(''models'', JArray [JObject example_model_a])]))) ''org.example.models'' None [] [])) = []
   \<and> pkgmgr_calls (snd (PKGMGR_MDPARSER_PLUGIN_INSTALL (example_env_step 5 (Some (JObject [(''models'', JArray [JObject example_model_a])]))) ''org.example.models'' None [] [])) =
         [Get_pkginfo ''org.example.models'', Get_type 1, Get_root_path 1, Get_res_type 1, Get_res_version 1,
          Destroy_pkginfo 1]
   \<and> snd (pkgmgrinfo_pkginfo_get_type (example_env_tpk (Some (JObject [(''models'', JArray [JObject example_model_a])]))) 1) \<noteq> Some ''rpk''
   \<and> fst (PKGMGR_MDPARSER_PLUGIN_INSTALL (example_env_tpk (Some (JObject [(''models'', JArray [JObject example_model_a])]))) ''org.example.models'' None [] []) = 0
   \<and> agent_calls (snd (PKGMGR_MDPARSER_PLUGIN_INSTALL (example_env_tpk (Some (JObject [(''models'', JArray [JObject example_model_a])]))) ''org.example.models'' None [] [])) = []
   \<and> pkgmgr_calls (snd (PKGMGR_MDPARSER_PLUGIN_INSTALL (example_env_tpk (Some (JObject [(''models'', JArray [JObject example_model_a])]))) ''org.example.models'' None [] [])) =
         [Get_pkginfo ''org.example.models'', Get_type 1, Destroy_pkginfo 1]
   \<and> rpk_manifest_path (example_env_step 0 (Some (JObject [(''models'', JArray [JObject example_model_a])]))) ''org.example.models'' = Some example_path
   \<and> fst (PKGMGR_MDPARSER_PLUGIN_INSTALL (example_env_step 0 (Some (JObject [(''models'', JArray [JObject example_model_a])]))) ''org.example.models'' None [] []) = 0
   \<and> agent_calls (snd (PKGMGR_MDPARSER_PLUGIN_INSTALL (example_env_step 0 (Some (JObject [(''models'', JArray [JObject example_model_a])]))) ''org.example.models'' None [] [])) = [Register ''a'' ''/a'' True [] ''app-info'']
   \<and> pkgmgr_calls (snd (PKGMGR_MDPARSER_PLUGIN_INSTALL (example_env_step 0 (Some (JObject [(''models'', JArray [JObject example_model_a])]))) ''org.example.models'' None [] [])) =
         [Get_pkginfo ''org.example.models'', Get_type 1, Get_root_path 1, Get_res_type 1, Get_res_version 1,
          Destroy_pkginfo 1]
   \<and> rpk_manifest_path (example_env_step 0 (Some (JObject [(''unknown'', JNull)]))) ''org.example.models'' = Some example_path
   \<and> \<not> fst (get_json_config (example_env_step 0 (Some (JObject [(''unknown'', JNull)]))) example_path None [])
   \<and> fst (PKGMGR_MDPARSER_PLUGIN_INSTALL (example_env_step 0 (Some (JObject [(''unknown'', JNull)]))) ''org.example.models'' None [] []) = - 1"
proof -
  have s1_1: "pkgmgrinfo_pkginfo_get_pkginfo (example_env_step 1 (Some (JObject [(''models'', JArray [JObject example_model_a])]))) ''org.example.models'' = (- 1, 1)"
    by (simp add: example_env_step_def example_env_tpk_def example_env_def)
  have s1_2: "pkgmgrinfo_pkginfo_get_type (example_env_step 1 (Some (JObject [(''models'', JArray [JObject example_model_a])]))) 1 = (0, Some ''rpk'')"
    by (simp add: example_env_step_def example_env_tpk_def example_env_def)
  have s1_3: "pkgmgrinfo_pkginfo_get_root_path (example_env_step 1 (Some (JObject [(''models'', JArray [JObject example_model_a])]))) 1 = (0, ''/opt/pkg'')"
    by (simp add: example_env_step_def example_env_tpk_def example_env_def)
  have s1_4: "pkgmgrinfo_pkginfo_get_res_type (example_env_step 1 (Some (JObject [(''models'', JArray [JObject example_model_a])]))) 1 = (0, ''ai'')"
    by (simp add: example_env_step_def example_env_tpk_def example_env_def)
  have s1_5: "pkgmgrinfo_pkginfo_get_res_version (example_env_step 1 (Some (JObject [(''models'', JArray [JObject example_model_a])]))) 1 = (0, ''1.0'')"
    by (simp add: example_env_step_def example_env_tpk_def example_env_def)
  have c1: "fst (pkgmgrinfo_pkginfo_get_pkginfo (example_env_step 1 (Some (JObject [(''models'', JArray [JObject example_model_a])]))) ''org.example.models'') \<noteq> PMINFO_R_OK (example_env_step 1 (Some (JObject [(''models'', JArray [JObject example_model_a])])))
      \<and> fst (PKGMGR_MDPARSER_PLUGIN_INSTALL (example_env_step 1 (Some (JObject [(''models'', JArray [JObject example_model_a])]))) ''org.example.models'' None [] []) = - 1
      \<and> agent_calls (snd (PKGMGR_MDPARSER_PLUGIN_INSTALL (example_env_step 1 (Some (JObject [(''models'', JArray [JObject example_model_a])]))) ''org.example.models'' None [] [])) = []
      \<and> pkgmgr_calls (snd (PKGMGR_MDPARSER_PLUGIN_INSTALL (example_env_step 1 (Some (JObject [(''models'', JArray [JObject example_model_a])]))) ''org.example.models'' None [] [])) =
            [Get_pkginfo ''org.example.models'']"
    using C5_install_outcomes [OF s1_1 s1_2 s1_3 s1_4 s1_5, where appid = None and metadata = "[]"
        and tr = "[]" and tr' = "[]"]
    by (simp add: Let_def s1_1) (simp add: example_env_step_def example_env_def)
  have s2_1: "pkgmgrinfo_pkginfo_get_pkginfo (example_env_step 2 (Some (JObject [(''models'', JArray [JObject example_model_a])]))) ''org.example.models'' = (0, 1)"
    by (simp add: example_env_step_def example_env_tpk_def example_env_def)
  have s2_2: "pkgmgrinfo_pkginfo_get_type (example_env_step 2 (Some (JObject [(''models'', JArray [JObject example_model_a])]))) 1 = (- 1, Some ''rpk'')"
    by (simp add: example_env_step_def example_env_tpk_def example_env_def)
  have s2_3: "pkgmgrinfo_pkginfo_get_root_path (example_env_step 2 (Some (JObject [(''models'', JArray [JObject example_model_a])]))) 1 = (0, ''/opt/pkg'')"
    by (simp add: example_env_step_def example_env_tpk_def example_env_def)
  have s2_4: "pkgmgrinfo_pkginfo_get_res_type (example_env_step 2 (Some (JObject [(''models'', JArray [JObject example_model_a])]))) 1 = (0, ''ai'')"
    by (simp add: example_env_step_def example_env_tpk_def example_env_def)
  have s2_5: "pkgmgrinfo_pkginfo_get_res_version (example_env_step 2 (Some (JObject [(''models'', JArray [JObject example_model_a])]))) 1 = (0, ''1.0'')"
    by (simp add: example_env_step_def example_env_tpk_def example_env_def)
  have c2: "fst (pkgmgrinfo_pkginfo_get_type (example_env_step 2 (Some (JObject [(''models'', JArray [JObject example_model_a])]))) 1) \<noteq> PMINFO_R_OK (example_env_step 2 (Some (JObject [(''models'', JArray [JObject example_model_a])])))
      \<and> fst (PKGMGR_MDPARSER_PLUGIN_INSTALL (example_env_step 2 (Some (JObject [(''models'', JArray [JObject example_model_a])]))) ''org.example.models'' None [] []) = - 1
      \<and> agent_calls (snd (PKGMGR_MDPARSER_PLUGIN_INSTALL (example_env_step 2 (Some (JObject [(''models'', JArray [JObject example_model_a])]))) ''org.example.models'' None [] [])) = []
      \<and> pkgmgr_calls (snd (PKGMGR_MDPARSER_PLUGIN_INSTALL (example_env_step 2 (Some (JObject [(''models'', JArray [JObject example_model_a])]))) ''org.example.models'' None [] [])) =
            [Get_pkginfo ''org.example.models'', Get_type 1, Destroy_pkginfo 1]"
    using C5_install_outcomes [OF s2_1 s2_2 s2_3 s2_4 s2_5, where appid = None and metadata = "[]"
        and tr = "[]" and tr' = "[]"]
    by (simp add: Let_def s2_2) (simp add: example_env_step_def example_env_def)
  have s3_1: "pkgmgrinfo_pkginfo_get_pkginfo (example_env_step 3 (Some (JObject [(''models'', JArray [JObject example_model_a])]))) ''org.example.models'' = (0, 1)"
    by (simp add: example_env_step_def example_env_tpk_def example_env_def)
  have s3_2: "pkgmgrinfo_pkginfo_get_type (example_env_step 3 (Some (JObject [(''models'', JArray [JObject example_model_a])]))) 1 = (0, Some ''rpk'')"
    by (simp add: example_env_step_def example_env_tpk_def example_env_def)
  have s3_3: "pkgmgrinfo_pkginfo_get_root_path (example_env_step 3 (Some (JObject [(''models'', JArray [JObject example_model_a])]))) 1 = (- 1, ''/opt/pkg'')"
    by (simp add: example_env_step_def example_env_tpk_def example_env_def)
  have s3_4: "pkgmgrinfo_pkginfo_get_res_type (example_env_step 3 (Some (JObject [(''models'', JArray [JObject example_model_a])]))) 1 = (0, ''ai'')"
    by (simp add: example_env_step_def example_env_tpk_def example_env_def)
  have s3_5: "pkgmgrinfo_pkginfo_get_res_version (example_env_step 3 (Some (JObject [(''models'', JArray [JObject example_model_a])]))) 1 = (0, ''1.0'')"
    by (simp add: example_env_step_def example_env_tpk_def example_env_def)
  have c3: "fst (pkgmgrinfo_pkginfo_get_root_path (example_env_step 3 (Some (JObject [(''models'', JArray [JObject example_model_a])]))) 1) \<noteq> PMINFO_R_OK (example_env_step 3 (Some (JObject [(''models'', JArray [JObject example_model_a])])))
      \<and> fst (PKGMGR_MDPARSER_PLUGIN_INSTALL (example_env_step 3 (Some (JObject [(''models'', JArray [JObject example_model_a])]))) ''org.example.models'' None [] []) = - 1
      \<and> agent_calls (snd (PKGMGR_MDPARSER_PLUGIN_INSTALL (example_env_step 3 (Some (JObject [(''models'', JArray [JObject example_model_a])]))) ''org.example.models'' None [] [])) = []
      \<and> pkgmgr_calls (snd (PKGMGR_MDPARSER_PLUGIN_INSTALL (example_env_step 3 (Some (JObject [(''models'', JArray [JObject example_model_a])]))) ''org.example.models'' None [] [])) =
            [Get_pkginfo ''org.example.models'', Get_type 1, Get_root_path 1, Destroy_pkginfo 1]"
    using C5_install_outcomes [OF s3_1 s3_2 s3_3 s3_4 s3_5, where appid = None and metadata = "[]"
        and tr = "[]" and tr' = "[]"]
    by (simp add: Let_def s3_3) (simp add: example_env_step_def example_env_def)
  have s4_1: "pkgmgrinfo_pkginfo_get_pkginfo (example_env_step 4 (Some (JObject [(''models'', JArray [JObject example_model_a])]))) ''org.example.models'' = (0, 1)"
    by (simp add: example_env_step_def example_env_tpk_def example_env_def)
  have s4_2: "pkgmgrinfo_pkginfo_get_type (example_env_step 4 (Some (JObject [(''models'', JArray [JObject example_model_a])]))) 1 = (0, Some ''rpk'')"
    by (simp add: example_env_step_def example_env_tpk_def example_env_def)
  have s4_3: "pkgmgrinfo_pkginfo_get_root_path (example_env_step 4 (Some (JObject [(''models'', JArray [JObject example_model_a])]))) 1 = (0, ''/opt/pkg'')"
    by (simp add: example_env_step_def example_env_tpk_def example_env_def)
  have s4_4: "pkgmgrinfo_pkginfo_get_res_type (example_env_step 4 (Some (JObject [(''models'', JArray [JObject example_model_a])]))) 1 = (- 1, ''ai'')"
    by (simp add: example_env_step_def example_env_tpk_def example_env_def)
  have s4_5: "pkgmgrinfo_pkginfo_get_res_version (example_env_step 4 (Some (JObject [(''models'', JArray [JObject example_model_a])]))) 1 = (0, ''1.0'')"
    by (simp add: example_env_step_def example_env_tpk_def example_env_def)
  have c4: "fst (pkgmgrinfo_pkginfo_get_res_type (example_env_step 4 (Some (JObject [(''models'', JArray [JObject example_model_a])]))) 1) \<noteq> PMINFO_R_OK (example_env_step 4 (Some (JObject [(''models'', JArray [JObject example_model_a])])))
      \<and> fst (PKGMGR_MDPARSER_PLUGIN_INSTALL (example_env_step 4 (Some (JObject [(''models'', JArray [JObject example_model_a])]))) ''org.example.models'' None [] []) = - 1
      \<and> agent_calls (snd (PKGMGR_MDPARSER_PLUGIN_INSTALL (example_env_step 4 (Some (JObject [(''models'', JArray [JObject example_model_a])]))) ''org.example.models'' None [] [])) = []
      \<and> pkgmgr_calls (snd (PKGMGR_MDPARSER_PLUGIN_INSTALL (example_env_step 4 (Some (JObject [(''models'', JArray [JObject example_model_a])]))) ''org.example.models'' None [] [])) =
            [Get_pkginfo ''org.example.models'', Get_type 1, Get_root_path 1, Get_res_type 1, Destroy_pkginfo 1]"
    using C5_install_outcomes [OF s4_1 s4_2 s4_3 s4_4 s4_5, where appid = None and metadata = "[]"
        and tr = "[]" and tr' = "[]"]
    by (simp add: Let_def s4_4) (simp add: example_env_step_def example_env_def)
  have s5_1: "pkgmgrinfo_pkginfo_get_pkginfo (example_env_step 5 (Some (JObject [(''models'', JArray [JObject example_model_a])]))) ''org.example.models'' = (0, 1)"
    by (simp add: example_env_step_def example_env_tpk_def example_env_def)
  have s5_2: "pkgmgrinfo_pkginfo_get_type (example_env_step 5 (Some (JObject [(''models'', JArray [JObject example_model_a])]))) 1 = (0, Some ''rpk'')"
    by (simp add: example_env_step_def example_env_tpk_def example_env_def)
  have s5_3: "pkgmgrinfo_pkginfo_get_root_path (example_env_step 5 (Some (JObject [(''models'', JArray [JObject example_model_a])]))) 1 = (0, ''/opt/pkg'')"
    by (simp add: example_env_step_def example_env_tpk_def example_env_def)
  have s5_4: "pkgmgrinfo_pkginfo_get_res_type (example_env_step 5 (Some (JObject [(''models'', JArray [JObject example_model_a])]))) 1 = (0, ''ai'')"
    by (simp add: example_env_step_def example_env_tpk_def example_env_def)
  have s5_5: "pkgmgrinfo_pkginfo_get_res_version (example_env_step 5 (Some (JObject [(''models'', JArray [JObject example_model_a])]))) 1 = (- 1, ''1.0'')"
    by (simp add: example_env_step_def example_env_tpk_def example_env_def)
  have c5: "fst (pkgmgrinfo_pkginfo_get_res_version (example_env_step 5 (Some (JObject [(''models'', JArray [JObject example_model_a])]))) 1) \<noteq> PMINFO_R_OK (example_env_step 5 (Some (JObject [(''models'', JArray [JObject example_model_a])])))
      \<and> fst (PKGMGR_MDPARSER_PLUGIN_INSTALL (example_env_step 5 (Some (JObject [(''models'', JArray [JObject example_model_a])]))) ''org.example.models'' None [] []) = - 1
      \<and> agent_calls (snd (PKGMGR_MDPARSER_PLUGIN_INSTALL (example_env_step 5 (Some (JObject [(''models'', JArray [JObject example_model_a])]))) ''org.example.models'' None [] [])) = []
      \<and> pkgmgr_calls (snd (PKGMGR_MDPARSER_PLUGIN_INSTALL (example_env_step 5 (Some (JObject [(''models'', JArray [JObject example_model_a])]))) ''org.example.models'' None [] [])) =
            [Get_pkginfo ''org.example.models'', Get_type 1, Get_root_path 1, Get_res_type 1, Get_res_version 1,
             Destroy_pkginfo 1]"
    using C5_install_outcomes [OF s5_1 s5_2 s5_3 s5_4 s5_5, where appid = None and metadata = "[]"
        and tr = "[]" and tr' = "[]"]
    by (simp add: Let_def s5_5) (simp add: example_env_step_def example_env_def)
  have t_1: "pkgmgrinfo_pkginfo_get_pkginfo (example_env_tpk (Some (JObject [(''models'', JArray [JObject example_model_a])]))) ''org.example.models'' = (0, 1)"
    by (simp add: example_env_step_def example_env_tpk_def example_env_def)
  have t_2: "pkgmgrinfo_pkginfo_get_type (example_env_tpk (Some (JObject [(''models'', JArray [JObject example_model_a])]))) 1 = (0, Some ''tpk'')"
    by (simp add: example_env_step_def example_env_tpk_def example_env_def)
  have t_3: "pkgmgrinfo_pkginfo_get_root_path (example_env_tpk (Some (JObject [(''models'', JArray [JObject example_model_a])]))) 1 = (0, ''/opt/pkg'')"
    by (simp add: example_env_step_def example_env_tpk_def example_env_def)
  have t_4: "pkgmgrinfo_pkginfo_get_res_type (example_env_tpk (Some (JObject [(''models'', JArray [JObject example_model_a])]))) 1 = (0, ''ai'')"
    by (simp add: example_env_step_def example_env_tpk_def example_env_def)
  have t_5: "pkgmgrinfo_pkginfo_get_res_version (example_env_tpk (Some (JObject [(''models'', JArray [JObject example_model_a])]))) 1 = (0, ''1.0'')"
    by (simp add: example_env_step_def example_env_tpk_def example_env_def)
  have ct: "snd (pkgmgrinfo_pkginfo_get_type (example_env_tpk (Some (JObject [(''models'', JArray [JObject example_model_a])]))) 1) \<noteq> Some ''rpk''
      \<and> fst (PKGMGR_MDPARSER_PLUGIN_INSTALL (example_env_tpk (Some (JObject [(''models'', JArray [JObject example_model_a])]))) ''org.example.models'' None [] []) = 0
      \<and> agent_calls (snd (PKGMGR_MDPARSER_PLUGIN_INSTALL (example_env_tpk (Some (JObject [(''models'', JArray [JObject example_model_a])]))) ''org.example.models'' None [] [])) = []
      \<and> pkgmgr_calls (snd (PKGMGR_MDPARSER_PLUGIN_INSTALL (example_env_tpk (Some (JObject [(''models'', JArray [JObject example_model_a])]))) ''org.example.models'' None [] [])) =
            [Get_pkginfo ''org.example.models'', Get_type 1, Destroy_pkginfo 1]"
    using C5_install_outcomes [OF t_1 t_2 t_3 t_4 t_5, where appid = None and metadata = "[]"
        and tr = "[]" and tr' = "[]"]
    by (simp add: Let_def t_2) (simp add: example_env_tpk_def example_env_def)
  have g_1: "pkgmgrinfo_pkginfo_get_pkginfo (example_env_step 0 (Some (JObject [(''models'', JArray [JObject example_model_a])]))) ''org.example.models'' = (0, 1)"
    by (simp add: example_env_step_def example_env_tpk_def example_env_def)
  have g_2: "pkgmgrinfo_pkginfo_get_type (example_env_step 0 (Some (JObject [(''models'', JArray [JObject example_model_a])]))) 1 = (0, Some ''rpk'')"
    by (simp add: example_env_step_def example_env_tpk_def example_env_def)
  have g_3: "pkgmgrinfo_pkginfo_get_root_path (example_env_step 0 (Some (JObject [(''models'', JArray [JObject example_model_a])]))) 1 = (0, ''/opt/pkg'')"
    by (simp add: example_env_step_def example_env_tpk_def example_env_def)
  have g_4: "pkgmgrinfo_pkginfo_get_res_type (example_env_step 0 (Some (JObject [(''models'', JArray [JObject example_model_a])]))) 1 = (0, ''ai'')"
    by (simp add: example_env_step_def example_env_tpk_def example_env_def)
  have g_5: "pkgmgrinfo_pkginfo_get_res_version (example_env_step 0 (Some (JObject [(''models'', JArray [JObject example_model_a])]))) 1 = (0, ''1.0'')"
    by (simp add: example_env_step_def example_env_tpk_def example_env_def)
  have gp: "g_build_filename (example_env_step 0 (Some (JObject [(''models'', JArray [JObject example_model_a])])))
              [''/opt/pkg'', ''res'', ''global'', ''ai'', ''rpk_config.json''] = example_path"
    by (simp add: example_env_step_def example_env_def example_path_def)
  have gok: "fst (get_json_config (example_env_step 0 (Some (JObject [(''models'', JArray [JObject example_model_a])]))) example_path
               (Some (make_pkg_info (example_env_step 0 (Some (JObject [(''models'', JArray [JObject example_model_a])]))) ''org.example.models'' None ''ai'' ''1.0'')) [])"
    by code_simp
  have gcalls: "agent_calls (snd (get_json_config (example_env_step 0 (Some (JObject [(''models'', JArray [JObject example_model_a])]))) example_path
               (Some (make_pkg_info (example_env_step 0 (Some (JObject [(''models'', JArray [JObject example_model_a])]))) ''org.example.models'' None ''ai'' ''1.0'')) [])) =
             [Register ''a'' ''/a'' True [] ''app-info'']"
    by code_simp
  have cg: "rpk_manifest_path (example_env_step 0 (Some (JObject [(''models'', JArray [JObject example_model_a])]))) ''org.example.models'' = Some example_path
      \<and> fst (PKGMGR_MDPARSER_PLUGIN_INSTALL (example_env_step 0 (Some (JObject [(''models'', JArray [JObject example_model_a])]))) ''org.example.models'' None [] []) = 0
      \<and> agent_calls (snd (PKGMGR_MDPARSER_PLUGIN_INSTALL (example_env_step 0 (Some (JObject [(''models'', JArray [JObject example_model_a])]))) ''org.example.models'' None [] [])) = [Register ''a'' ''/a'' True [] ''app-info'']
      \<and> pkgmgr_calls (snd (PKGMGR_MDPARSER_PLUGIN_INSTALL (example_env_step 0 (Some (JObject [(''models'', JArray [JObject example_model_a])]))) ''org.example.models'' None [] [])) =
            [Get_pkginfo ''org.example.models'', Get_type 1, Get_root_path 1, Get_res_type 1, Get_res_version 1,
             Destroy_pkginfo 1]"
    using C5_install_outcomes [OF g_1 g_2 g_3 g_4 g_5, where appid = None and metadata = "[]"
        and tr = "[]" and tr' = "[]"]
    by (simp add: Let_def gp gok gcalls) (simp add: example_env_step_def example_env_def)
  have b_1: "pkgmgrinfo_pkginfo_get_pkginfo (example_env_step 0 (Some (JObject [(''unknown'', JNull)]))) ''org.example.models'' = (0, 1)"
    by (simp add: example_env_step_def example_env_tpk_def example_env_def)
  have b_2: "pkgmgrinfo_pkginfo_get_type (example_env_step 0 (Some (JObject [(''unknown'', JNull)]))) 1 = (0, Some ''rpk'')"
    by (simp add: example_env_step_def example_env_tpk_def example_env_def)
  have b_3: "pkgmgrinfo_pkginfo_get_root_path (example_env_step 0 (Some (JObject [(''unknown'', JNull)]))) 1 = (0, ''/opt/pkg'')"
    by (simp add: example_env_step_def example_env_tpk_def example_env_def)
  have b_4: "pkgmgrinfo_pkginfo_get_res_type (example_env_step 0 (Some (JObject [(''unknown'', JNull)]))) 1 = (0, ''ai'')"
    by (simp add: example_env_step_def example_env_tpk_def example_env_def)
  have b_5: "pkgmgrinfo_pkginfo_get_res_version (example_env_step 0 (Some (JObject [(''unknown'', JNull)]))) 1 = (0, ''1.0'')"
    by (simp add: example_env_step_def example_env_tpk_def example_env_def)
  have bp: "g_build_filename (example_env_step 0 (Some (JObject [(''unknown'', JNull)])))
              [''/opt/pkg'', ''res'', ''global'', ''ai'', ''rpk_config.json''] = example_path"
    by (simp add: example_env_step_def example_env_def example_path_def)
  have bno: "\<not> manifest_ok (example_env_step 0 (Some (JObject [(''unknown'', JNull)]))) example_path"
    by code_simp
  have bok: "\<not> fst (get_json_config (example_env_step 0 (Some (JObject [(''unknown'', JNull)]))) example_path app [])" for app
    using bno by (simp add: get_json_config_fst)
  have cb: "rpk_manifest_path (example_env_step 0 (Some (JObject [(''unknown'', JNull)]))) ''org.example.models'' = Some example_path
      \<and> \<not> fst (get_json_config (example_env_step 0 (Some (JObject [(''unknown'', JNull)]))) example_path None [])
      \<and> fst (PKGMGR_MDPARSER_PLUGIN_INSTALL (example_env_step 0 (Some (JObject [(''unknown'', JNull)]))) ''org.example.models'' None [] []) = - 1"
    using C5_install_outcomes [OF b_1 b_2 b_3 b_4 b_5, where appid = None and metadata = "[]"
        and tr = "[]" and tr' = "[]"]
    by (simp add: Let_def bp bok) (simp add: example_env_step_def example_env_def)
  from c1 c2 c3 c4 c5 ct cg cb show ?thesis by blast
qed

subsection \<open>Claims on resource entries and on case\<close>

lemma string_elements_strings [simp]: "string_elements (map JString paths) = paths"
  by (induction paths) simp_all

lemma string_elements_append:
  "string_elements (xs @ ys) = string_elements xs @ string_elements ys"
  by (induction xs rule: string_elements.induct) simp_all

lemma string_elements_unreadable:
  "json_node_get_string (Some x) = None \<Longrightarrow> string_elements (x # ys) = string_elements ys"
  by (cases x) (simp_all add: json_node_get_string_def)

lemma resource_array_calls:
  assumes "map_of obj ''name'' = Some (JString n)" and "map_of obj ''path'' = Some (JArray ps)"
  shows "resource_calls app_info (Some obj) =
           map (\<lambda>p. AddResource n p (field_string obj ''description'') (or_empty app_info))
             (string_elements ps)"
  by (simp add: resource_calls_def string_member_Some [OF assms(1)] string_member_field
      json_object_get_member_def assms(2))

lemma resource_empty_array:
  assumes "map_of obj ''name'' = Some (JString n)" and "map_of obj ''path'' = Some (JArray [])"
  shows "parse_entry ag MLSVC_JSON_RESOURCE app_info (Some obj) tr =
           tr @ [Log DLOG_ERROR ''Failed to get path from MLSVC_JSON_RESOURCE.'' []]"
  by (simp add: parse_entry_def parse_resource_def string_member_Some [OF assms(1)]
      json_object_get_member_def assms(2) JSON_NODE_HOLDS_ARRAY_def json_node_get_array_def
      json_array_get_length_def)

lemma parse_json_object:
  "parse_json ag (Some (JObject obj)) json_type app_info tr =
     parse_entry ag json_type app_info (Some obj) tr"
  by (simp add: parse_json_def JSON_NODE_HOLDS_ARRAY_def)
     (subst parse_json_loop.simps, simp add: parse_json_loop_done json_node_get_object_def)

lemma node_calls_empty [simp]: "node_calls ty app_info (Some (JArray [])) = []"
  by (simp add: node_calls_array)

lemma node_calls_around:
  "node_calls ty app_info (Some (JArray (xs @ JObject obj # ys))) =
     node_calls ty app_info (Some (JArray xs)) @ entry_calls ty app_info (Some obj)
       @ node_calls ty app_info (Some (JArray ys))"
  by (simp add: node_calls_array json_node_get_object_def)

lemma lookup_mid:
  "k \<notin> fst ` set pre \<Longrightarrow> json_object_get_member (Some (pre @ (k, v) # post)) k = Some v"
  by (simp add: json_object_get_member_def map_add_def map_of_eq_None_iff [THEN iffD2])

lemma lookup_other:
  "k' \<noteq> k \<Longrightarrow>
   json_object_get_member (Some (pre @ (k, v) # post)) k' =
     json_object_get_member (Some (pre @ post)) k'"
  by (auto simp: json_object_get_member_def map_add_def split: option.splits)

lemma key_calls_other:
  "k' \<noteq> k \<Longrightarrow>
   key_calls app_info (Some (pre @ (k, v) # post)) k' = key_calls app_info (Some (pre @ post)) k'"
  by (simp add: key_calls_def lookup_other split: option.splits)

lemma key_calls_others:
  "k \<notin> set ks \<Longrightarrow>
   map (key_calls app_info (Some (pre @ (k, v) # post))) ks =
     map (key_calls app_info (Some (pre @ post))) ks"
proof (rule map_cong)
  fix x assume "k \<notin> set ks" "x \<in> set ks"
  then have "x \<noteq> k" by auto
  then show "key_calls app_info (Some (pre @ (k, v) # post)) x =
             key_calls app_info (Some (pre @ post)) x"
    by (rule key_calls_other)
qed simp

lemma manifest_calls_split:
  assumes valid: "valid_manifest (pre @ (k, v) # post)"
    and ty: "key_type k = Some ty"
    and first: "k \<notin> fst ` set pre"
  shows "config_calls app_info (Some (pre @ (k, v) # post)) (map fst (pre @ (k, v) # post)) =
           config_calls app_info (Some (pre @ (k, v) # post)) (map fst pre)
           @ node_calls ty app_info (Some v)
           @ config_calls app_info (Some (pre @ (k, v) # post)) (map fst post)"
proof -
  let ?kvs = "pre @ (k, v) # post"
  from valid have all: "list_all (\<lambda>k. key_type k \<noteq> None) (map fst ?kvs)"
    and p1: "list_all (\<lambda>k. key_type k \<noteq> None) (map fst pre)"
    and p2: "list_all (\<lambda>k. key_type k \<noteq> None) (map fst post)"
    by (simp_all add: valid_manifest_def)
  have mid: "key_calls app_info (Some ?kvs) k = node_calls ty app_info (Some v)"
    by (simp add: key_calls_def ty lookup_mid [OF first])
  show ?thesis
    by (simp only: config_calls_valid [OF all] config_calls_valid [OF p1]
        config_calls_valid [OF p2])
       (simp add: mid)
qed

lemma manifest_entry_calls:
  assumes m: "manifest_at e path (JObject (pre @ (k, v) # post))"
    and valid: "valid_manifest (pre @ (k, v) # post)"
    and ty: "key_type k = Some ty"
    and first: "k \<notin> fst ` set pre"
    and v: "v = JArray (xs @ JObject obj # ys) \<or> (v = JObject obj \<and> xs = [] \<and> ys = [])"
  shows "agent_calls (snd (get_json_config e path app_info tr)) =
           agent_calls (snd (config_members (ml_agent e) (Some (pre @ (k, v) # post)) app_info
                               (map fst pre) tr))
           @ agent_calls (parse_json ag (Some (JArray xs)) ty app_info [])
           @ entry_calls ty app_info (Some obj)
           @ agent_calls (parse_json ag (Some (JArray ys)) ty app_info [])
           @ agent_calls (snd (config_members (ml_agent e) (Some (pre @ (k, v) # post)) app_info
                               (map fst post) []))"
proof -
  have node: "node_calls ty app_info (Some v) =
                node_calls ty app_info (Some (JArray xs)) @ entry_calls ty app_info (Some obj)
                  @ node_calls ty app_info (Some (JArray ys))"
    using v by (auto simp: node_calls_around node_calls_object)
  show ?thesis
    by (simp only: valid_manifest_calls [OF m] manifest_calls_split [OF valid ty first]
        config_members_calls parse_json_calls node agent_calls.simps append_Nil append_assoc)
qed


text \<open>
  Claim C4. A resource entry with a \<open>name\<close> whose \<open>path\<close> is an array, held by a
  resource key of a valid manifest, as the key's value or at any place of the key's
  array. The parse of the manifest returns true, and its agent calls are those of what
  precedes the entry, then one AddResource call for each string element of the path, in
  order, each with the entry's name, description and appInfo and with that element as
  its path, then those of what follows the entry; \<open>_parse_json\<close> on the entry alone or
  inside an array adds the same calls. When the path holds K strings these are exactly
  K calls. An element from which no string can be read adds no call, and the elements
  before and after it are still added. For the empty array the entry adds no call,
  \<open>_parse_json\<close> logs an error for the entry, and the parse of the manifest still
  returns true.
\<close>

theorem C4_resource_paths:
  assumes "manifest_at e path (JObject (pre @ (k, v) # post))"
    and "valid_manifest (pre @ (k, v) # post)"
    and "key_type k = Some MLSVC_JSON_RESOURCE"
    and "k \<notin> fst ` set pre"
    and "v = JArray (xs @ JObject obj # ys) \<or> (v = JObject obj \<and> xs = [] \<and> ys = [])"
    and "map_of obj ''name'' = Some (JString n)"
    and "map_of obj ''path'' = Some (JArray ps)"
  shows
   "(let add = (\<lambda>p. AddResource n p (field_string obj ''description'') (or_empty app_info));
         before = agent_calls (snd (config_members (ml_agent e) (Some (pre @ (k, v) # post))
                                      app_info (map fst pre) tr))
                  @ agent_calls (parse_json ag (Some (JArray xs)) MLSVC_JSON_RESOURCE app_info []);
         after = agent_calls (parse_json ag (Some (JArray ys)) MLSVC_JSON_RESOURCE app_info [])
                 @ agent_calls (snd (config_members (ml_agent e) (Some (pre @ (k, v) # post))
                                       app_info (map fst post) []))
     in fst (get_json_config e path app_info tr)
      \<and> agent_calls (snd (get_json_config e path app_info tr)) =
          before @ map add (string_elements ps) @ after
      \<and> agent_calls (parse_json ag (Some (JObject obj)) MLSVC_JSON_RESOURCE app_info tr') =
          agent_calls tr' @ map add (string_elements ps)
      \<and> agent_calls (parse_json ag (Some (JArray (xs @ JObject obj # ys)))
                        MLSVC_JSON_RESOURCE app_info tr') =
          agent_calls (parse_json ag (Some (JArray xs)) MLSVC_JSON_RESOURCE app_info tr')
          @ map add (string_elements ps)
          @ agent_calls (parse_json ag (Some (JArray ys)) MLSVC_JSON_RESOURCE app_info [])
      \<and> (ps = map JString paths \<longrightarrow>
            agent_calls (snd (get_json_config e path app_info tr)) =
              before @ map add paths @ after
            \<and> length (map add paths) = length ps
            \<and> agent_calls (parse_json ag (Some (JObject obj)) MLSVC_JSON_RESOURCE app_info tr') =
                agent_calls tr' @ map add paths)
      \<and> (ps = map JString paths1 @ x # map JString paths2
           \<and> json_node_get_string (Some x) = None \<longrightarrow>
            agent_calls (snd (get_json_config e path app_info tr)) =
              before @ map add (paths1 @ paths2) @ after
            \<and> agent_calls (parse_json ag (Some (JObject obj)) MLSVC_JSON_RESOURCE app_info tr') =
                agent_calls tr' @ map add (paths1 @ paths2))
      \<and> (ps = [] \<longrightarrow>
            agent_calls (snd (get_json_config e path app_info tr)) = before @ after
            \<and> parse_json ag (Some (JObject obj)) MLSVC_JSON_RESOURCE app_info tr' =
                tr' @ [Log DLOG_ERROR ''Failed to get path from MLSVC_JSON_RESOURCE.'' []]))"
proof -
  let ?add = "\<lambda>p. AddResource n p (field_string obj ''description'') (or_empty app_info)"
  have entry: "entry_calls MLSVC_JSON_RESOURCE app_info (Some obj) =
                 map ?add (string_elements ps)"
    by (simp add: entry_calls_def resource_array_calls [OF assms(6,7)])
  have ok: "fst (get_json_config e path app_info tr)"
    using assms(1,2) by (rule valid_manifest_parse_ok)
  note whole = manifest_entry_calls [OF assms(1-5), of app_info tr ag, unfolded entry]
  have bare: "agent_calls (parse_json ag (Some (JObject obj)) MLSVC_JSON_RESOURCE app_info tr') =
          agent_calls tr' @ map ?add (string_elements ps)"
    by (simp add: parse_json_calls node_calls_object entry)
  have arr: "agent_calls (parse_json ag (Some (JArray (xs @ JObject obj # ys)))
                        MLSVC_JSON_RESOURCE app_info tr') =
          agent_calls (parse_json ag (Some (JArray xs)) MLSVC_JSON_RESOURCE app_info tr')
          @ map ?add (string_elements ps)
          @ agent_calls (parse_json ag (Some (JArray ys)) MLSVC_JSON_RESOURCE app_info [])"
    by (simp add: parse_json_calls node_calls_around entry)
  have skip: "string_elements (map JString paths1 @ x # map JString paths2) = paths1 @ paths2"
    if "json_node_get_string (Some x) = None"
    using that by (simp add: string_elements_append string_elements_unreadable)
  have empty: "parse_json ag (Some (JObject obj)) MLSVC_JSON_RESOURCE app_info tr' =
                tr' @ [Log DLOG_ERROR ''Failed to get path from MLSVC_JSON_RESOURCE.'' []]"
    if "ps = []"
    using resource_empty_array [OF assms(6)] assms(7) that by (simp add: parse_json_object)
  show ?thesis
    unfolding Let_def
    using ok whole bare arr skip empty by auto
qed


text \<open>
  Claim C4 in the example installation: a manifest with a model, two resource entries
  and a pipeline, the second resource entry with a path of two strings around a number;
  a manifest whose resource entry has a path of two strings; and a manifest whose
  resource entry has an empty path.
\<close>

theorem C4_resource_paths_witness:
  "manifest_at (example_env (Some (JObject ([(''models'', JObject example_model_a)] @ (''resources'', JArray ([JObject [(''name'', JString ''q''), (''path'', JString ''/q'')]] @ JObject example_resource # [])) # [(''pipeline'', JObject example_pipeline)])))) example_path (JObject ([(''models'', JObject example_model_a)] @ (''resources'', JArray ([JObject [(''name'', JString ''q''), (''path'', JString ''/q'')]] @ JObject example_resource # [])) # [(''pipeline'', JObject example_pipeline)]))
   \<and> valid_manifest ([(''models'', JObject example_model_a)] @ (''resources'', JArray ([JObject [(''name'', JString ''q''), (''path'', JString ''/q'')]] @ JObject example_resource # [])) # [(''pipeline'', JObject example_pipeline)])
   \<and> key_type ''resources'' = Some MLSVC_JSON_RESOURCE
   \<and> ''resources'' \<notin> fst ` set [(''models'', JObject example_model_a)]
   \<and> map_of example_resource ''name'' = Some (JString ''r'')
   \<and> map_of example_resource ''path'' =
       Some (JArray (map JString [''/r/1.png''] @ JInt 2 # map JString [''/r/3.png'']))
   \<and> json_node_get_string (Some (JInt 2)) = None
   \<and> fst (get_json_config (example_env (Some (JObject ([(''models'', JObject example_model_a)] @ (''resources'', JArray ([JObject [(''name'', JString ''q''), (''path'', JString ''/q'')]] @ JObject example_resource # [])) # [(''pipeline'', JObject example_pipeline)])))) example_path (Some ''app-info'') [])
   \<and> agent_calls (snd (get_json_config (example_env (Some (JObject ([(''models'', JObject example_model_a)] @ (''resources'', JArray ([JObject [(''name'', JString ''q''), (''path'', JString ''/q'')]] @ JObject example_resource # [])) # [(''pipeline'', JObject example_pipeline)])))) example_path (Some ''app-info'') [])) =
       [Register ''a'' ''/a'' True [] ''app-info'',
        AddResource ''q'' ''/q'' [] ''app-info'',
        AddResource ''r'' ''/r/1.png'' ''images'' ''app-info'',
        AddResource ''r'' ''/r/3.png'' ''images'' ''app-info'',
        SetPipelineDescription ''p'' ''videotestsrc ! fakesink'']
   \<and> manifest_at (example_env (Some (JObject ([] @ (''resource'', JObject [(''name'', JString ''r''), (''path'', JArray (map JString [''/x'', ''/y'']))]) # [])))) example_path (JObject ([] @ (''resource'', JObject [(''name'', JString ''r''), (''path'', JArray (map JString [''/x'', ''/y'']))]) # []))
   \<and> valid_manifest ([] @ (''resource'', JObject [(''name'', JString ''r''), (''path'', JArray (map JString [''/x'', ''/y'']))]) # [])
   \<and> fst (get_json_config (example_env (Some (JObject ([] @ (''resource'', JObject [(''name'', JString ''r''), (''path'', JArray (map JString [''/x'', ''/y'']))]) # [])))) example_path (Some ''app-info'') [])
   \<and> agent_calls (snd (get_json_config (example_env (Some (JObject ([] @ (''resource'', JObject [(''name'', JString ''r''), (''path'', JArray (map JString [''/x'', ''/y'']))]) # [])))) example_path (Some ''app-info'') [])) =
       [AddResource ''r'' ''/x'' [] ''app-info'', AddResource ''r'' ''/y'' [] ''app-info'']
   \<and> manifest_at (example_env (Some (JObject ([] @ (''Resources'', JObject [(''name'', JString ''r''), (''path'', JArray [])]) # [])))) example_path (JObject ([] @ (''Resources'', JObject [(''name'', JString ''r''), (''path'', JArray [])]) # []))
   \<and> valid_manifest ([] @ (''Resources'', JObject [(''name'', JString ''r''), (''path'', JArray [])]) # [])
   \<and> fst (get_json_config (example_env (Some (JObject ([] @ (''Resources'', JObject [(''name'', JString ''r''), (''path'', JArray [])]) # [])))) example_path (Some ''app-info'') [])
   \<and> agent_calls (snd (get_json_config (example_env (Some (JObject ([] @ (''Resources'', JObject [(''name'', JString ''r''), (''path'', JArray [])]) # [])))) example_path (Some ''app-info'') [])) = []
   \<and> parse_json (ml_agent (example_env None)) (Some (JObject [(''name'', JString ''r''), (''path'', JArray [])]))
         MLSVC_JSON_RESOURCE (Some ''app-info'') [] =
       [Log DLOG_ERROR ''Failed to get path from MLSVC_JSON_RESOURCE.'' []]"
proof -
  let ?ag = "ml_agent (example_env None)"
  let ?k1 = "[(''models'', JObject example_model_a)] @ (''resources'', JArray ([JObject [(''name'', JString ''q''), (''path'', JString ''/q'')]] @ JObject example_resource # [])) # [(''pipeline'', JObject example_pipeline)]"
  let ?k2 = "[] @ (''resource'', JObject [(''name'', JString ''r''), (''path'', JArray (map JString [''/x'', ''/y'']))]) # []"
  let ?k3 = "[] @ (''Resources'', JObject [(''name'', JString ''r''), (''path'', JArray [])]) # []"
  have kt: "key_type ''resources'' = Some MLSVC_JSON_RESOURCE"
    "key_type ''resource'' = Some MLSVC_JSON_RESOURCE"
    "key_type ''Resources'' = Some MLSVC_JSON_RESOURCE"
    "key_type ''models'' = Some MLSVC_JSON_MODEL"
    "key_type ''pipeline'' = Some MLSVC_JSON_PIPELINE"
    by code_simp+
  have m1: "manifest_at (example_env (Some (JObject ?k1))) example_path (JObject ?k1)"
    and m2: "manifest_at (example_env (Some (JObject ?k2))) example_path (JObject ?k2)"
    and m3: "manifest_at (example_env (Some (JObject ?k3))) example_path (JObject ?k3)"
    by (simp_all add: manifest_at_def example_env_def example_path_def)
  have v1: "valid_manifest ?k1" and v2: "valid_manifest ?k2" and v3: "valid_manifest ?k3"
    by (simp_all add: valid_manifest_def kt)
  have f1: "''resources'' \<notin> fst ` set [(''models'', JObject example_model_a)]" by simp
  have f0: "k \<notin> fst ` set ([] :: (string \<times> json) list)" for k by simp
  have h1: "JArray ([JObject [(''name'', JString ''q''), (''path'', JString ''/q'')]] @ JObject example_resource # []) = JArray ([JObject [(''name'', JString ''q''), (''path'', JString ''/q'')]] @ JObject example_resource # [])
      \<or> (JArray ([JObject [(''name'', JString ''q''), (''path'', JString ''/q'')]] @ JObject example_resource # []) = JObject example_resource \<and> [JObject [(''name'', JString ''q''), (''path'', JString ''/q'')]] = [] \<and> [] = ([] :: json list))"
    by simp
  have h2: "JObject [(''name'', JString ''r''), (''path'', JArray (map JString [''/x'', ''/y'']))] = JArray ([] @ JObject [(''name'', JString ''r''), (''path'', JArray (map JString [''/x'', ''/y'']))] # [])
      \<or> (JObject [(''name'', JString ''r''), (''path'', JArray (map JString [''/x'', ''/y'']))] = JObject [(''name'', JString ''r''), (''path'', JArray (map JString [''/x'', ''/y'']))] \<and> [] = ([] :: json list) \<and> [] = ([] :: json list))"
    by simp
  have h3: "JObject [(''name'', JString ''r''), (''path'', JArray [])] = JArray ([] @ JObject [(''name'', JString ''r''), (''path'', JArray [])] # [])
      \<or> (JObject [(''name'', JString ''r''), (''path'', JArray [])] = JObject [(''name'', JString ''r''), (''path'', JArray [])] \<and> [] = ([] :: json list) \<and> [] = ([] :: json list))"
    by simp
  have n1: "map_of example_resource ''name'' = Some (JString ''r'')"
    and p1: "map_of example_resource ''path'' =
       Some (JArray (map JString [''/r/1.png''] @ JInt 2 # map JString [''/r/3.png'']))"
    and d1: "field_string example_resource ''description'' = ''images''"
    by (simp_all add: example_resource_def field_string_def)
  have u1: "json_node_get_string (Some (JInt 2)) = None"
    by (simp add: json_node_get_string_def)
  have n2: "map_of [(''name'', JString ''r''), (''path'', JArray (map JString [''/x'', ''/y'']))] ''name'' = Some (JString ''r'')"
    and p2: "map_of [(''name'', JString ''r''), (''path'', JArray (map JString [''/x'', ''/y'']))] ''path'' = Some (JArray (map JString [''/x'', ''/y'']))"
    by simp_all
  have n3: "map_of [(''name'', JString ''r''), (''path'', JArray [])] ''name'' = Some (JString ''r'')"
    and p3: "map_of [(''name'', JString ''r''), (''path'', JArray [])] ''path'' = Some (JArray [])"
    by simp_all
  have b1: "agent_calls (snd (config_members (ml_agent (example_env (Some (JObject ?k1))))
               (Some ?k1) (Some ''app-info'') (map fst [(''models'', JObject example_model_a)]) []))
            @ agent_calls (parse_json ?ag (Some (JArray [JObject [(''name'', JString ''q''), (''path'', JString ''/q'')]]))
                 MLSVC_JSON_RESOURCE (Some ''app-info'') []) =
            [Register ''a'' ''/a'' True [] ''app-info'', AddResource ''q'' ''/q'' [] ''app-info'']"
    by code_simp
  have a1: "agent_calls (parse_json ?ag (Some (JArray [])) MLSVC_JSON_RESOURCE
               (Some ''app-info'') [])
            @ agent_calls (snd (config_members (ml_agent (example_env (Some (JObject ?k1))))
                 (Some ?k1) (Some ''app-info'') (map fst [(''pipeline'', JObject example_pipeline)]) [])) =
            [SetPipelineDescription ''p'' ''videotestsrc ! fakesink'']"
    by code_simp
  have e0: "agent_calls (snd (config_members a b c (map fst ([] :: (string \<times> json) list)) [])) = []"
    "agent_calls (parse_json ?ag (Some (JArray [])) MLSVC_JSON_RESOURCE (Some ''app-info'') []) = []"
    for a b c
    by (simp_all add: parse_json_calls)
  have w1: "fst (get_json_config (example_env (Some (JObject ([(''models'', JObject example_model_a)] @ (''resources'', JArray ([JObject [(''name'', JString ''q''), (''path'', JString ''/q'')]] @ JObject example_resource # [])) # [(''pipeline'', JObject example_pipeline)])))) example_path (Some ''app-info'') [])
     \<and> agent_calls (snd (get_json_config (example_env (Some (JObject ([(''models'', JObject example_model_a)] @ (''resources'', JArray ([JObject [(''name'', JString ''q''), (''path'', JString ''/q'')]] @ JObject example_resource # [])) # [(''pipeline'', JObject example_pipeline)])))) example_path (Some ''app-info'') [])) =
       [Register ''a'' ''/a'' True [] ''app-info'',
        AddResource ''q'' ''/q'' [] ''app-info'',
        AddResource ''r'' ''/r/1.png'' ''images'' ''app-info'',
        AddResource ''r'' ''/r/3.png'' ''images'' ''app-info'',
        SetPipelineDescription ''p'' ''videotestsrc ! fakesink'']"
    using C4_resource_paths [OF m1 v1 kt(1) f1 h1 n1 p1, where app_info = "Some ''app-info''"
        and tr = "[]" and tr' = "[]" and ag = ?ag and paths = "[]"
        and ?paths1.0 = "[''/r/1.png'']" and x = "JInt 2" and ?paths2.0 = "[''/r/3.png'']"]
      u1 b1 a1
    by (simp add: Let_def d1 or_empty_def)
  have w2: "fst (get_json_config (example_env (Some (JObject ([] @ (''resource'', JObject [(''name'', JString ''r''), (''path'', JArray (map JString [''/x'', ''/y'']))]) # [])))) example_path (Some ''app-info'') [])
     \<and> agent_calls (snd (get_json_config (example_env (Some (JObject ([] @ (''resource'', JObject [(''name'', JString ''r''), (''path'', JArray (map JString [''/x'', ''/y'']))]) # [])))) example_path (Some ''app-info'') [])) =
       [AddResource ''r'' ''/x'' [] ''app-info'', AddResource ''r'' ''/y'' [] ''app-info'']"
    using C4_resource_paths [OF m2 v2 kt(2) f0 h2 n2 p2, where app_info = "Some ''app-info''"
        and tr = "[]" and tr' = "[]" and ag = ?ag and paths = "[''/x'', ''/y'']"
        and ?paths1.0 = "[]" and x = JNull and ?paths2.0 = "[]"]
    by (simp add: Let_def e0 field_string_def or_empty_def)
  have w3: "fst (get_json_config (example_env (Some (JObject ([] @ (''Resources'', JObject [(''name'', JString ''r''), (''path'', JArray [])]) # [])))) example_path (Some ''app-info'') [])
     \<and> agent_calls (snd (get_json_config (example_env (Some (JObject ([] @ (''Resources'', JObject [(''name'', JString ''r''), (''path'', JArray [])]) # [])))) example_path (Some ''app-info'') [])) = []
     \<and> parse_json ?ag (Some (JObject [(''name'', JString ''r''), (''path'', JArray [])])) MLSVC_JSON_RESOURCE (Some ''app-info'') [] =
       [Log DLOG_ERROR ''Failed to get path from MLSVC_JSON_RESOURCE.'' []]"
    using C4_resource_paths [OF m3 v3 kt(3) f0 h3 n3 p3, where app_info = "Some ''app-info''"
        and tr = "[]" and tr' = "[]" and ag = ?ag and paths = "[]"
        and ?paths1.0 = "[]" and x = JNull and ?paths2.0 = "[]"]
    by (simp add: Let_def e0)
  from m1 v1 kt(1) f1 n1 p1 u1 w1 m2 v2 w2 m3 v3 w3 show ?thesis by blast
qed

lemma takeWhile_renamed:
  "P \<circ> f = P \<Longrightarrow> map g (takeWhile P (map f names)) = map (g \<circ> f) (takeWhile P names)"
  by (simp add: takeWhile_map)

lemma list_all_renamed:
  "P \<circ> f = P \<Longrightarrow> list_all P (map f names) = list_all P names"
  by (simp add: list_all_iff fun_eq_iff)

lemma renamed_key_calls:
  assumes same: "key_type k' = key_type k"
    and k: "k \<notin> fst ` set (pre @ post)"
    and k': "k' \<notin> fst ` set (pre @ post)"
  shows "config_calls app_info (Some (pre @ (k', v) # post)) (map fst (pre @ (k', v) # post)) =
           config_calls app_info (Some (pre @ (k, v) # post)) (map fst (pre @ (k, v) # post))
       \<and> list_all (\<lambda>x. key_type x \<noteq> None) (map fst (pre @ (k', v) # post)) =
           list_all (\<lambda>x. key_type x \<noteq> None) (map fst (pre @ (k, v) # post))"
proof -
  let ?f = "\<lambda>x. if x = k then k' else x"
  let ?P = "\<lambda>x. key_type x \<noteq> None"
  let ?kvs = "pre @ (k, v) # post" and ?kvs' = "pre @ (k', v) # post"
  have fix_pre: "map ?f (map fst pre) = map fst pre" and fix_post: "map ?f (map fst post) = map fst post"
    using k by (auto intro: map_idI)
  have names: "map fst ?kvs' = map ?f (map fst ?kvs)"
    using fix_pre fix_post by simp
  have P: "?P \<circ> ?f = ?P"
    using same by (auto simp: fun_eq_iff)
  have first: "k \<notin> fst ` set pre" "k' \<notin> fst ` set pre"
    using k k' by auto
  have calls: "key_calls app_info (Some ?kvs') (?f x) = key_calls app_info (Some ?kvs) x"
    if "x \<in> set (map fst ?kvs)" for x
  proof (cases "x = k")
    case True
    then show ?thesis
      by (simp add: key_calls_def same lookup_mid [OF first(1)] lookup_mid [OF first(2)]
          split: option.splits)
  next
    case False
    with that have "x \<in> fst ` set (pre @ post)" by auto
    with k' have "x \<noteq> k'" by auto
    with False show ?thesis
      by (simp add: key_calls_other)
  qed
  have sub: "set (takeWhile ?P (map fst ?kvs)) \<subseteq> set (map fst ?kvs)"
    by (auto dest: set_takeWhileD)
  have "map (key_calls app_info (Some ?kvs')) (takeWhile ?P (map fst ?kvs')) =
        map (key_calls app_info (Some ?kvs') \<circ> ?f) (takeWhile ?P (map fst ?kvs))"
    by (simp only: names takeWhile_renamed [OF P])
  also have "\<dots> = map (key_calls app_info (Some ?kvs)) (takeWhile ?P (map fst ?kvs))"
    by (rule map_cong [OF refl]) (use sub calls in \<open>auto simp only: comp_def\<close>)
  finally have c: "config_calls app_info (Some ?kvs') (map fst ?kvs') =
                   config_calls app_info (Some ?kvs) (map fst ?kvs)"
    by (simp only: config_calls_def)
  have l: "list_all ?P (map fst ?kvs') = list_all ?P (map fst ?kvs)"
    by (simp only: names list_all_renamed [OF P])
  from c l show ?thesis by (rule conjI)
qed


text \<open>
  Claim C9. A key without a NUL selects its category by its lower-case spelling, so two
  keys that differ only in case select the same one, and \<open>Model\<close>, \<open>MODELS\<close> and
  \<open>model\<close> all select the model category; the value of a key is handed to
  \<open>_parse_json\<close> with that category. Two manifests that differ only in the spelling
  of one key, both spellings of one category, parse to the same result with the same
  agent calls. A model entry with a name and a model, held by a model key of a valid
  manifest as the key's value or at any place of the key's array, is registered by the
  parse of the manifest, and by \<open>_parse_json\<close> on the entry alone or inside an array,
  with the active flag true exactly when its \<open>activate\<close> is a string that is
  \<open>true\<close> in lower case, as \<open>True\<close>, \<open>true\<close> and \<open>TRUE\<close> are; with another string, or
  with no string under \<open>activate\<close>, the flag is false.
\<close>

theorem C9_case_insensitive:
  assumes "c_string k"
    and "map_of obj ''name'' = Some (JString n)"
    and "map_of obj ''model'' = Some (JString m)"
  shows
   "(let reg = (\<lambda>active. Register n m active (field_string obj ''description'')
                            (or_empty app_info));
         kvs = pre @ (k, v) # post;
         before = agent_calls (snd (config_members (ml_agent e) (Some kvs) app_info
                                      (map fst pre) tr))
                  @ agent_calls (parse_json ag (Some (JArray xs)) MLSVC_JSON_MODEL app_info []);
         after = agent_calls (parse_json ag (Some (JArray ys)) MLSVC_JSON_MODEL app_info [])
                 @ agent_calls (snd (config_members (ml_agent e) (Some kvs) app_info
                                       (map fst post) []));
         registered = (\<lambda>active.
            agent_calls (parse_entry ag MLSVC_JSON_MODEL app_info (Some obj) tr') =
              agent_calls tr' @ [reg active]
          \<and> agent_calls (parse_json ag (Some (JObject obj)) MLSVC_JSON_MODEL app_info tr') =
              agent_calls tr' @ [reg active]
          \<and> agent_calls (parse_json ag (Some (JArray (xs @ JObject obj # ys)))
                            MLSVC_JSON_MODEL app_info tr') =
              agent_calls (parse_json ag (Some (JArray xs)) MLSVC_JSON_MODEL app_info tr')
              @ [reg active]
              @ agent_calls (parse_json ag (Some (JArray ys)) MLSVC_JSON_MODEL app_info [])
          \<and> (manifest_at e path (JObject kvs) \<and> valid_manifest kvs
               \<and> category_of k = Some MLSVC_JSON_MODEL \<and> k \<notin> fst ` set pre
               \<and> (v = JArray (xs @ JObject obj # ys)
                    \<or> (v = JObject obj \<and> xs = [] \<and> ys = [])) \<longrightarrow>
                fst (get_json_config e path app_info tr)
              \<and> agent_calls (snd (get_json_config e path app_info tr)) =
                  before @ [reg active] @ after))
     in key_type k = category_of k
      \<and> (c_string k' \<and> ascii_lower k' = ascii_lower k \<longrightarrow> key_type k' = key_type k)
      \<and> (key_type k = Some ty \<longrightarrow>
            config_members ag object app_info (k # iter) tr =
              config_members ag object app_info iter
                (parse_json ag (json_object_get_member object k) ty app_info tr))
      \<and> key_type ''Model'' = Some MLSVC_JSON_MODEL
      \<and> key_type ''MODELS'' = Some MLSVC_JSON_MODEL
      \<and> key_type ''model'' = Some MLSVC_JSON_MODEL
      \<and> (manifest_at e path (JObject kvs)
           \<and> manifest_at e' path' (JObject (pre @ (k', v) # post))
           \<and> c_string k' \<and> category_of k' = category_of k
           \<and> k \<notin> fst ` set (pre @ post) \<and> k' \<notin> fst ` set (pre @ post) \<longrightarrow>
            fst (get_json_config e' path' app_info tr) = fst (get_json_config e path app_info tr)
          \<and> agent_calls (snd (get_json_config e' path' app_info tr)) =
              agent_calls (snd (get_json_config e path app_info tr)))
      \<and> (map_of obj ''activate'' = Some (JString a) \<and> c_string a \<longrightarrow>
            registered (ascii_lower a = ''true''))
      \<and> ((\<forall>a. map_of obj ''activate'' \<noteq> Some (JString a)) \<longrightarrow> registered False)
      \<and> ascii_lower ''True'' = ''true''
      \<and> ascii_lower ''true'' = ''true''
      \<and> ascii_lower ''TRUE'' = ''true'')"
proof -
  let ?reg = "\<lambda>active. Register n m active (field_string obj ''description'') (or_empty app_info)"
  let ?kvs = "pre @ (k, v) # post"
  have cat: "key_type k = category_of k"
    using assms(1) by (rule key_type_category)
  have same: "key_type k' = key_type k" if "c_string k'" "ascii_lower k' = ascii_lower k"
    using that by (simp add: key_type_category assms(1) category_of_def)
  have step: "config_members ag object app_info (k # iter) tr =
             config_members ag object app_info iter
               (parse_json ag (json_object_get_member object k) ty app_info tr)"
    if "key_type k = Some ty"
    using that by (simp only: config_members_step option.case)
  have lits: "key_type ''Model'' = Some MLSVC_JSON_MODEL"
    "key_type ''MODELS'' = Some MLSVC_JSON_MODEL" "key_type ''model'' = Some MLSVC_JSON_MODEL"
    by code_simp+
  have lows: "ascii_lower ''True'' = ''true''" "ascii_lower ''true'' = ''true''"
    "ascii_lower ''TRUE'' = ''true''"
    by code_simp+
  have renamed: "fst (get_json_config e' path' app_info tr) = fst (get_json_config e path app_info tr)
          \<and> agent_calls (snd (get_json_config e' path' app_info tr)) =
              agent_calls (snd (get_json_config e path app_info tr))"
    if m: "manifest_at e path (JObject ?kvs)"
      and m': "manifest_at e' path' (JObject (pre @ (k', v) # post))"
      and c: "c_string k'" "category_of k' = category_of k"
      and d: "k \<notin> fst ` set (pre @ post)" "k' \<notin> fst ` set (pre @ post)"
  proof -
    from c cat have "key_type k' = key_type k" by (simp add: key_type_category)
    note r = renamed_key_calls [OF this d, of app_info v]
    have "fst (get_json_config e' path' app_info tr) = fst (get_json_config e path app_info tr)"
      by (simp only: get_json_config_object [OF m] get_json_config_object [OF m']
          config_members_fst r [THEN conjunct2])
    moreover have "agent_calls (snd (get_json_config e' path' app_info tr)) =
              agent_calls (snd (get_json_config e path app_info tr))"
      by (simp only: valid_manifest_calls [OF m] valid_manifest_calls [OF m']
          r [THEN conjunct1])
    ultimately show ?thesis by (rule conjI)
  qed
  have wf: "well_formed_model obj"
    by (simp add: well_formed_model_def assms(2,3))
  have model: "model_calls app_info (Some obj) = [?reg (entry_active obj)]"
    by (simp add: well_formed_model_calls [OF wf] register_of_def field_string_def assms(2,3))
  have entry: "entry_calls MLSVC_JSON_MODEL app_info (Some obj) = [?reg (entry_active obj)]"
    by (simp add: entry_calls_def model)
  have r1: "agent_calls (parse_entry ag MLSVC_JSON_MODEL app_info (Some obj) tr') =
              agent_calls tr' @ [?reg (entry_active obj)]"
    by (simp only: parse_entry_calls entry)
  have r2: "agent_calls (parse_json ag (Some (JObject obj)) MLSVC_JSON_MODEL app_info tr') =
              agent_calls tr' @ [?reg (entry_active obj)]"
    by (simp only: parse_json_calls node_calls_object entry)
  have r3: "agent_calls (parse_json ag (Some (JArray (xs @ JObject obj # ys)))
                            MLSVC_JSON_MODEL app_info tr') =
              agent_calls (parse_json ag (Some (JArray xs)) MLSVC_JSON_MODEL app_info tr')
              @ [?reg (entry_active obj)]
              @ agent_calls (parse_json ag (Some (JArray ys)) MLSVC_JSON_MODEL app_info [])"
    by (simp only: parse_json_calls node_calls_around entry agent_calls.simps append_Nil
        append_assoc)
  have r4: "fst (get_json_config e path app_info tr)
          \<and> agent_calls (snd (get_json_config e path app_info tr)) =
              (agent_calls (snd (config_members (ml_agent e) (Some ?kvs) app_info
                                      (map fst pre) tr))
                  @ agent_calls (parse_json ag (Some (JArray xs)) MLSVC_JSON_MODEL app_info []))
              @ [?reg (entry_active obj)]
              @ (agent_calls (parse_json ag (Some (JArray ys)) MLSVC_JSON_MODEL app_info [])
                 @ agent_calls (snd (config_members (ml_agent e) (Some ?kvs) app_info
                                       (map fst post) [])))"
    if m: "manifest_at e path (JObject ?kvs)" and valid: "valid_manifest ?kvs"
      and c: "category_of k = Some MLSVC_JSON_MODEL" and first: "k \<notin> fst ` set pre"
      and v: "v = JArray (xs @ JObject obj # ys) \<or> (v = JObject obj \<and> xs = [] \<and> ys = [])"
  proof -
    from cat c have ty: "key_type k = Some MLSVC_JSON_MODEL" by simp
    show ?thesis
      using valid_manifest_parse_ok [OF m valid, of app_info tr]
        manifest_entry_calls [OF m valid ty first v, of app_info tr ag]
      by (simp only: entry append_assoc)
  qed
  have act: "entry_active obj = (ascii_lower a = ''true'')"
    if "map_of obj ''activate'' = Some (JString a)" "c_string a"
    using that by (simp add: entry_active_def strcasecmp_zero_iff)
  have noact: "entry_active obj = False" if "\<forall>a. map_of obj ''activate'' \<noteq> Some (JString a)"
    using that by (auto simp: entry_active_def split: option.splits json.splits)
  let ?R = "\<lambda>active.
            agent_calls (parse_entry ag MLSVC_JSON_MODEL app_info (Some obj) tr') =
              agent_calls tr' @ [?reg active]
          \<and> agent_calls (parse_json ag (Some (JObject obj)) MLSVC_JSON_MODEL app_info tr') =
              agent_calls tr' @ [?reg active]
          \<and> agent_calls (parse_json ag (Some (JArray (xs @ JObject obj # ys)))
                            MLSVC_JSON_MODEL app_info tr') =
              agent_calls (parse_json ag (Some (JArray xs)) MLSVC_JSON_MODEL app_info tr')
              @ [?reg active]
              @ agent_calls (parse_json ag (Some (JArray ys)) MLSVC_JSON_MODEL app_info [])
          \<and> (manifest_at e path (JObject ?kvs) \<and> valid_manifest ?kvs
               \<and> category_of k = Some MLSVC_JSON_MODEL \<and> k \<notin> fst ` set pre
               \<and> (v = JArray (xs @ JObject obj # ys)
                    \<or> (v = JObject obj \<and> xs = [] \<and> ys = [])) \<longrightarrow>
                fst (get_json_config e path app_info tr)
              \<and> agent_calls (snd (get_json_config e path app_info tr)) =
                  (agent_calls (snd (config_members (ml_agent e) (Some ?kvs) app_info
                                      (map fst pre) tr))
                  @ agent_calls (parse_json ag (Some (JArray xs)) MLSVC_JSON_MODEL app_info []))
                  @ [?reg active]
                  @ (agent_calls (parse_json ag (Some (JArray ys)) MLSVC_JSON_MODEL app_info [])
                 @ agent_calls (snd (config_members (ml_agent e) (Some ?kvs) app_info
                                       (map fst post) []))))"
  have R0: "?R (entry_active obj)"
    using r1 r2 r3 r4 by blast
  have R: "?R active" if "entry_active obj = active" for active
    using R0 unfolding that .
  have A: "map_of obj ''activate'' = Some (JString a) \<and> c_string a \<longrightarrow>
            ?R (ascii_lower a = ''true'')"
  proof
    assume "map_of obj ''activate'' = Some (JString a) \<and> c_string a"
    then have "entry_active obj = (ascii_lower a = ''true'')" using act by blast
    then show "?R (ascii_lower a = ''true'')" by (rule R)
  qed
  have B: "(\<forall>a. map_of obj ''activate'' \<noteq> Some (JString a)) \<longrightarrow> ?R False"
  proof
    assume "\<forall>a. map_of obj ''activate'' \<noteq> Some (JString a)"
    then have "entry_active obj = False" by (rule noact)
    then show "?R False" by (rule R)
  qed
  have same': "c_string k' \<and> ascii_lower k' = ascii_lower k \<longrightarrow> key_type k' = key_type k"
    using same by blast
  have step': "key_type k = Some ty \<longrightarrow>
            config_members ag object app_info (k # iter) tr =
              config_members ag object app_info iter
                (parse_json ag (json_object_get_member object k) ty app_info tr)"
    using step by blast
  have renamed': "manifest_at e path (JObject ?kvs)
           \<and> manifest_at e' path' (JObject (pre @ (k', v) # post))
           \<and> c_string k' \<and> category_of k' = category_of k
           \<and> k \<notin> fst ` set (pre @ post) \<and> k' \<notin> fst ` set (pre @ post) \<longrightarrow>
            fst (get_json_config e' path' app_info tr) = fst (get_json_config e path app_info tr)
          \<and> agent_calls (snd (get_json_config e' path' app_info tr)) =
              agent_calls (snd (get_json_config e path app_info tr))"
    using renamed by blast
  show ?thesis
    unfolding Let_def
    by (intro conjI) (rule cat same' step' lits renamed' A B lows)+
qed


text \<open>
  Claim C9 in the example installation: the manifest with a pipeline, two model
  entries and a resource makes the same calls whether its model key is spelled
  \<open>Model\<close>, \<open>MODELS\<close> or \<open>model\<close>; the entry with \<open>activate\<close> \<open>True\<close> is registered
  active, as is one with \<open>TRUE\<close>; the entry without \<open>activate\<close> and the one with
  \<open>yes\<close> are registered inactive.
\<close>

theorem C9_case_insensitive_witness:
  "c_string ''Model''
   \<and> map_of example_model_a ''name'' = Some (JString ''a'')
   \<and> map_of example_model_a ''model'' = Some (JString ''/a'')
   \<and> map_of example_model_a ''activate'' = Some (JString ''True'') \<and> c_string ''True''
   \<and> manifest_at (example_env (Some (JObject ([(''pipeline'', JObject example_pipeline)] @ (''Model'', JArray ([JObject example_model_b] @ JObject example_model_a # [])) # [(''resources'', JObject example_resource)])))) example_path (JObject ([(''pipeline'', JObject example_pipeline)] @ (''Model'', JArray ([JObject example_model_b] @ JObject example_model_a # [])) # [(''resources'', JObject example_resource)]))
   \<and> valid_manifest ([(''pipeline'', JObject example_pipeline)] @ (''Model'', JArray ([JObject example_model_b] @ JObject example_model_a # [])) # [(''resources'', JObject example_resource)])
   \<and> category_of ''Model'' = Some MLSVC_JSON_MODEL
   \<and> ''Model'' \<notin> fst ` set ([(''pipeline'', JObject example_pipeline)] @ [(''resources'', JObject example_resource)])
   \<and> fst (get_json_config (example_env (Some (JObject ([(''pipeline'', JObject example_pipeline)] @ (''Model'', JArray ([JObject example_model_b] @ JObject example_model_a # [])) # [(''resources'', JObject example_resource)])))) example_path (Some ''app-info'') [])
   \<and> agent_calls (snd (get_json_config (example_env (Some (JObject ([(''pipeline'', JObject example_pipeline)] @ (''Model'', JArray ([JObject example_model_b] @ JObject example_model_a # [])) # [(''resources'', JObject example_resource)])))) example_path (Some ''app-info'') [])) =
       [SetPipelineDescription ''p'' ''videotestsrc ! fakesink'',
        Register ''b'' ''/b'' False ''second'' ''app-info'',
        Register ''a'' ''/a'' True [] ''app-info'',
        AddResource ''r'' ''/r/1.png'' ''images'' ''app-info'',
        AddResource ''r'' ''/r/3.png'' ''images'' ''app-info'']
   \<and> manifest_at (example_env (Some (JObject ([(''pipeline'', JObject example_pipeline)] @ (''MODELS'', JArray ([JObject example_model_b] @ JObject example_model_a # [])) # [(''resources'', JObject example_resource)])))) example_path (JObject ([(''pipeline'', JObject example_pipeline)] @ (''MODELS'', JArray ([JObject example_model_b] @ JObject example_model_a # [])) # [(''resources'', JObject example_resource)]))
   \<and> c_string ''MODELS'' \<and> category_of ''MODELS'' = category_of ''Model''
   \<and> ''MODELS'' \<notin> fst ` set ([(''pipeline'', JObject example_pipeline)] @ [(''resources'', JObject example_resource)])
   \<and> fst (get_json_config (example_env (Some (JObject ([(''pipeline'', JObject example_pipeline)] @ (''MODELS'', JArray ([JObject example_model_b] @ JObject example_model_a # [])) # [(''resources'', JObject example_resource)])))) example_path (Some ''app-info'') [])
   \<and> agent_calls (snd (get_json_config (example_env (Some (JObject ([(''pipeline'', JObject example_pipeline)] @ (''MODELS'', JArray ([JObject example_model_b] @ JObject example_model_a # [])) # [(''resources'', JObject example_resource)])))) example_path (Some ''app-info'') [])) =
       [SetPipelineDescription ''p'' ''videotestsrc ! fakesink'',
        Register ''b'' ''/b'' False ''second'' ''app-info'',
        Register ''a'' ''/a'' True [] ''app-info'',
        AddResource ''r'' ''/r/1.png'' ''images'' ''app-info'',
        AddResource ''r'' ''/r/3.png'' ''images'' ''app-info'']
   \<and> manifest_at (example_env (Some (JObject ([(''pipeline'', JObject example_pipeline)] @ (''model'', JArray ([JObject example_model_b] @ JObject example_model_a # [])) # [(''resources'', JObject example_resource)])))) example_path (JObject ([(''pipeline'', JObject example_pipeline)] @ (''model'', JArray ([JObject example_model_b] @ JObject example_model_a # [])) # [(''resources'', JObject example_resource)]))
   \<and> c_string ''model'' \<and> category_of ''model'' = category_of ''Model''
   \<and> ''model'' \<notin> fst ` set ([(''pipeline'', JObject example_pipeline)] @ [(''resources'', JObject example_resource)])
   \<and> fst (get_json_config (example_env (Some (JObject ([(''pipeline'', JObject example_pipeline)] @ (''model'', JArray ([JObject example_model_b] @ JObject example_model_a # [])) # [(''resources'', JObject example_resource)])))) example_path (Some ''app-info'') [])
   \<and> agent_calls (snd (get_json_config (example_env (Some (JObject ([(''pipeline'', JObject example_pipeline)] @ (''model'', JArray ([JObject example_model_b] @ JObject example_model_a # [])) # [(''resources'', JObject example_resource)])))) example_path (Some ''app-info'') [])) =
       [SetPipelineDescription ''p'' ''videotestsrc ! fakesink'',
        Register ''b'' ''/b'' False ''second'' ''app-info'',
        Register ''a'' ''/a'' True [] ''app-info'',
        AddResource ''r'' ''/r/1.png'' ''images'' ''app-info'',
        AddResource ''r'' ''/r/3.png'' ''images'' ''app-info'']
   \<and> (\<forall>a. map_of example_model_b ''activate'' \<noteq> Some (JString a))
   \<and> agent_calls (snd (get_json_config (example_env (Some (JObject ([] @ (''model'', JObject example_model_b) # [])))) example_path (Some ''app-info'') [])) = [Register ''b'' ''/b'' False ''second'' ''app-info'']
   \<and> map_of [(''name'', JString ''c''), (''model'', JString ''/c''), (''activate'', JString ''yes'')] ''activate'' = Some (JString ''yes'') \<and> c_string ''yes''
   \<and> agent_calls (snd (get_json_config (example_env (Some (JObject ([] @ (''model'', JObject [(''name'', JString ''c''), (''model'', JString ''/c''), (''activate'', JString ''yes'')]) # [])))) example_path (Some ''app-info'') [])) = [Register ''c'' ''/c'' False [] ''app-info'']
   \<and> map_of [(''name'', JString ''d''), (''model'', JString ''/d''), (''activate'', JString ''TRUE'')] ''activate'' = Some (JString ''TRUE'') \<and> c_string ''TRUE''
   \<and> agent_calls (parse_json (ml_agent (example_env None)) (Some (JObject [(''name'', JString ''d''), (''model'', JString ''/d''), (''activate'', JString ''TRUE'')]))
         MLSVC_JSON_MODEL (Some ''app-info'') []) = [Register ''d'' ''/d'' True [] ''app-info'']"
proof -
  let ?ag = "ml_agent (example_env None)"
  let ?ka = "[(''pipeline'', JObject example_pipeline)] @ (''Model'', JArray ([JObject example_model_b] @ JObject example_model_a # [])) # [(''resources'', JObject example_resource)]"
  let ?kb = "[(''pipeline'', JObject example_pipeline)] @ (''MODELS'', JArray ([JObject example_model_b] @ JObject example_model_a # [])) # [(''resources'', JObject example_resource)]"
  let ?kc = "[(''pipeline'', JObject example_pipeline)] @ (''model'', JArray ([JObject example_model_b] @ JObject example_model_a # [])) # [(''resources'', JObject example_resource)]"
  let ?k2 = "[] @ (''model'', JObject example_model_b) # []"
  let ?k3 = "[] @ (''model'', JObject [(''name'', JString ''c''), (''model'', JString ''/c''), (''activate'', JString ''yes'')]) # []"
  let ?o3 = "[(''name'', JString ''c''), (''model'', JString ''/c''), (''activate'', JString ''yes'')]"
  let ?o4 = "[(''name'', JString ''d''), (''model'', JString ''/d''), (''activate'', JString ''TRUE'')]"
  let ?L = "[SetPipelineDescription ''p'' ''videotestsrc ! fakesink'',
        Register ''b'' ''/b'' False ''second'' ''app-info'',
        Register ''a'' ''/a'' True [] ''app-info'',
        AddResource ''r'' ''/r/1.png'' ''images'' ''app-info'',
        AddResource ''r'' ''/r/3.png'' ''images'' ''app-info'']"
  have kt: "key_type ''Model'' = Some MLSVC_JSON_MODEL"
    "key_type ''model'' = Some MLSVC_JSON_MODEL"
    "key_type ''resources'' = Some MLSVC_JSON_RESOURCE"
    "key_type ''pipeline'' = Some MLSVC_JSON_PIPELINE"
    by code_simp+
  have cs: "c_string ''Model''" "c_string ''MODELS''" "c_string ''model''" "c_string ''True''"
    "c_string ''yes''" "c_string ''TRUE''"
    by (simp_all add: c_string_def)
  have co: "category_of ''Model'' = Some MLSVC_JSON_MODEL"
    "category_of ''MODELS'' = category_of ''Model''"
    "category_of ''model'' = category_of ''Model''"
    "category_of ''model'' = Some MLSVC_JSON_MODEL"
    by code_simp+
  have lo: "(ascii_lower ''True'' = ''true'') = True" "(ascii_lower ''yes'' = ''true'') = False"
    "(ascii_lower ''TRUE'' = ''true'') = True"
    by code_simp+
  have ma: "manifest_at (example_env (Some (JObject ?ka))) example_path (JObject ?ka)"
    and mb: "manifest_at (example_env (Some (JObject ?kb))) example_path (JObject ?kb)"
    and mc: "manifest_at (example_env (Some (JObject ?kc))) example_path (JObject ?kc)"
    and m2: "manifest_at (example_env (Some (JObject ?k2))) example_path (JObject ?k2)"
    and m3: "manifest_at (example_env (Some (JObject ?k3))) example_path (JObject ?k3)"
    by (simp_all add: manifest_at_def example_env_def example_path_def)
  have va: "valid_manifest ?ka" and v2: "valid_manifest ?k2" and v3: "valid_manifest ?k3"
    by (simp_all add: valid_manifest_def kt)
  have fa: "''Model'' \<notin> fst ` set ([(''pipeline'', JObject example_pipeline)] @ [(''resources'', JObject example_resource)])"
    and fb: "''MODELS'' \<notin> fst ` set ([(''pipeline'', JObject example_pipeline)] @ [(''resources'', JObject example_resource)])"
    and fc: "''model'' \<notin> fst ` set ([(''pipeline'', JObject example_pipeline)] @ [(''resources'', JObject example_resource)])"
    and fp: "''Model'' \<notin> fst ` set [(''pipeline'', JObject example_pipeline)]"
    by simp_all
  have f0: "k \<notin> fst ` set ([] :: (string \<times> json) list)" for k by simp
  have na: "map_of example_model_a ''name'' = Some (JString ''a'')"
    and pa: "map_of example_model_a ''model'' = Some (JString ''/a'')"
    and aa: "map_of example_model_a ''activate'' = Some (JString ''True'')"
    and da: "field_string example_model_a ''description'' = []"
    by (simp_all add: example_model_a_def field_string_def)
  have nb: "map_of example_model_b ''name'' = Some (JString ''b'')"
    and pb: "map_of example_model_b ''model'' = Some (JString ''/b'')"
    and ab: "\<forall>a. map_of example_model_b ''activate'' \<noteq> Some (JString a)"
    and db: "field_string example_model_b ''description'' = ''second''"
    by (simp_all add: example_model_b_def field_string_def)
  have n3: "map_of ?o3 ''name'' = Some (JString ''c'')"
    and p3: "map_of ?o3 ''model'' = Some (JString ''/c'')"
    and a3: "map_of ?o3 ''activate'' = Some (JString ''yes'')"
    and d3: "field_string ?o3 ''description'' = []"
    by (simp_all add: field_string_def)
  have n4: "map_of ?o4 ''name'' = Some (JString ''d'')"
    and p4: "map_of ?o4 ''model'' = Some (JString ''/d'')"
    and a4: "map_of ?o4 ''activate'' = Some (JString ''TRUE'')"
    and d4: "field_string ?o4 ''description'' = []"
    by (simp_all add: field_string_def)
  have b1: "agent_calls (snd (config_members (ml_agent (example_env (Some (JObject ?ka))))
               (Some ?ka) (Some ''app-info'') (map fst [(''pipeline'', JObject example_pipeline)]) []))
            @ agent_calls (parse_json ?ag (Some (JArray [JObject example_model_b]))
                 MLSVC_JSON_MODEL (Some ''app-info'') []) =
            [SetPipelineDescription ''p'' ''videotestsrc ! fakesink'',
             Register ''b'' ''/b'' False ''second'' ''app-info'']"
    by code_simp
  have a1: "agent_calls (parse_json ?ag (Some (JArray [])) MLSVC_JSON_MODEL
               (Some ''app-info'') [])
            @ agent_calls (snd (config_members (ml_agent (example_env (Some (JObject ?ka))))
                 (Some ?ka) (Some ''app-info'') (map fst [(''resources'', JObject example_resource)]) [])) =
            [AddResource ''r'' ''/r/1.png'' ''images'' ''app-info'',
             AddResource ''r'' ''/r/3.png'' ''images'' ''app-info'']"
    by code_simp
  have e0: "agent_calls (snd (config_members g b c (map fst ([] :: (string \<times> json) list)) [])) = []"
    "agent_calls (parse_json ?ag (Some (JArray [])) MLSVC_JSON_MODEL (Some ''app-info'') []) = []"
    for g b c
    by (simp_all add: parse_json_calls)
  note T = C9_case_insensitive [where app_info = "Some ''app-info''" and tr = "[]"
      and tr' = "[]" and ag = ?ag and ty = MLSVC_JSON_MODEL and object = None and iter = "[]"
      and path = example_path and path' = example_path]
  note TA = T [OF cs(1) na pa, where pre = "[(''pipeline'', JObject example_pipeline)]" and post = "[(''resources'', JObject example_resource)]" and v = "JArray ([JObject example_model_b] @ JObject example_model_a # [])"
      and xs = "[JObject example_model_b]" and ys = "[]" and a = "''True''"
      and e = "example_env (Some (JObject ?ka))", unfolded Let_def]
  have wa: "fst (get_json_config (example_env (Some (JObject ([(''pipeline'', JObject example_pipeline)] @ (''Model'', JArray ([JObject example_model_b] @ JObject example_model_a # [])) # [(''resources'', JObject example_resource)])))) example_path (Some ''app-info'') []) \<and> agent_calls (snd (get_json_config (example_env (Some (JObject ([(''pipeline'', JObject example_pipeline)] @ (''Model'', JArray ([JObject example_model_b] @ JObject example_model_a # [])) # [(''resources'', JObject example_resource)])))) example_path (Some ''app-info'') [])) = ?L"
    using TA [where k' = "''MODELS''" and e' = "example_env (Some (JObject ?kb))"]
      aa cs(4) ma va co(1) fp b1 a1
    by (simp add: da or_empty_def lo)
  have wb: "fst (get_json_config (example_env (Some (JObject ([(''pipeline'', JObject example_pipeline)] @ (''MODELS'', JArray ([JObject example_model_b] @ JObject example_model_a # [])) # [(''resources'', JObject example_resource)])))) example_path (Some ''app-info'') []) \<and> agent_calls (snd (get_json_config (example_env (Some (JObject ([(''pipeline'', JObject example_pipeline)] @ (''MODELS'', JArray ([JObject example_model_b] @ JObject example_model_a # [])) # [(''resources'', JObject example_resource)])))) example_path (Some ''app-info'') [])) = ?L"
    using TA [where k' = "''MODELS''" and e' = "example_env (Some (JObject ?kb))"]
      ma mb cs(2) co(2) fa fb wa
    by simp
  have wc: "fst (get_json_config (example_env (Some (JObject ([(''pipeline'', JObject example_pipeline)] @ (''model'', JArray ([JObject example_model_b] @ JObject example_model_a # [])) # [(''resources'', JObject example_resource)])))) example_path (Some ''app-info'') []) \<and> agent_calls (snd (get_json_config (example_env (Some (JObject ([(''pipeline'', JObject example_pipeline)] @ (''model'', JArray ([JObject example_model_b] @ JObject example_model_a # [])) # [(''resources'', JObject example_resource)])))) example_path (Some ''app-info'') [])) = ?L"
    using TA [where k' = "''model''" and e' = "example_env (Some (JObject ?kc))"]
      ma mc cs(3) co(3) fa fc wa
    by simp
  have w2: "agent_calls (snd (get_json_config (example_env (Some (JObject ([] @ (''model'', JObject example_model_b) # [])))) example_path (Some ''app-info'') [])) = [Register ''b'' ''/b'' False ''second'' ''app-info'']"
    using T [OF cs(3) nb pb, where pre = "[]" and post = "[]" and v = "JObject example_model_b"
      and xs = "[]" and ys = "[]" and a = "''True''" and k' = "''model''"
      and e = "example_env (Some (JObject ?k2))" and e' = "example_env None", unfolded Let_def]
      ab m2 v2 co(4) f0
    by (simp add: db or_empty_def e0)
  have w3: "agent_calls (snd (get_json_config (example_env (Some (JObject ([] @ (''model'', JObject [(''name'', JString ''c''), (''model'', JString ''/c''), (''activate'', JString ''yes'')]) # [])))) example_path (Some ''app-info'') [])) = [Register ''c'' ''/c'' False [] ''app-info'']"
    using T [OF cs(3) n3 p3, where pre = "[]" and post = "[]" and v = "JObject ?o3"
      and xs = "[]" and ys = "[]" and a = "''yes''" and k' = "''model''"
      and e = "example_env (Some (JObject ?k3))" and e' = "example_env None", unfolded Let_def]
      a3 cs(5) m3 v3 co(4) f0
    by (simp add: d3 or_empty_def e0 lo)
  have w4: "agent_calls (parse_json ?ag (Some (JObject ?o4)) MLSVC_JSON_MODEL
              (Some ''app-info'') []) = [Register ''d'' ''/d'' True [] ''app-info'']"
    using T [OF cs(3) n4 p4, where pre = "[]" and post = "[]" and v = "JObject ?o4"
      and xs = "[]" and ys = "[]" and a = "''TRUE''" and k' = "''model''"
      and e = "example_env None" and e' = "example_env None", unfolded Let_def]
      a4 cs(6)
    by (simp add: d4 or_empty_def lo)
  from cs na pa aa ma va co fa wa mb fb wb mc fc wc ab w2 a3 w3 a4 w4 show ?thesis
    by blast
qed

section \<open>Properties of the model D-Bus interface\<close>

subsection \<open>The request handlers and their table\<close>

lemma invoke_cb_result:
  assumes "invoke_cb db c invoc req tr = Some r"
  shows "\<exists>call cmp. r = (True, tr @ [Svcdb call, Complete invoc cmp])
           \<and> completion_status cmp = fst (db (svcdb_calls tr) call)"
proof (cases c)
  case Cb_model_register
  with assms show ?thesis
    by (cases req)
       (auto simp: invoke_cb_def gdbus_cb_model_register_def completion_status_def Let_def
          split: prod.splits)
next
  case Cb_model_update_description
  with assms show ?thesis
    by (cases req)
       (auto simp: invoke_cb_def gdbus_cb_model_update_description_def completion_status_def
          Let_def split: prod.splits)
next
  case Cb_model_activate
  with assms show ?thesis
    by (cases req)
       (auto simp: invoke_cb_def gdbus_cb_model_activate_def completion_status_def Let_def
          split: prod.splits)
next
  case Cb_model_get
  with assms show ?thesis
    by (cases req)
       (auto simp: invoke_cb_def gdbus_cb_model_get_def completion_status_def Let_def
          split: prod.splits)
next
  case Cb_model_get_activated
  with assms show ?thesis
    by (cases req)
       (auto simp: invoke_cb_def gdbus_cb_model_get_activated_def completion_status_def Let_def
          split: prod.splits)
next
  case Cb_model_get_all
  with assms show ?thesis
    by (cases req)
       (auto simp: invoke_cb_def gdbus_cb_model_get_all_def completion_status_def Let_def
          split: prod.splits)
next
  case Cb_model_delete
  with assms show ?thesis
    by (cases req)
       (auto simp: invoke_cb_def gdbus_cb_model_delete_def completion_status_def Let_def
          split: prod.splits)
qed

lemma invoke_cb_accepts: "\<exists>req. invoke_cb db c invoc req tr \<noteq> None"
proof (cases c)
  case Cb_model_register
  then have "invoke_cb db c invoc (Req_register [] [] False [] []) tr \<noteq> None"
    by (simp add: invoke_cb_def)
  then show ?thesis ..
next
  case Cb_model_update_description
  then have "invoke_cb db c invoc (Req_update_description [] 0 []) tr \<noteq> None"
    by (simp add: invoke_cb_def)
  then show ?thesis ..
next
  case Cb_model_activate
  then have "invoke_cb db c invoc (Req_activate [] 0) tr \<noteq> None"
    by (simp add: invoke_cb_def)
  then show ?thesis ..
next
  case Cb_model_get
  then have "invoke_cb db c invoc (Req_get [] 0) tr \<noteq> None"
    by (simp add: invoke_cb_def)
  then show ?thesis ..
next
  case Cb_model_get_activated
  then have "invoke_cb db c invoc (Req_get_activated []) tr \<noteq> None"
    by (simp add: invoke_cb_def)
  then show ?thesis ..
next
  case Cb_model_get_all
  then have "invoke_cb db c invoc (Req_get_all []) tr \<noteq> None"
    by (simp add: invoke_cb_def)
  then show ?thesis ..
next
  case Cb_model_delete
  then have "invoke_cb db c invoc (Req_delete [] 0 False) tr \<noteq> None"
    by (simp add: invoke_cb_def)
  then show ?thesis ..
qed

text \<open>
  Claim C6 as stated fails on the count: the dispatch table of the model interface binds
  seven handlers, not nine.
\<close>

theorem C6_nine_handlers_counterexample:
  "length handler_infos = 7 \<and> length handler_infos \<noteq> 9"
  by (simp add: handler_infos_def)

text \<open>
  Claim C6 as amended. The table binds seven handlers: Register, UpdateDescription,
  Activate, Get, GetActivated, GetAll and Delete, in this order. Whatever the database
  answers, a handler of the table called on arguments of its signature returns \<open>TRUE\<close>
  after exactly two steps: one call of the database and one completion of the
  invocation it was given, whose status is the status of that call; and every handler
  accepts some request. Handler by handler: Register calls \<open>svcdb_model_add\<close> and
  completes with the version the call wrote (0 when it wrote none) and its status;
  UpdateDescription, Activate and Delete call the operation of their name and complete
  with its status; Get, GetActivated and GetAll call the operation of their name and
  complete with the model information the call wrote (\<open>NULL\<close> when it wrote none) and
  its status. Each entry of the table calls the handler of its signal.
\<close>

theorem C6_seven_handlers:
  "length handler_infos = 7
   \<and> map signal_name handler_infos =
       [DBUS_MODEL_I_HANDLER_REGISTER, DBUS_MODEL_I_HANDLER_UPDATE_DESCRIPTION,
        DBUS_MODEL_I_HANDLER_ACTIVATE, DBUS_MODEL_I_HANDLER_GET,
        DBUS_MODEL_I_HANDLER_GET_ACTIVATED, DBUS_MODEL_I_HANDLER_GET_ALL,
        DBUS_MODEL_I_HANDLER_DELETE]
   \<and> map cb handler_infos =
       [Cb_model_register, Cb_model_update_description, Cb_model_activate, Cb_model_get,
        Cb_model_get_activated, Cb_model_get_all, Cb_model_delete]
   \<and> (\<forall>info \<in> set handler_infos. \<forall>req r.
         invoke_cb db (cb info) invoc req tr = Some r \<longrightarrow>
         (\<exists>call cmp. r = (True, tr @ [Svcdb call, Complete invoc cmp])
            \<and> completion_status cmp = fst (db (svcdb_calls tr) call)))
   \<and> (\<forall>info \<in> set handler_infos. \<exists>req. invoke_cb db (cb info) invoc req tr \<noteq> None)
   \<and> (let c = Svcdb_model_add name path is_active description app_info;
           ret = fst (db (svcdb_calls tr) c);
           out = snd (db (svcdb_calls tr) c)
       in gdbus_cb_model_register db invoc name path is_active description app_info tr =
            (True, tr @ [Svcdb c, Complete invoc (Complete_register (case out of Out_version v \<Rightarrow> v | _ \<Rightarrow> 0) ret)])
        \<and> invoke_cb db (cb (handler_infos ! 0)) invoc (Req_register name path is_active description app_info) tr =
            Some (True, tr @ [Svcdb c, Complete invoc (Complete_register (case out of Out_version v \<Rightarrow> v | _ \<Rightarrow> 0) ret)]))
   \<and> (let c = Svcdb_model_update_description name version description;
           ret = fst (db (svcdb_calls tr) c);
           out = snd (db (svcdb_calls tr) c)
       in gdbus_cb_model_update_description db invoc name version description tr =
            (True, tr @ [Svcdb c, Complete invoc (Complete_update_description ret)])
        \<and> invoke_cb db (cb (handler_infos ! 1)) invoc (Req_update_description name version description) tr =
            Some (True, tr @ [Svcdb c, Complete invoc (Complete_update_description ret)]))
   \<and> (let c = Svcdb_model_activate name version;
           ret = fst (db (svcdb_calls tr) c);
           out = snd (db (svcdb_calls tr) c)
       in gdbus_cb_model_activate db invoc name version tr =
            (True, tr @ [Svcdb c, Complete invoc (Complete_activate ret)])
        \<and> invoke_cb db (cb (handler_infos ! 2)) invoc (Req_activate name version) tr =
            Some (True, tr @ [Svcdb c, Complete invoc (Complete_activate ret)]))
   \<and> (let c = Svcdb_model_get name version;
           ret = fst (db (svcdb_calls tr) c);
           out = snd (db (svcdb_calls tr) c)
       in gdbus_cb_model_get db invoc name version tr =
            (True, tr @ [Svcdb c, Complete invoc (Complete_get (case out of Out_info s \<Rightarrow> s | _ \<Rightarrow> None) ret)])
        \<and> invoke_cb db (cb (handler_infos ! 3)) invoc (Req_get name version) tr =
            Some (True, tr @ [Svcdb c, Complete invoc (Complete_get (case out of Out_info s \<Rightarrow> s | _ \<Rightarrow> None) ret)]))
   \<and> (let c = Svcdb_model_get_activated name;
           ret = fst (db (svcdb_calls tr) c);
           out = snd (db (svcdb_calls tr) c)
       in gdbus_cb_model_get_activated db invoc name tr =
            (True, tr @ [Svcdb c, Complete invoc (Complete_get_activated (case out of Out_info s \<Rightarrow> s | _ \<Rightarrow> None) ret)])
        \<and> invoke_cb db (cb (handler_infos ! 4)) invoc (Req_get_activated name) tr =
            Some (True, tr @ [Svcdb c, Complete invoc (Complete_get_activated (case out of Out_info s \<Rightarrow> s | _ \<Rightarrow> None) ret)]))
   \<and> (let c = Svcdb_model_get_all name;
           ret = fst (db (svcdb_calls tr) c);
           out = snd (db (svcdb_calls tr) c)
       in gdbus_cb_model_get_all db invoc name tr =
            (True, tr @ [Svcdb c, Complete invoc (Complete_get_all (case out of Out_info s \<Rightarrow> s | _ \<Rightarrow> None) ret)])
        \<and> invoke_cb db (cb (handler_infos ! 5)) invoc (Req_get_all name) tr =
            Some (True, tr @ [Svcdb c, Complete invoc (Complete_get_all (case out of Out_info s \<Rightarrow> s | _ \<Rightarrow> None) ret)]))
   \<and> (let c = Svcdb_model_delete name version force;
           ret = fst (db (svcdb_calls tr) c);
           out = snd (db (svcdb_calls tr) c)
       in gdbus_cb_model_delete db invoc name version force tr =
            (True, tr @ [Svcdb c, Complete invoc (Complete_delete ret)])
        \<and> invoke_cb db (cb (handler_infos ! 6)) invoc (Req_delete name version force) tr =
            Some (True, tr @ [Svcdb c, Complete invoc (Complete_delete ret)]))"
proof -
  have tbl: "length handler_infos = 7"
    "map signal_name handler_infos =
       [DBUS_MODEL_I_HANDLER_REGISTER, DBUS_MODEL_I_HANDLER_UPDATE_DESCRIPTION,
        DBUS_MODEL_I_HANDLER_ACTIVATE, DBUS_MODEL_I_HANDLER_GET,
        DBUS_MODEL_I_HANDLER_GET_ACTIVATED, DBUS_MODEL_I_HANDLER_GET_ALL,
        DBUS_MODEL_I_HANDLER_DELETE]"
    "map cb handler_infos =
       [Cb_model_register, Cb_model_update_description, Cb_model_activate, Cb_model_get,
        Cb_model_get_activated, Cb_model_get_all, Cb_model_delete]"
    by (simp_all add: handler_infos_def)
  have general: "(\<forall>info \<in> set handler_infos. \<forall>req r.
         invoke_cb db (cb info) invoc req tr = Some r \<longrightarrow>
         (\<exists>call cmp. r = (True, tr @ [Svcdb call, Complete invoc cmp])
            \<and> completion_status cmp = fst (db (svcdb_calls tr) call)))
   \<and> (\<forall>info \<in> set handler_infos. \<exists>req. invoke_cb db (cb info) invoc req tr \<noteq> None)"
    using invoke_cb_result [of db _ invoc _ tr] invoke_cb_accepts [of db _ invoc tr]
    by blast
  have bound: "cb (handler_infos ! 0) = Cb_model_register"
    "cb (handler_infos ! 1) = Cb_model_update_description"
    "cb (handler_infos ! 2) = Cb_model_activate"
    "cb (handler_infos ! 3) = Cb_model_get"
    "cb (handler_infos ! 4) = Cb_model_get_activated"
    "cb (handler_infos ! 5) = Cb_model_get_all"
    "cb (handler_infos ! 6) = Cb_model_delete"
    by (simp_all add: handler_infos_def)
  have h0: "(let c = Svcdb_model_add name path is_active description app_info;
           ret = fst (db (svcdb_calls tr) c);
           out = snd (db (svcdb_calls tr) c)
       in gdbus_cb_model_register db invoc name path is_active description app_info tr =
            (True, tr @ [Svcdb c, Complete invoc (Complete_register (case out of Out_version v \<Rightarrow> v | _ \<Rightarrow> 0) ret)])
        \<and> invoke_cb db (cb (handler_infos ! 0)) invoc (Req_register name path is_active description app_info) tr =
            Some (True, tr @ [Svcdb c, Complete invoc (Complete_register (case out of Out_version v \<Rightarrow> v | _ \<Rightarrow> 0) ret)]))"
    using bound by (simp add: invoke_cb_def gdbus_cb_model_register_def version_after_def
        model_info_after_def Let_def split_beta)
  have h1: "(let c = Svcdb_model_update_description name version description;
           ret = fst (db (svcdb_calls tr) c);
           out = snd (db (svcdb_calls tr) c)
       in gdbus_cb_model_update_description db invoc name version description tr =
            (True, tr @ [Svcdb c, Complete invoc (Complete_update_description ret)])
        \<and> invoke_cb db (cb (handler_infos ! 1)) invoc (Req_update_description name version description) tr =
            Some (True, tr @ [Svcdb c, Complete invoc (Complete_update_description ret)]))"
    using bound by (simp add: invoke_cb_def gdbus_cb_model_update_description_def version_after_def
        model_info_after_def Let_def split_beta)
  have h2: "(let c = Svcdb_model_activate name version;
           ret = fst (db (svcdb_calls tr) c);
           out = snd (db (svcdb_calls tr) c)
       in gdbus_cb_model_activate db invoc name version tr =
            (True, tr @ [Svcdb c, Complete invoc (Complete_activate ret)])
        \<and> invoke_cb db (cb (handler_infos ! 2)) invoc (Req_activate name version) tr =
            Some (True, tr @ [Svcdb c, Complete invoc (Complete_activate ret)]))"
    using bound by (simp add: invoke_cb_def gdbus_cb_model_activate_def version_after_def
        model_info_after_def Let_def split_beta)
  have h3: "(let c = Svcdb_model_get name version;
           ret = fst (db (svcdb_calls tr) c);
           out = snd (db (svcdb_calls tr) c)
       in gdbus_cb_model_get db invoc name version tr =
            (True, tr @ [Svcdb c, Complete invoc (Complete_get (case out of Out_info s \<Rightarrow> s | _ \<Rightarrow> None) ret)])
        \<and> invoke_cb db (cb (handler_infos ! 3)) invoc (Req_get name version) tr =
            Some (True, tr @ [Svcdb c, Complete invoc (Complete_get (case out of Out_info s \<Rightarrow> s | _ \<Rightarrow> None) ret)]))"
    using bound by (simp add: invoke_cb_def gdbus_cb_model_get_def version_after_def
        model_info_after_def Let_def split_beta)
  have h4: "(let c = Svcdb_model_get_activated name;
           ret = fst (db (svcdb_calls tr) c);
           out = snd (db (svcdb_calls tr) c)
       in gdbus_cb_model_get_activated db invoc name tr =
            (True, tr @ [Svcdb c, Complete invoc (Complete_get_activated (case out of Out_info s \<Rightarrow> s | _ \<Rightarrow> None) ret)])
        \<and> invoke_cb db (cb (handler_infos ! 4)) invoc (Req_get_activated name) tr =
            Some (True, tr @ [Svcdb c, Complete invoc (Complete_get_activated (case out of Out_info s \<Rightarrow> s | _ \<Rightarrow> None) ret)]))"
    using bound by (simp add: invoke_cb_def gdbus_cb_model_get_activated_def version_after_def
        model_info_after_def Let_def split_beta)
  have h5: "(let c = Svcdb_model_get_all name;
           ret = fst (db (svcdb_calls tr) c);
           out = snd (db (svcdb_calls tr) c)
       in gdbus_cb_model_get_all db invoc name tr =
            (True, tr @ [Svcdb c, Complete invoc (Complete_get_all (case out of Out_info s \<Rightarrow> s | _ \<Rightarrow> None) ret)])
        \<and> invoke_cb db (cb (handler_infos ! 5)) invoc (Req_get_all name) tr =
            Some (True, tr @ [Svcdb c, Complete invoc (Complete_get_all (case out of Out_info s \<Rightarrow> s | _ \<Rightarrow> None) ret)]))"
    using bound by (simp add: invoke_cb_def gdbus_cb_model_get_all_def version_after_def
        model_info_after_def Let_def split_beta)
  have h6: "(let c = Svcdb_model_delete name version force;
           ret = fst (db (svcdb_calls tr) c);
           out = snd (db (svcdb_calls tr) c)
       in gdbus_cb_model_delete db invoc name version force tr =
            (True, tr @ [Svcdb c, Complete invoc (Complete_delete ret)])
        \<and> invoke_cb db (cb (handler_infos ! 6)) invoc (Req_delete name version force) tr =
            Some (True, tr @ [Svcdb c, Complete invoc (Complete_delete ret)]))"
    using bound by (simp add: invoke_cb_def gdbus_cb_model_delete_def version_after_def
        model_info_after_def Let_def split_beta)
  from tbl general h0 h1 h2 h3 h4 h5 h6 show ?thesis
    by (intro conjI) (rule tbl general [THEN conjunct1] general [THEN conjunct2] h0 h1 h2 h3 h4 h5 h6)+
qed


text \<open>
  Claim C6 as amended, on the example database: a Delete request is completed with the
  status \<open>-5\<close> of the failed call, a Get request with the information and the status 0
  of the call, a GetActivated request with no information and \<open>-5\<close>, and a Register
  request with the version 1 and the status 0.
\<close>

theorem C6_seven_handlers_witness:
  "\<lparr>signal_name = DBUS_MODEL_I_HANDLER_DELETE, cb = Cb_model_delete, cb_data = None,
      handler_id = 0\<rparr> \<in> set handler_infos
   \<and> invoke_cb example_svcdb Cb_model_delete 1 (Req_delete ''m'' 2 True) [] =
       Some (True, [Svcdb (Svcdb_model_delete ''m'' 2 True), Complete 1 (Complete_delete (- 5))])
   \<and> (\<exists>call cmp.
         (True, [Svcdb (Svcdb_model_delete ''m'' 2 True), Complete 1 (Complete_delete (- 5))]) =
           (True, [] @ [Svcdb call, Complete 1 cmp])
         \<and> completion_status cmp = fst (example_svcdb (svcdb_calls []) call))
   \<and> invoke_cb example_svcdb (cb (handler_infos ! 3)) 1 (Req_get ''m'' 2) [] =
       Some (True, [Svcdb (Svcdb_model_get ''m'' 2),
                    Complete 1 (Complete_get (Some ''info of m'') 0)])
   \<and> invoke_cb example_svcdb (cb (handler_infos ! 4)) 1 (Req_get_activated ''m'') [] =
       Some (True, [Svcdb (Svcdb_model_get_activated ''m''),
                    Complete 1 (Complete_get_activated None (- 5))])
   \<and> invoke_cb example_svcdb (cb (handler_infos ! 0)) 1
         (Req_register ''m'' ''/m'' True ''d'' ''ai'') [] =
       Some (True, [Svcdb (Svcdb_model_add ''m'' ''/m'' True ''d'' ''ai''),
                    Complete 1 (Complete_register 1 0)])"
proof -
  let ?i = "\<lparr>signal_name = DBUS_MODEL_I_HANDLER_DELETE, cb = Cb_model_delete, cb_data = None,
      handler_id = 0\<rparr>"
  note T = C6_seven_handlers [of example_svcdb 1 "[]" "''m''" "''/m''" True "''d''" "''ai''"
      2 True, unfolded Let_def]
  have mem: "?i \<in> set handler_infos"
    by (simp add: handler_infos_def)
  have db: "example_svcdb [] (Svcdb_model_get ''m'' 2) = (0, Out_info (Some ''info of m''))"
    "example_svcdb [] (Svcdb_model_get_activated ''m'') = (- 5, No_out)"
    "example_svcdb [] (Svcdb_model_add ''m'' ''/m'' True ''d'' ''ai'') = (0, Out_version 1)"
    "example_svcdb [] (Svcdb_model_delete ''m'' 2 True) = (- 5, No_out)"
    by (simp_all add: example_svcdb_def)
  have six: "cb (handler_infos ! 6) = cb ?i"
    by (simp add: handler_infos_def)
  have run: "invoke_cb example_svcdb (cb ?i) 1 (Req_delete ''m'' 2 True) [] =
       Some (True, [Svcdb (Svcdb_model_delete ''m'' 2 True), Complete 1 (Complete_delete (- 5))])"
    using T six by (simp add: db)
  from T mem run
  have ex: "\<exists>call cmp.
         (True, [Svcdb (Svcdb_model_delete ''m'' 2 True), Complete 1 (Complete_delete (- 5))]) =
           (True, [] @ [Svcdb call, Complete 1 cmp])
         \<and> completion_status cmp = fst (example_svcdb (svcdb_calls []) call)"
    by blast
  have get: "invoke_cb example_svcdb (cb (handler_infos ! 3)) 1 (Req_get ''m'' 2) [] =
       Some (True, [Svcdb (Svcdb_model_get ''m'' 2),
                    Complete 1 (Complete_get (Some ''info of m'') 0)])"
    and act: "invoke_cb example_svcdb (cb (handler_infos ! 4)) 1 (Req_get_activated ''m'') [] =
       Some (True, [Svcdb (Svcdb_model_get_activated ''m''),
                    Complete 1 (Complete_get_activated None (- 5))])"
    and reg: "invoke_cb example_svcdb (cb (handler_infos ! 0)) 1
         (Req_register ''m'' ''/m'' True ''d'' ''ai'') [] =
       Some (True, [Svcdb (Svcdb_model_add ''m'' ''/m'' True ''d'' ''ai''),
                    Complete 1 (Complete_register 1 0)])"
    using T by (simp_all add: db)
  from mem run ex get act reg show ?thesis by simp
qed

subsection \<open>The probe of the module\<close>





end
